theory Spec2Isabelle
  imports Main "HOL-Library.Word"
begin

unbundle bit_operations_syntax

section \<open>Detection facts\<close>

text \<open>
  The capability words of \<open>boot_cpu_data\<close> (feature bits and bug bits share one bitmap in
  the kernel) are a set of capability names; \<open>boot_cpu_has\<close> and \<open>boot_cpu_has_bug\<close> test
  membership. Only the names that arch/x86/kernel/cpu/bugs.c mentions are listed.
\<close>

datatype cpu_cap =
    X86_FEATURE_MD_CLEAR | X86_FEATURE_RTM | X86_FEATURE_FLUSH_L1D
  | X86_FEATURE_HYPERVISOR | X86_FEATURE_SRBDS_CTRL | X86_FEATURE_SMAP
  | X86_FEATURE_IBPB | X86_FEATURE_STIBP | X86_FEATURE_SSBD
  | X86_FEATURE_MSR_SPEC_CTRL | X86_FEATURE_VIRT_SSBD | X86_FEATURE_LS_CFG_SSBD
  | X86_FEATURE_LFENCE_RDTSC | X86_FEATURE_IBRS_ENHANCED | X86_FEATURE_AVX
  | X86_FEATURE_FENCE_SWAPGS_USER | X86_FEATURE_FENCE_SWAPGS_KERNEL
  | X86_FEATURE_RETHUNK | X86_FEATURE_UNRET | X86_FEATURE_ENTRY_IBPB
  | X86_FEATURE_SPEC_STORE_BYPASS_DISABLE | X86_FEATURE_L1TF_PTEINV
  | X86_FEATURE_USE_IBPB | X86_FEATURE_RSB_CTXSW | X86_FEATURE_RRSBA_CTRL
  | X86_BUG_MDS | X86_BUG_MSBDS_ONLY | X86_BUG_TAA | X86_BUG_MMIO_STALE_DATA
  | X86_BUG_SRBDS | X86_BUG_GDS | X86_BUG_RETBLEED | X86_BUG_SPECTRE_V1
  | X86_BUG_SPECTRE_V2 | X86_BUG_SPEC_STORE_BYPASS | X86_BUG_L1TF
  | X86_BUG_SWAPGS | X86_BUG_CPU_MELTDOWN

datatype x86_vendor = X86_VENDOR_INTEL | X86_VENDOR_AMD | X86_VENDOR_OTHER

text \<open>
  Modelled from the spec: the global "mitigations disabled" override and the process-wide
  "auto-disable SMT for mitigations" policy. \<open>cpu_mitigations_off()\<close> and
  \<open>cpu_mitigations_auto_nosmt()\<close> are defined in kernel/cpu.c, which is not under src;
  they compare one three-valued setting.
\<close>

datatype cpu_mitigations =
  CPU_MITIGATIONS_OFF | CPU_MITIGATIONS_AUTO | CPU_MITIGATIONS_AUTO_NOSMT

type_synonym u64 = "64 word"

datatype spectre_v2_mitigation =
  SPECTRE_V2_NONE | SPECTRE_V2_RETPOLINE_MINIMAL | SPECTRE_V2_RETPOLINE_NO_IBPB
  | SPECTRE_V2_RETPOLINE_UNSAFE_MODULE | SPECTRE_V2_RETPOLINE_AMD | SPECTRE_V2_RETPOLINE
  | SPECTRE_V2_RETPOLINE_IBRS_USER | SPECTRE_V2_IBRS | SPECTRE_V2_IBRS_ALWAYS
  | SPECTRE_V2_IBP_DISABLED | SPECTRE_V2_IBRS_ENHANCED

text \<open>
  Modelled from the spec: the Spectre V2 modes that the hardware supports. The functions
  of arch/x86/kernel/spec_ctrl.c that \<open>__spectre_v2_select_mitigation\<close> calls are not
  under src, so each of them is a parameter of the machine: the Spectre V2 choice it
  leaves, and for a function that returns a bool, \<open>None\<close> when it returns false and
  leaves the choice as it was. What they do depends on the machine only, and of the
  variables modelled here they write the Spectre V2 choice only. \<open>retp_compiler\<close> is the
  answer of \<open>retp_compiler()\<close>.
\<close>

record spec_ctrl =
  retp_compiler :: bool
  spec_ctrl_enable_ibrs_enhanced :: spectre_v2_mitigation
  spec_ctrl_enable_retpoline :: spectre_v2_mitigation
  spec_ctrl_enable_retpoline_amd :: spectre_v2_mitigation
  spec_ctrl_force_enable_ibrs :: "spectre_v2_mitigation option"
  spec_ctrl_enable_ibrs_always :: "spectre_v2_mitigation option"
  spec_ctrl_force_enable_ibp_disabled :: "spectre_v2_mitigation option"
  spec_ctrl_enable_retpoline_ibrs_user :: "spectre_v2_mitigation option"
  spec_ctrl_cond_enable_ibrs :: "bool \<Rightarrow> spectre_v2_mitigation option"
  spec_ctrl_cond_enable_ibp_disabled :: "spectre_v2_mitigation option"

text \<open>
  The last three fields are what the boot command line holds for Spectre V2: whether
  \<open>nospectre_v2\<close> is on it, and what \<open>cmdline_find_option\<close> answers for
  \<open>spectre_v2\<close> (the returned length, negative when the option is absent, and the text
  left in the buffer).
\<close>

record facts =
  x86_capability :: "cpu_cap set"
  x86_vendor :: x86_vendor
  ia32_cap :: u64                   \<comment> \<open>what \<open>x86_read_arch_cap_msr()\<close> returns\<close>
  cpu_mitigations :: cpu_mitigations
  CONFIG_RETPOLINE :: bool
  CONFIG_GDS_FORCE_MITIGATION :: bool
  CONFIG_SECCOMP :: bool
  PAGETABLE_LEVELS_2 :: bool        \<comment> \<open>\<open>PAGETABLE_LEVELS == 2\<close>\<close>
  e820_half_pa_mapped :: bool       \<comment> \<open>what \<open>e820_any_mapped(half_pa, ...)\<close> returns in \<open>l1tf_select_mitigation\<close>\<close>
  x86_amd_ls_cfg_base :: u64
  x86_amd_ls_cfg_ssbd_mask :: u64
  spec_ctrl :: spec_ctrl
  cmdline_nospectre_v2 :: bool
  cmdline_spectre_v2_ret :: int
  cmdline_spectre_v2_arg :: string

definition boot_cpu_has :: "facts \<Rightarrow> cpu_cap \<Rightarrow> bool" where
  "boot_cpu_has f c = (c \<in> x86_capability f)"

definition boot_cpu_has_bug :: "facts \<Rightarrow> cpu_cap \<Rightarrow> bool" where
  "boot_cpu_has_bug f c = boot_cpu_has f c"

definition cpu_mitigations_off :: "facts \<Rightarrow> bool" where
  "cpu_mitigations_off f = (cpu_mitigations f = CPU_MITIGATIONS_OFF)"

definition cpu_mitigations_auto_nosmt :: "facts \<Rightarrow> bool" where
  "cpu_mitigations_auto_nosmt f = (cpu_mitigations f = CPU_MITIGATIONS_AUTO_NOSMT)"

text \<open>
  Modelled from the spec: the capability bitmask of DetectionFacts and the control
  register values. The bit macros below are declared in asm/msr-index.h, which is not
  under src; each is a single-bit mask \<open>BIT(n)\<close>, and nothing proved here depends on
  more than their being distinct bits.
\<close>

definition ARCH_CAP_MDS_NO :: u64 where "ARCH_CAP_MDS_NO = push_bit 5 1"
definition ARCH_CAP_TSX_CTRL_MSR :: u64 where "ARCH_CAP_TSX_CTRL_MSR = push_bit 7 1"
definition ARCH_CAP_FBSDP_NO :: u64 where "ARCH_CAP_FBSDP_NO = push_bit 14 1"
definition ARCH_CAP_FB_CLEAR :: u64 where "ARCH_CAP_FB_CLEAR = push_bit 17 1"
definition ARCH_CAP_RRSBA :: u64 where "ARCH_CAP_RRSBA = push_bit 19 1"
definition ARCH_CAP_GDS_CTRL :: u64 where "ARCH_CAP_GDS_CTRL = push_bit 25 1"

definition RNGDS_MITG_DIS :: u64 where "RNGDS_MITG_DIS = push_bit 0 1"
definition GDS_MITG_DIS :: u64 where "GDS_MITG_DIS = push_bit 4 1"
definition GDS_MITG_LOCKED :: u64 where "GDS_MITG_LOCKED = push_bit 5 1"

definition SPEC_CTRL_STIBP :: u64 where "SPEC_CTRL_STIBP = push_bit 1 1"
definition SPEC_CTRL_SSBD :: u64 where "SPEC_CTRL_SSBD = push_bit 2 1"
definition SPEC_CTRL_RRSBA_DIS_S :: u64 where "SPEC_CTRL_RRSBA_DIS_S = push_bit 6 1"

text \<open>The C test \<open>x & MASK\<close> used as a condition.\<close>

definition test_mask :: "u64 \<Rightarrow> u64 \<Rightarrow> bool" where
  "test_mask x m = (x AND m \<noteq> 0)"

section \<open>Mitigation choices and the global state\<close>

datatype mds_mitigations =
  MDS_MITIGATION_OFF | MDS_MITIGATION_FULL | MDS_MITIGATION_VMWERV

datatype taa_mitigations =
  TAA_MITIGATION_OFF | TAA_MITIGATION_UCODE_NEEDED | TAA_MITIGATION_VERW
  | TAA_MITIGATION_TSX_DISABLED

datatype mmio_mitigations =
  MMIO_MITIGATION_OFF | MMIO_MITIGATION_UCODE_NEEDED | MMIO_MITIGATION_VERW

datatype srbds_mitigations =
  SRBDS_MITIGATION_OFF | SRBDS_MITIGATION_UCODE_NEEDED | SRBDS_MITIGATION_FULL
  | SRBDS_MITIGATION_TSX_OFF | SRBDS_MITIGATION_HYPERVISOR

datatype spectre_v1_mitigation =
  SPECTRE_V1_MITIGATION_NONE | SPECTRE_V1_MITIGATION_AUTO

datatype gds_mitigations =
  GDS_MITIGATION_OFF | GDS_MITIGATION_UCODE_NEEDED | GDS_MITIGATION_FORCE
  | GDS_MITIGATION_FULL | GDS_MITIGATION_FULL_LOCKED | GDS_MITIGATION_HYPERVISOR

datatype retbleed_mitigation =
  RETBLEED_MITIGATION_NONE | RETBLEED_MITIGATION_UNRET | RETBLEED_MITIGATION_IBPB
  | RETBLEED_MITIGATION_IBRS | RETBLEED_MITIGATION_EIBRS

datatype retbleed_mitigation_cmd =
  RETBLEED_CMD_OFF | RETBLEED_CMD_AUTO | RETBLEED_CMD_UNRET | RETBLEED_CMD_IBPB

datatype spectre_v2_mitigation_cmd =
  SPECTRE_V2_CMD_NONE | SPECTRE_V2_CMD_FORCE | SPECTRE_V2_CMD_AUTO
  | SPECTRE_V2_CMD_RETPOLINE | SPECTRE_V2_CMD_RETPOLINE_AMD
  | SPECTRE_V2_CMD_RETPOLINE_FORCE | SPECTRE_V2_CMD_RETPOLINE_IBRS_USER
  | SPECTRE_V2_CMD_IBRS | SPECTRE_V2_CMD_IBRS_ALWAYS

datatype ssb_mitigation =
  SPEC_STORE_BYPASS_NONE | SPEC_STORE_BYPASS_DISABLE | SPEC_STORE_BYPASS_PRCTL
  | SPEC_STORE_BYPASS_SECCOMP

datatype ssb_mitigation_cmd =
  SPEC_STORE_BYPASS_CMD_NONE | SPEC_STORE_BYPASS_CMD_AUTO | SPEC_STORE_BYPASS_CMD_ON
  | SPEC_STORE_BYPASS_CMD_PRCTL | SPEC_STORE_BYPASS_CMD_SECCOMP

datatype l1tf_mitigations =
  L1TF_MITIGATION_OFF | L1TF_MITIGATION_FLUSH_NOWARN | L1TF_MITIGATION_FLUSH
  | L1TF_MITIGATION_FLUSH_NOSMT | L1TF_MITIGATION_FULL | L1TF_MITIGATION_FULL_FORCE

datatype log_level = KERN_ERR | KERN_WARNING | KERN_INFO

datatype msr =
  MSR_IA32_MCU_OPT_CTRL | MSR_IA32_SPEC_CTRL | MSR_AMD64_VIRT_SPEC_CTRL | MSR_AMD64_LS_CFG

text \<open>
  The file-scope variables of bugs.c, the static keys (each a reference count, see
  below), and what the selectors hand to their collaborators: the kernel log, the SMT-disable requests, the forced and cleared
  capabilities and the register writes. \<open>mcu_opt_ctrl\<close> is the content of
  \<open>MSR_IA32_MCU_OPT_CTRL\<close>, a register that holds what was written to it last.
\<close>

record state =
  mds_mitigation :: mds_mitigations
  mds_nosmt :: bool
  taa_mitigation :: taa_mitigations
  taa_nosmt :: bool
  mmio_mitigation :: mmio_mitigations
  mmio_nosmt :: bool
  srbds_mitigation :: srbds_mitigations
  srbds_off :: bool
  spectre_v1_mitigation :: spectre_v1_mitigation
  gds_mitigation :: gds_mitigations
  retbleed_mitigation :: retbleed_mitigation
  retbleed_cmd :: retbleed_mitigation_cmd
  retbleed_nosmt :: bool
  spectre_v2_enabled :: spectre_v2_mitigation
  spectre_v2_cmd :: spectre_v2_mitigation_cmd
  l1tf_mitigation :: l1tf_mitigations
  ssb_mode :: ssb_mitigation
  ssb_cmd :: ssb_mitigation_cmd
  x86_spec_ctrl_base :: u64
  x86_spec_ctrl_mask :: u64
  mds_user_clear :: int
  mds_idle_clear :: int
  mmio_stale_data_clear :: int
  ssbd_userset_key :: int
  mcu_opt_ctrl :: u64
  wrmsr_trace :: "(msr \<times> u64) list"
  cpu_caps_set :: "cpu_cap list"
  cpu_caps_cleared :: "cpu_cap list"
  smt_disable_reqs :: "bool list"
  dmesg :: "(log_level \<times> string) list"
  mds_smt_warned :: bool
  taa_smt_warned :: bool
  mmio_smt_warned :: bool
  gds_msr_mismatch_warned :: bool

text \<open>
  Modelled from the spec: the reference-counted effect switches. \<open>struct static_key\<close> and
  its operations are declared in linux/jump_label.h, which is not under src. The count is
  a 32-bit \<open>atomic_t\<close>: incrementing the largest value wraps to the smallest, and the key
  is enabled while the count is positive.
\<close>

definition INT_MAX :: int where "INT_MAX = 2147483647"

definition atomic_inc :: "int \<Rightarrow> int" where
  "atomic_inc c = (if c = INT_MAX then - INT_MAX - 1 else c + 1)"

definition atomic_dec :: "int \<Rightarrow> int" where
  "atomic_dec c = (if c = - INT_MAX - 1 then INT_MAX else c - 1)"

definition static_key_slow_inc :: "int \<Rightarrow> int" where
  "static_key_slow_inc k = atomic_inc k"

definition static_key_slow_dec :: "int \<Rightarrow> int" where
  "static_key_slow_dec k = atomic_dec k"

definition static_key_enabled :: "int \<Rightarrow> bool" where
  "static_key_enabled k = (0 < k)"

text \<open>
  \<open>printk l m\<close> appends one line to the kernel log; the line carries the \<open>pr_fmt\<close>
  prefix in force at the call and drops the trailing newline.
\<close>

definition printk :: "log_level \<Rightarrow> string \<Rightarrow> state \<Rightarrow> state" where
  "printk l m s = s\<lparr>dmesg := dmesg s @ [(l, m)]\<rparr>"

text \<open>\<open>cpu_smt_disable(force)\<close> belongs to the topology collaborator; the request is recorded.\<close>

definition cpu_smt_disable :: "bool \<Rightarrow> state \<Rightarrow> state" where
  "cpu_smt_disable force s = s\<lparr>smt_disable_reqs := smt_disable_reqs s @ [force]\<rparr>"

definition setup_force_cpu_cap :: "cpu_cap \<Rightarrow> state \<Rightarrow> state" where
  "setup_force_cpu_cap c s = s\<lparr>cpu_caps_set := List.insert c (cpu_caps_set s)\<rparr>"

definition setup_clear_cpu_cap :: "cpu_cap \<Rightarrow> state \<Rightarrow> state" where
  "setup_clear_cpu_cap c s = s\<lparr>cpu_caps_cleared := List.insert c (cpu_caps_cleared s)\<rparr>"

definition wrmsrl :: "msr \<Rightarrow> u64 \<Rightarrow> state \<Rightarrow> state" where
  "wrmsrl r v s =
     (let s' = s\<lparr>wrmsr_trace := wrmsr_trace s @ [(r, v)]\<rparr>
      in if r = MSR_IA32_MCU_OPT_CTRL then s'\<lparr>mcu_opt_ctrl := v\<rparr> else s')"

text \<open>
  The values the variables have when \<open>check_bugs\<close> starts, before any early parameter
  is parsed. \<open>base\<close> is the value \<open>spec_ctrl_save_msr\<close> left in
  \<open>x86_spec_ctrl_base\<close> and \<open>mcu\<close> the content of the MCU_OPT_CTRL register.
  \<open>x86_spec_ctrl_mask\<close>, like \<open>x86_spec_ctrl_base\<close>, is defined outside bugs.c; the only
  thing bugs.c does to it is to OR \<open>SPEC_CTRL_SSBD\<close> into it, and it starts empty here.
\<close>

definition boot_state :: "facts \<Rightarrow> u64 \<Rightarrow> u64 \<Rightarrow> state" where
  "boot_state f base mcu =
     \<lparr> mds_mitigation = MDS_MITIGATION_FULL, mds_nosmt = False,
       taa_mitigation = TAA_MITIGATION_VERW, taa_nosmt = False,
       mmio_mitigation = MMIO_MITIGATION_VERW, mmio_nosmt = False,
       srbds_mitigation = SRBDS_MITIGATION_FULL, srbds_off = False,
       spectre_v1_mitigation = SPECTRE_V1_MITIGATION_AUTO,
       gds_mitigation =
         (if CONFIG_GDS_FORCE_MITIGATION f then GDS_MITIGATION_FORCE else GDS_MITIGATION_FULL),
       retbleed_mitigation = RETBLEED_MITIGATION_NONE,
       retbleed_cmd = RETBLEED_CMD_AUTO, retbleed_nosmt = False,
       spectre_v2_enabled = SPECTRE_V2_NONE, spectre_v2_cmd = SPECTRE_V2_CMD_AUTO,
       l1tf_mitigation = L1TF_MITIGATION_FLUSH,
       ssb_mode = SPEC_STORE_BYPASS_NONE, ssb_cmd = SPEC_STORE_BYPASS_CMD_NONE,
       x86_spec_ctrl_base = base, x86_spec_ctrl_mask = 0,
       mds_user_clear = 0, mds_idle_clear = 0, mmio_stale_data_clear = 0,
       ssbd_userset_key = 0,
       mcu_opt_ctrl = mcu, wrmsr_trace = [],
       cpu_caps_set = [], cpu_caps_cleared = [], smt_disable_reqs = [], dmesg = [],
       mds_smt_warned = False, taa_smt_warned = False, mmio_smt_warned = False,
       gds_msr_mismatch_warned = False \<rparr>"

text \<open>\<open>EINVAL\<close> of errno.h.\<close>

definition EINVAL :: int where "EINVAL = 22"

section \<open>MDS\<close>

fun mds_strings :: "mds_mitigations \<Rightarrow> string" where
  "mds_strings MDS_MITIGATION_OFF = ''Vulnerable''"
| "mds_strings MDS_MITIGATION_FULL = ''Mitigation: Clear CPU buffers''"
| "mds_strings MDS_MITIGATION_VMWERV = ''Vulnerable: Clear CPU buffers attempted, no microcode''"

definition mds_select_mitigation :: "facts \<Rightarrow> state \<Rightarrow> state" where
  "mds_select_mitigation f s =
     (if \<not> boot_cpu_has_bug f X86_BUG_MDS \<or> cpu_mitigations_off f
      then s\<lparr>mds_mitigation := MDS_MITIGATION_OFF\<rparr>
      else if mds_mitigation s = MDS_MITIGATION_FULL
      then
        (let s1 = (if \<not> boot_cpu_has f X86_FEATURE_MD_CLEAR
                   then s\<lparr>mds_mitigation := MDS_MITIGATION_VMWERV\<rparr> else s);
             s2 = s1\<lparr>mds_user_clear := static_key_slow_inc (mds_user_clear s1)\<rparr>
         in if \<not> boot_cpu_has f X86_BUG_MSBDS_ONLY
               \<and> (mds_nosmt s2 \<or> cpu_mitigations_auto_nosmt f)
            then cpu_smt_disable False s2 else s2)
      else s)"

text \<open>
  The early-parameter handlers take the text after \<open>=\<close>, or \<open>None\<close> for the C null
  pointer, and return the handler's result with the state.
\<close>

definition mds_cmdline :: "facts \<Rightarrow> string option \<Rightarrow> state \<Rightarrow> int \<times> state" where
  "mds_cmdline f str s =
     (if \<not> boot_cpu_has_bug f X86_BUG_MDS then (0, s)
      else case str of
        None \<Rightarrow> (- EINVAL, s)
      | Some t \<Rightarrow>
          (0, if t = ''off'' then s\<lparr>mds_mitigation := MDS_MITIGATION_OFF\<rparr>
              else if t = ''full'' then s\<lparr>mds_mitigation := MDS_MITIGATION_FULL\<rparr>
              else if t = ''full,nosmt''
              then s\<lparr>mds_mitigation := MDS_MITIGATION_FULL, mds_nosmt := True\<rparr>
              else s))"

section \<open>TAA\<close>

fun taa_strings :: "taa_mitigations \<Rightarrow> string" where
  "taa_strings TAA_MITIGATION_OFF = ''Vulnerable''"
| "taa_strings TAA_MITIGATION_UCODE_NEEDED = ''Vulnerable: Clear CPU buffers attempted, no microcode''"
| "taa_strings TAA_MITIGATION_VERW = ''Mitigation: Clear CPU buffers''"
| "taa_strings TAA_MITIGATION_TSX_DISABLED = ''Mitigation: TSX disabled''"

definition taa_select_mitigation :: "facts \<Rightarrow> state \<Rightarrow> state" where
  "taa_select_mitigation f s =
     (if \<not> boot_cpu_has_bug f X86_BUG_TAA
      then s\<lparr>taa_mitigation := TAA_MITIGATION_OFF\<rparr>
      else if \<not> boot_cpu_has f X86_FEATURE_RTM
      then s\<lparr>taa_mitigation := TAA_MITIGATION_TSX_DISABLED\<rparr>
      else if cpu_mitigations_off f
      then s\<lparr>taa_mitigation := TAA_MITIGATION_OFF\<rparr>
      else if taa_mitigation s = TAA_MITIGATION_OFF \<and> mds_mitigation s = MDS_MITIGATION_OFF
      then s
      else
        (let s1 = (if boot_cpu_has f X86_FEATURE_MD_CLEAR
                   then s\<lparr>taa_mitigation := TAA_MITIGATION_VERW\<rparr>
                   else s\<lparr>taa_mitigation := TAA_MITIGATION_UCODE_NEEDED\<rparr>);
             s2 = (if test_mask (ia32_cap f) ARCH_CAP_MDS_NO
                      \<and> \<not> test_mask (ia32_cap f) ARCH_CAP_TSX_CTRL_MSR
                   then s1\<lparr>taa_mitigation := TAA_MITIGATION_UCODE_NEEDED\<rparr> else s1);
             s3 = s2\<lparr>mds_user_clear := static_key_slow_inc (mds_user_clear s2)\<rparr>
         in if taa_nosmt s3 \<or> cpu_mitigations_auto_nosmt f
            then cpu_smt_disable False s3 else s3))"

definition tsx_async_abort_parse_cmdline :: "facts \<Rightarrow> string option \<Rightarrow> state \<Rightarrow> int \<times> state" where
  "tsx_async_abort_parse_cmdline f str s =
     (if \<not> boot_cpu_has_bug f X86_BUG_TAA then (0, s)
      else case str of
        None \<Rightarrow> (- EINVAL, s)
      | Some t \<Rightarrow>
          (0, if t = ''off'' then s\<lparr>taa_mitigation := TAA_MITIGATION_OFF\<rparr>
              else if t = ''full'' then s\<lparr>taa_mitigation := TAA_MITIGATION_VERW\<rparr>
              else if t = ''full,nosmt''
              then s\<lparr>taa_mitigation := TAA_MITIGATION_VERW, taa_nosmt := True\<rparr>
              else s))"

section \<open>MMIO Stale Data\<close>

fun mmio_strings :: "mmio_mitigations \<Rightarrow> string" where
  "mmio_strings MMIO_MITIGATION_OFF = ''Vulnerable''"
| "mmio_strings MMIO_MITIGATION_UCODE_NEEDED = ''Vulnerable: Clear CPU buffers attempted, no microcode''"
| "mmio_strings MMIO_MITIGATION_VERW = ''Mitigation: Clear CPU buffers''"

definition mmio_select_mitigation :: "facts \<Rightarrow> state \<Rightarrow> state" where
  "mmio_select_mitigation f s =
     (if \<not> boot_cpu_has_bug f X86_BUG_MMIO_STALE_DATA \<or> cpu_mitigations_off f
      then s\<lparr>mmio_mitigation := MMIO_MITIGATION_OFF\<rparr>
      else if mmio_mitigation s = MMIO_MITIGATION_OFF
      then s
      else
        (let s1 = (if boot_cpu_has_bug f X86_BUG_MDS
                      \<or> (boot_cpu_has_bug f X86_BUG_TAA \<and> boot_cpu_has f X86_FEATURE_RTM)
                   then s\<lparr>mds_user_clear := static_key_slow_inc (mds_user_clear s)\<rparr>
                   else s\<lparr>mmio_stale_data_clear := static_key_slow_inc (mmio_stale_data_clear s)\<rparr>);
             s2 = (if \<not> test_mask (ia32_cap f) ARCH_CAP_FBSDP_NO
                   then s1\<lparr>mds_idle_clear := static_key_slow_inc (mds_idle_clear s1)\<rparr> else s1);
             s3 = (if test_mask (ia32_cap f) ARCH_CAP_FB_CLEAR
                      \<or> (boot_cpu_has f X86_FEATURE_MD_CLEAR
                          \<and> boot_cpu_has f X86_FEATURE_FLUSH_L1D
                          \<and> \<not> test_mask (ia32_cap f) ARCH_CAP_MDS_NO)
                   then s2\<lparr>mmio_mitigation := MMIO_MITIGATION_VERW\<rparr>
                   else s2\<lparr>mmio_mitigation := MMIO_MITIGATION_UCODE_NEEDED\<rparr>)
         in if mmio_nosmt s3 \<or> cpu_mitigations_auto_nosmt f
            then cpu_smt_disable False s3 else s3))"

definition mmio_stale_data_parse_cmdline :: "facts \<Rightarrow> string option \<Rightarrow> state \<Rightarrow> int \<times> state" where
  "mmio_stale_data_parse_cmdline f str s =
     (if \<not> boot_cpu_has_bug f X86_BUG_MMIO_STALE_DATA then (0, s)
      else case str of
        None \<Rightarrow> (- EINVAL, s)
      | Some t \<Rightarrow>
          (0, if t = ''off'' then s\<lparr>mmio_mitigation := MMIO_MITIGATION_OFF\<rparr>
              else if t = ''full'' then s\<lparr>mmio_mitigation := MMIO_MITIGATION_VERW\<rparr>
              else if t = ''full,nosmt''
              then s\<lparr>mmio_mitigation := MMIO_MITIGATION_VERW, mmio_nosmt := True\<rparr>
              else s))"

section \<open>The MDS, TAA and MMIO selection phase\<close>

definition md_clear_print :: "facts \<Rightarrow> state \<Rightarrow> state" where
  "md_clear_print f s =
     (let s1 = (if boot_cpu_has_bug f X86_BUG_MDS
                then printk KERN_INFO (''MDS: '' @ mds_strings (mds_mitigation s)) s else s);
          s2 = (if boot_cpu_has_bug f X86_BUG_TAA
                then printk KERN_INFO (''TAA: '' @ taa_strings (taa_mitigation s1)) s1 else s1)
      in if boot_cpu_has_bug f X86_BUG_MMIO_STALE_DATA
         then printk KERN_INFO (''MMIO Stale Data: '' @ mmio_strings (mmio_mitigation s2)) s2
         else s2)"

text \<open>\<open>md_clear_print\<close> is the code after the label \<open>out:\<close>.\<close>

definition md_clear_update_mitigation :: "facts \<Rightarrow> state \<Rightarrow> state" where
  "md_clear_update_mitigation f s =
     (if cpu_mitigations_off f then s
      else if \<not> static_key_enabled (mds_user_clear s) then md_clear_print f s
      else
        (let s1 = (if mds_mitigation s = MDS_MITIGATION_OFF \<and> boot_cpu_has_bug f X86_BUG_MDS
                   then mds_select_mitigation f (s\<lparr>mds_mitigation := MDS_MITIGATION_FULL\<rparr>)
                   else s);
             s2 = (if taa_mitigation s1 = TAA_MITIGATION_OFF \<and> boot_cpu_has_bug f X86_BUG_TAA
                   then taa_select_mitigation f (s1\<lparr>taa_mitigation := TAA_MITIGATION_VERW\<rparr>)
                   else s1);
             s3 = (if mmio_mitigation s2 = MMIO_MITIGATION_OFF
                      \<and> boot_cpu_has_bug f X86_BUG_MMIO_STALE_DATA
                   then mmio_select_mitigation f (s2\<lparr>mmio_mitigation := MMIO_MITIGATION_VERW\<rparr>)
                   else s2)
         in md_clear_print f s3))"

definition md_clear_select_mitigation :: "facts \<Rightarrow> state \<Rightarrow> state" where
  "md_clear_select_mitigation f s =
     md_clear_update_mitigation f
       (mmio_select_mitigation f (taa_select_mitigation f (mds_select_mitigation f s)))"

section \<open>SRBDS\<close>

fun srbds_strings :: "srbds_mitigations \<Rightarrow> string" where
  "srbds_strings SRBDS_MITIGATION_OFF = ''Vulnerable''"
| "srbds_strings SRBDS_MITIGATION_UCODE_NEEDED = ''Vulnerable: No microcode''"
| "srbds_strings SRBDS_MITIGATION_FULL = ''Mitigation: Microcode''"
| "srbds_strings SRBDS_MITIGATION_TSX_OFF = ''Mitigation: TSX disabled''"
| "srbds_strings SRBDS_MITIGATION_HYPERVISOR = ''Unknown: Dependent on hypervisor status''"

definition update_srbds_msr :: "facts \<Rightarrow> state \<Rightarrow> state" where
  "update_srbds_msr f s =
     (if \<not> boot_cpu_has_bug f X86_BUG_SRBDS then s
      else if boot_cpu_has f X86_FEATURE_HYPERVISOR then s
      else if srbds_mitigation s = SRBDS_MITIGATION_UCODE_NEEDED then s
      else
        (let mcu_ctrl = mcu_opt_ctrl s;
             mcu_ctrl' =
               (case srbds_mitigation s of
                  SRBDS_MITIGATION_OFF \<Rightarrow> mcu_ctrl OR RNGDS_MITG_DIS
                | SRBDS_MITIGATION_TSX_OFF \<Rightarrow> mcu_ctrl OR RNGDS_MITG_DIS
                | SRBDS_MITIGATION_FULL \<Rightarrow> mcu_ctrl AND NOT RNGDS_MITG_DIS
                | _ \<Rightarrow> mcu_ctrl)
         in wrmsrl MSR_IA32_MCU_OPT_CTRL mcu_ctrl' s))"

definition srbds_select_mitigation :: "facts \<Rightarrow> state \<Rightarrow> state" where
  "srbds_select_mitigation f s =
     (if \<not> boot_cpu_has_bug f X86_BUG_SRBDS then s
      else
        (let s1 =
               (if test_mask (ia32_cap f) ARCH_CAP_MDS_NO \<and> \<not> boot_cpu_has f X86_FEATURE_RTM
                   \<and> \<not> boot_cpu_has_bug f X86_BUG_MMIO_STALE_DATA
                then s\<lparr>srbds_mitigation := SRBDS_MITIGATION_TSX_OFF\<rparr>
                else if boot_cpu_has f X86_FEATURE_HYPERVISOR
                then s\<lparr>srbds_mitigation := SRBDS_MITIGATION_HYPERVISOR\<rparr>
                else if \<not> boot_cpu_has f X86_FEATURE_SRBDS_CTRL
                then s\<lparr>srbds_mitigation := SRBDS_MITIGATION_UCODE_NEEDED\<rparr>
                else if cpu_mitigations_off f \<or> srbds_off s
                then s\<lparr>srbds_mitigation := SRBDS_MITIGATION_OFF\<rparr>
                else s);
             s2 = update_srbds_msr f s1
         in printk KERN_INFO (''SRBDS: '' @ srbds_strings (srbds_mitigation s2)) s2))"

definition srbds_parse_cmdline :: "facts \<Rightarrow> string option \<Rightarrow> state \<Rightarrow> int \<times> state" where
  "srbds_parse_cmdline f str s =
     (case str of
        None \<Rightarrow> (- EINVAL, s)
      | Some t \<Rightarrow>
          if \<not> boot_cpu_has_bug f X86_BUG_SRBDS then (0, s)
          else (0, s\<lparr>srbds_off := (t = ''off'')\<rparr>))"

section \<open>Spectre V1\<close>

fun spectre_v1_strings :: "spectre_v1_mitigation \<Rightarrow> string" where
  "spectre_v1_strings SPECTRE_V1_MITIGATION_NONE =
     ''Vulnerable: Load fences, __user pointer sanitization and usercopy barriers only; no swapgs barriers''"
| "spectre_v1_strings SPECTRE_V1_MITIGATION_AUTO =
     ''Mitigation: Load fences, usercopy/swapgs barriers and __user pointer sanitization''"

definition smap_works_speculatively :: "facts \<Rightarrow> bool" where
  "smap_works_speculatively f =
     (if \<not> boot_cpu_has f X86_FEATURE_SMAP then False
      else if boot_cpu_has f X86_BUG_CPU_MELTDOWN then False
      else True)"

definition spectre_v1_select_mitigation :: "facts \<Rightarrow> state \<Rightarrow> state" where
  "spectre_v1_select_mitigation f s =
     (if \<not> boot_cpu_has_bug f X86_BUG_SPECTRE_V1 \<or> cpu_mitigations_off f
      then s\<lparr>spectre_v1_mitigation := SPECTRE_V1_MITIGATION_NONE\<rparr>
      else
        (let s1 =
               (if spectre_v1_mitigation s = SPECTRE_V1_MITIGATION_AUTO
                   \<and> \<not> smap_works_speculatively f
                then setup_force_cpu_cap X86_FEATURE_FENCE_SWAPGS_KERNEL
                       (if boot_cpu_has_bug f X86_BUG_SWAPGS
                        then setup_force_cpu_cap X86_FEATURE_FENCE_SWAPGS_USER s else s)
                else s)
         in printk KERN_INFO
              (''Spectre V1 : '' @ spectre_v1_strings (spectre_v1_mitigation s1)) s1))"

definition nospectre_v1_cmdline :: "string option \<Rightarrow> state \<Rightarrow> int \<times> state" where
  "nospectre_v1_cmdline str s = (0, s\<lparr>spectre_v1_mitigation := SPECTRE_V1_MITIGATION_NONE\<rparr>)"

section \<open>GDS\<close>

fun gds_strings :: "gds_mitigations \<Rightarrow> string" where
  "gds_strings GDS_MITIGATION_OFF = ''Vulnerable''"
| "gds_strings GDS_MITIGATION_UCODE_NEEDED = ''Vulnerable: No microcode''"
| "gds_strings GDS_MITIGATION_FORCE = ''Mitigation: AVX disabled, no microcode''"
| "gds_strings GDS_MITIGATION_FULL = ''Mitigation: Microcode''"
| "gds_strings GDS_MITIGATION_FULL_LOCKED = ''Mitigation: Microcode (locked)''"
| "gds_strings GDS_MITIGATION_HYPERVISOR = ''Unknown: Dependent on hypervisor status''"

definition gds_ucode_mitigated :: "state \<Rightarrow> bool" where
  "gds_ucode_mitigated s =
     (gds_mitigation s = GDS_MITIGATION_FULL \<or> gds_mitigation s = GDS_MITIGATION_FULL_LOCKED)"

text \<open>
  The tail of \<open>update_gds_msr\<close>: write, read back, and \<open>WARN_ON_ONCE\<close> when the value
  read back differs from the one written.
\<close>

definition gds_wrmsr_check :: "u64 \<Rightarrow> state \<Rightarrow> state" where
  "gds_wrmsr_check mcu_ctrl s =
     (let s1 = wrmsrl MSR_IA32_MCU_OPT_CTRL mcu_ctrl s;
          mcu_ctrl_after = mcu_opt_ctrl s1
      in if mcu_ctrl \<noteq> mcu_ctrl_after \<and> \<not> gds_msr_mismatch_warned s1
         then printk KERN_WARNING ''WARNING: mcu_ctrl != mcu_ctrl_after''
                (s1\<lparr>gds_msr_mismatch_warned := True\<rparr>)
         else s1)"

definition update_gds_msr :: "state \<Rightarrow> state" where
  "update_gds_msr s =
     (case gds_mitigation s of
        GDS_MITIGATION_OFF \<Rightarrow> gds_wrmsr_check (mcu_opt_ctrl s OR GDS_MITG_DIS) s
      | GDS_MITIGATION_FULL_LOCKED \<Rightarrow> gds_wrmsr_check (mcu_opt_ctrl s AND NOT GDS_MITG_DIS) s
      | GDS_MITIGATION_FULL \<Rightarrow> gds_wrmsr_check (mcu_opt_ctrl s AND NOT GDS_MITG_DIS) s
      | GDS_MITIGATION_FORCE \<Rightarrow> s
      | GDS_MITIGATION_UCODE_NEEDED \<Rightarrow> s
      | GDS_MITIGATION_HYPERVISOR \<Rightarrow> s)"

text \<open>\<open>gds_out\<close> is the code after the label \<open>out:\<close> of \<open>gds_select_mitigation\<close>.\<close>

definition gds_out :: "state \<Rightarrow> state" where
  "gds_out s = printk KERN_INFO (''GDS: '' @ gds_strings (gds_mitigation s)) s"

definition gds_select_mitigation :: "facts \<Rightarrow> state \<Rightarrow> state" where
  "gds_select_mitigation f s =
     (if \<not> boot_cpu_has_bug f X86_BUG_GDS then s
      else if boot_cpu_has f X86_FEATURE_HYPERVISOR
      then gds_out (s\<lparr>gds_mitigation := GDS_MITIGATION_HYPERVISOR\<rparr>)
      else
        (let s1 = (if cpu_mitigations_off f
                   then s\<lparr>gds_mitigation := GDS_MITIGATION_OFF\<rparr> else s)
         in if \<not> test_mask (ia32_cap f) ARCH_CAP_GDS_CTRL
            then
              (if gds_mitigation s1 = GDS_MITIGATION_FORCE
               then gds_out
                      (printk KERN_WARNING
                         ''GDS: Microcode update needed! Disabling AVX as mitigation.''
                         (setup_clear_cpu_cap X86_FEATURE_AVX s1))
               else gds_out (s1\<lparr>gds_mitigation := GDS_MITIGATION_UCODE_NEEDED\<rparr>))
            else
              (let s2 = (if gds_mitigation s1 = GDS_MITIGATION_FORCE
                         then s1\<lparr>gds_mitigation := GDS_MITIGATION_FULL\<rparr> else s1);
                   mcu_ctrl = mcu_opt_ctrl s2;
                   s3 = (if test_mask mcu_ctrl GDS_MITG_LOCKED
                         then
                           (if gds_mitigation s2 = GDS_MITIGATION_OFF
                            then printk KERN_WARNING ''GDS: Mitigation locked. Disable failed.'' s2
                            else s2)\<lparr>gds_mitigation := GDS_MITIGATION_FULL_LOCKED\<rparr>
                         else s2)
               in gds_out (update_gds_msr s3))))"

definition gds_parse_cmdline :: "facts \<Rightarrow> string option \<Rightarrow> state \<Rightarrow> int \<times> state" where
  "gds_parse_cmdline f str s =
     (case str of
        None \<Rightarrow> (- EINVAL, s)
      | Some t \<Rightarrow>
          if \<not> boot_cpu_has_bug f X86_BUG_GDS then (0, s)
          else (0, if t = ''off'' then s\<lparr>gds_mitigation := GDS_MITIGATION_OFF\<rparr>
                   else if t = ''force'' then s\<lparr>gds_mitigation := GDS_MITIGATION_FORCE\<rparr>
                   else s))"

section \<open>RETBleed\<close>

fun retbleed_strings :: "retbleed_mitigation \<Rightarrow> string" where
  "retbleed_strings RETBLEED_MITIGATION_NONE = ''Vulnerable''"
| "retbleed_strings RETBLEED_MITIGATION_UNRET = ''Mitigation: untrained return thunk''"
| "retbleed_strings RETBLEED_MITIGATION_IBPB = ''Mitigation: IBPB''"
| "retbleed_strings RETBLEED_MITIGATION_IBRS = ''Mitigation: IBRS''"
| "retbleed_strings RETBLEED_MITIGATION_EIBRS = ''Mitigation: Enhanced IBRS''"

text \<open>One comma-separated token of the \<open>retbleed=\<close> parameter.\<close>

definition retbleed_option :: "string \<Rightarrow> state \<Rightarrow> state" where
  "retbleed_option str s =
     (if str = ''off'' then s\<lparr>retbleed_cmd := RETBLEED_CMD_OFF\<rparr>
      else if str = ''auto'' then s\<lparr>retbleed_cmd := RETBLEED_CMD_AUTO\<rparr>
      else if str = ''unret'' then s\<lparr>retbleed_cmd := RETBLEED_CMD_UNRET\<rparr>
      else if str = ''ibpb'' then s\<lparr>retbleed_cmd := RETBLEED_CMD_IBPB\<rparr>
      else if str = ''nosmt'' then s\<lparr>retbleed_nosmt := True\<rparr>
      else printk KERN_ERR
             (''RETBleed: Ignoring unknown retbleed option ('' @ str @ '').'') s)"

text \<open>
  The \<open>while (str)\<close> loop: \<open>strchr(str, ',')\<close> cuts the text at the first comma, the part
  before it is the token, the part after it (or the null pointer) is \<open>next\<close>.
\<close>

function retbleed_parse_loop :: "string option \<Rightarrow> state \<Rightarrow> state" where
  "retbleed_parse_loop None s = s"
| "retbleed_parse_loop (Some str) s =
     retbleed_parse_loop
       (case dropWhile (\<lambda>c. c \<noteq> CHR '','') str of [] \<Rightarrow> None | _ # next \<Rightarrow> Some next)
       (retbleed_option (takeWhile (\<lambda>c. c \<noteq> CHR '','') str) s)"
  by pat_completeness auto
termination
proof (relation "measure (\<lambda>(str, s). case str of None \<Rightarrow> 0 | Some x \<Rightarrow> Suc (length x))")
  show "wf (measure (\<lambda>(str, s::state). case str of None \<Rightarrow> 0 | Some x \<Rightarrow> Suc (length x)))"
    by simp
next
  fix str :: string and s :: state
  have le: "length (dropWhile (\<lambda>c. c \<noteq> CHR '','') str) \<le> length str"
    by (rule length_dropWhile_le)
  show "((case dropWhile (\<lambda>c. c \<noteq> CHR '','') str of [] \<Rightarrow> None | _ # next \<Rightarrow> Some next,
          retbleed_option (takeWhile (\<lambda>c. c \<noteq> CHR '','') str) s),
         (Some str, s))
        \<in> measure (\<lambda>(str, s). case str of None \<Rightarrow> 0 | Some x \<Rightarrow> Suc (length x))"
  proof (cases "dropWhile (\<lambda>c. c \<noteq> CHR '','') str")
    case Nil
    show ?thesis unfolding Nil by simp
  next
    case (Cons c rest)
    from le have "length rest < length str" unfolding Cons by simp
    then show ?thesis unfolding Cons by simp
  qed
qed

definition retbleed_parse_cmdline :: "string option \<Rightarrow> state \<Rightarrow> int \<times> state" where
  "retbleed_parse_cmdline str s = (0, retbleed_parse_loop str s)"

definition RETBLEED_UNTRAIN_MSG :: string where
  "RETBLEED_UNTRAIN_MSG =
     ''RETBleed: WARNING: BTB untrained return thunk mitigation is only effective on AMD!''"

definition RETBLEED_COMPILER_MSG :: string where
  "RETBLEED_COMPILER_MSG =
     ''RETBleed: WARNING: kernel not compiled with RETPOLINE or -mfunction-return capable compiler; falling back to IBPB!''"

definition RETBLEED_INTEL_MSG :: string where
  "RETBLEED_INTEL_MSG =
     ''RETBleed: WARNING: Spectre v2 mitigation leaves CPU vulnerable to RETBleed attacks, data leaks possible!''"

text \<open>The \<open>RETBLEED_CMD_AUTO\<close>/\<open>default\<close> arm of the first switch.\<close>

definition retbleed_cmd_auto :: "facts \<Rightarrow> state \<Rightarrow> state" where
  "retbleed_cmd_auto f s =
     (if x86_vendor f = X86_VENDOR_AMD
      then
        (if \<not> CONFIG_RETPOLINE f \<and> boot_cpu_has f X86_FEATURE_IBPB
         then (printk KERN_ERR RETBLEED_COMPILER_MSG s)
                \<lparr>retbleed_mitigation := RETBLEED_MITIGATION_IBPB\<rparr>
         else s\<lparr>retbleed_mitigation := RETBLEED_MITIGATION_UNRET\<rparr>)
      else s)"

text \<open>Everything after the first switch.\<close>

definition retbleed_apply :: "facts \<Rightarrow> state \<Rightarrow> state" where
  "retbleed_apply f s =
     (let (s1, mitigate_smt) =
            (case retbleed_mitigation s of
               RETBLEED_MITIGATION_UNRET \<Rightarrow>
                 (let a = setup_force_cpu_cap X86_FEATURE_UNRET
                            (setup_force_cpu_cap X86_FEATURE_RETHUNK s)
                  in (if x86_vendor f \<noteq> X86_VENDOR_AMD
                      then printk KERN_ERR RETBLEED_UNTRAIN_MSG a else a, True))
             | RETBLEED_MITIGATION_IBPB \<Rightarrow> (setup_force_cpu_cap X86_FEATURE_ENTRY_IBPB s, True)
             | _ \<Rightarrow> (s, False));
          s2 = (if mitigate_smt
                   \<and> (\<not> boot_cpu_has f X86_FEATURE_STIBP
                       \<or> \<not> test_mask (x86_spec_ctrl_base s1) SPEC_CTRL_STIBP)
                   \<and> (retbleed_nosmt s1 \<or> cpu_mitigations_auto_nosmt f)
                then cpu_smt_disable False s1 else s1);
          s3 = (if x86_vendor f = X86_VENDOR_INTEL
                then
                  (case spectre_v2_enabled s2 of
                     SPECTRE_V2_IBRS_ALWAYS \<Rightarrow> s2\<lparr>retbleed_mitigation := RETBLEED_MITIGATION_IBRS\<rparr>
                   | SPECTRE_V2_IBRS \<Rightarrow> s2\<lparr>retbleed_mitigation := RETBLEED_MITIGATION_IBRS\<rparr>
                   | SPECTRE_V2_IBRS_ENHANCED \<Rightarrow>
                       s2\<lparr>retbleed_mitigation := RETBLEED_MITIGATION_EIBRS\<rparr>
                   | _ \<Rightarrow> printk KERN_ERR RETBLEED_INTEL_MSG s2)
                else s2)
      in printk KERN_INFO (''RETBleed: '' @ retbleed_strings (retbleed_mitigation s3)) s3)"

definition retbleed_select_mitigation :: "facts \<Rightarrow> state \<Rightarrow> state" where
  "retbleed_select_mitigation f s =
     (if \<not> boot_cpu_has_bug f X86_BUG_RETBLEED \<or> cpu_mitigations_off f then s
      else
        (case retbleed_cmd s of
           RETBLEED_CMD_OFF \<Rightarrow> s
         | RETBLEED_CMD_UNRET \<Rightarrow>
             retbleed_apply f (s\<lparr>retbleed_mitigation := RETBLEED_MITIGATION_UNRET\<rparr>)
         | RETBLEED_CMD_IBPB \<Rightarrow>
             (if boot_cpu_has f X86_FEATURE_IBPB
              then retbleed_apply f (s\<lparr>retbleed_mitigation := RETBLEED_MITIGATION_IBPB\<rparr>)
              else retbleed_apply f
                     (retbleed_cmd_auto f
                        (printk KERN_ERR ''RETBleed: WARNING: CPU does not support IBPB.'' s)))
         | RETBLEED_CMD_AUTO \<Rightarrow> retbleed_apply f (retbleed_cmd_auto f s)))"

section \<open>Command-line parsing for Spectre V2 and Speculative Store Bypass\<close>

definition match_option :: "string \<Rightarrow> int \<Rightarrow> string \<Rightarrow> bool" where
  "match_option arg arglen opt =
     (let len = int (length opt) in len = arglen \<and> take (nat len) arg = opt)"

text \<open>
  The \<open>for\<close> loop over an option table: the index of the first entry that matches, or
  the size of the table when none does.
\<close>

primrec scan_options :: "string \<Rightarrow> int \<Rightarrow> string list \<Rightarrow> nat" where
  "scan_options arg ret [] = 0"
| "scan_options arg ret (opt # opts) =
     (if match_option arg ret opt then 0 else Suc (scan_options arg ret opts))"

definition mitigation_options :: "(string \<times> spectre_v2_mitigation_cmd \<times> bool) list" where
  "mitigation_options =
     [ (''off'', SPECTRE_V2_CMD_NONE, False),
       (''on'', SPECTRE_V2_CMD_FORCE, True),
       (''retpoline'', SPECTRE_V2_CMD_RETPOLINE, False),
       (''retpoline,amd'', SPECTRE_V2_CMD_RETPOLINE_AMD, False),
       (''retpoline,force'', SPECTRE_V2_CMD_RETPOLINE_FORCE, False),
       (''retpoline,ibrs_user'', SPECTRE_V2_CMD_RETPOLINE_IBRS_USER, False),
       (''ibrs'', SPECTRE_V2_CMD_IBRS, False),
       (''ibrs_always'', SPECTRE_V2_CMD_IBRS_ALWAYS, False),
       (''auto'', SPECTRE_V2_CMD_AUTO, False) ]"

definition spec2_print_if_insecure :: "facts \<Rightarrow> string \<Rightarrow> state \<Rightarrow> state" where
  "spec2_print_if_insecure f reason s =
     (if boot_cpu_has_bug f X86_BUG_SPECTRE_V2
      then printk KERN_INFO (''Spectre V2 : '' @ reason @ '' selected on command line.'') s
      else s)"

definition spec2_print_if_secure :: "facts \<Rightarrow> string \<Rightarrow> state \<Rightarrow> state" where
  "spec2_print_if_secure f reason s =
     (if \<not> boot_cpu_has_bug f X86_BUG_SPECTRE_V2
      then printk KERN_INFO (''Spectre V2 : '' @ reason @ '' selected on command line.'') s
      else s)"

text \<open>
  \<open>cmdline_find_option_bool\<close> and \<open>cmdline_find_option\<close> are declared in asm/cmdline.h,
  not under src, so their results are parameters: \<open>nospectre_v2\<close> says whether the flag is
  on the command line, \<open>ret\<close> is what \<open>cmdline_find_option\<close> returned (negative when the
  option is absent) and \<open>arg\<close> the text it left in the buffer.
\<close>

definition spectre_v2_parse_cmdline ::
  "facts \<Rightarrow> bool \<Rightarrow> int \<Rightarrow> string \<Rightarrow> state \<Rightarrow> spectre_v2_mitigation_cmd \<times> state" where
  "spectre_v2_parse_cmdline f nospectre_v2 ret arg s =
     (if nospectre_v2 \<or> cpu_mitigations_off f then (SPECTRE_V2_CMD_NONE, s)
      else if ret < 0 then (SPECTRE_V2_CMD_AUTO, s)
      else
        (let i = scan_options arg ret (map fst mitigation_options)
         in if i \<ge> length mitigation_options
            then (SPECTRE_V2_CMD_AUTO,
                  printk KERN_ERR
                    (''Spectre V2 : unknown option ('' @ arg @ ''). Switching to AUTO select'') s)
            else
              (let (option, cmd, secure) = mitigation_options ! i
               in if (cmd = SPECTRE_V2_CMD_RETPOLINE \<or> cmd = SPECTRE_V2_CMD_RETPOLINE_AMD
                       \<or> cmd = SPECTRE_V2_CMD_RETPOLINE_FORCE
                       \<or> cmd = SPECTRE_V2_CMD_RETPOLINE_IBRS_USER)
                     \<and> \<not> CONFIG_RETPOLINE f
                  then (SPECTRE_V2_CMD_AUTO,
                        printk KERN_ERR
                          (''Spectre V2 : '' @ option
                             @ '' selected but not compiled in. Switching to AUTO select'') s)
                  else if cmd = SPECTRE_V2_CMD_RETPOLINE_AMD \<and> x86_vendor f \<noteq> X86_VENDOR_AMD
                  then (SPECTRE_V2_CMD_AUTO, s)
                  else if cmd = SPECTRE_V2_CMD_RETPOLINE_AMD
                          \<and> \<not> boot_cpu_has f X86_FEATURE_LFENCE_RDTSC
                  then (SPECTRE_V2_CMD_AUTO,
                        printk KERN_WARNING
                          (''Spectre V2 : '' @ option
                             @ '' selected, but CPU doesn'' @ [CHR 0x27]
                             @ ''t have a serializing LFENCE. Switching to AUTO select'') s)
                  else if boot_cpu_has_bug f X86_BUG_RETBLEED \<and> x86_vendor f = X86_VENDOR_INTEL
                          \<and> cmd = SPECTRE_V2_CMD_RETPOLINE
                  then (SPECTRE_V2_CMD_AUTO,
                        printk KERN_WARNING
                          (''Spectre V2 : WARNING: '' @ option
                             @ '' selected but CPU is affected by RETBleed. Switching to AUTO select'') s)
                  else
                    (let s1 = (if boot_cpu_has_bug f X86_BUG_RETBLEED
                                  \<and> x86_vendor f = X86_VENDOR_INTEL
                                  \<and> cmd = SPECTRE_V2_CMD_RETPOLINE_FORCE
                               then printk KERN_WARNING
                                      (''Spectre V2 : WARNING: '' @ option
                                         @ '' selected but CPU is affected by RETBleed. Switching to ''
                                         @ [CHR 0x22] @ ''auto'' @ [CHR 0x22] @ '' is advised'') s
                               else s)
                     in (cmd, if secure then spec2_print_if_secure f option s1
                              else spec2_print_if_insecure f option s1)))))"

definition ssb_mitigation_options :: "(string \<times> ssb_mitigation_cmd) list" where
  "ssb_mitigation_options =
     [ (''auto'', SPEC_STORE_BYPASS_CMD_AUTO),
       (''on'', SPEC_STORE_BYPASS_CMD_ON),
       (''off'', SPEC_STORE_BYPASS_CMD_NONE),
       (''prctl'', SPEC_STORE_BYPASS_CMD_PRCTL),
       (''seccomp'', SPEC_STORE_BYPASS_CMD_SECCOMP) ]"

text \<open>
  \<open>uu_ssb_parse_cmdline\<close> is \<open>__ssb_parse_cmdline\<close> (a name cannot start with an
  underscore here); \<open>nossbd\<close>, \<open>ret\<close> and \<open>arg\<close> are the results of the two command-line
  lookups, as above.
\<close>

definition uu_ssb_parse_cmdline ::
  "facts \<Rightarrow> bool \<Rightarrow> int \<Rightarrow> string \<Rightarrow> state \<Rightarrow> ssb_mitigation_cmd \<times> state" where
  "uu_ssb_parse_cmdline f nossbd ret arg s =
     (if nossbd \<or> cpu_mitigations_off f then (SPEC_STORE_BYPASS_CMD_NONE, s)
      else if ret < 0 then (SPEC_STORE_BYPASS_CMD_AUTO, s)
      else
        (let i = scan_options arg ret (map fst ssb_mitigation_options)
         in if i \<ge> length ssb_mitigation_options
            then (SPEC_STORE_BYPASS_CMD_AUTO,
                  printk KERN_ERR
                    (''Speculative Store Bypass: unknown option ('' @ arg
                       @ ''). Switching to AUTO select'') s)
            else (snd (ssb_mitigation_options ! i), s)))"

definition ssb_parse_cmdline :: "facts \<Rightarrow> bool \<Rightarrow> int \<Rightarrow> string \<Rightarrow> state \<Rightarrow> state" where
  "ssb_parse_cmdline f nossbd ret arg s =
     (let (cmd, s1) = uu_ssb_parse_cmdline f nossbd ret arg s in s1\<lparr>ssb_cmd := cmd\<rparr>)"

section \<open>Spectre V2\<close>

fun spectre_v2_strings :: "spectre_v2_mitigation \<Rightarrow> string" where
  "spectre_v2_strings SPECTRE_V2_NONE = ''Vulnerable''"
| "spectre_v2_strings SPECTRE_V2_RETPOLINE_MINIMAL = ''Vulnerable: Minimal ASM retpoline''"
| "spectre_v2_strings SPECTRE_V2_RETPOLINE_NO_IBPB = ''Vulnerable: Retpoline without IBPB''"
| "spectre_v2_strings SPECTRE_V2_RETPOLINE_UNSAFE_MODULE =
     ''Vulnerable: Retpoline with unsafe module(s)''"
| "spectre_v2_strings SPECTRE_V2_RETPOLINE_AMD = ''Vulnerable: AMD retpoline (LFENCE/JMP)''"
| "spectre_v2_strings SPECTRE_V2_RETPOLINE = ''Mitigation: Full retpoline''"
| "spectre_v2_strings SPECTRE_V2_RETPOLINE_IBRS_USER =
     ''Mitigation: Full retpoline and IBRS (user space)''"
| "spectre_v2_strings SPECTRE_V2_IBRS = ''Mitigation: IBRS (kernel)''"
| "spectre_v2_strings SPECTRE_V2_IBRS_ALWAYS = ''Mitigation: IBRS (kernel and user space)''"
| "spectre_v2_strings SPECTRE_V2_IBP_DISABLED = ''Mitigation: IBP disabled''"
| "spectre_v2_strings SPECTRE_V2_IBRS_ENHANCED = ''Mitigation: Enhanced IBRS''"

definition SPECTRE_V2_LFENCE_MSG :: string where
  "SPECTRE_V2_LFENCE_MSG =
     ''Spectre V2 : WARNING: AMD retpoline (LFENCE/JMP) is not a recommended mitigation for this CPU, data leaks possible!''"

text \<open>
  Modelled from the spec: a call of one of the spec_ctrl.c functions. \<open>spec_ctrl_set\<close>
  is a call of a void function, which leaves the given choice; \<open>spec_ctrl_call\<close> is a
  call of a function that returns a bool. \<open>spec_ctrl_get_mitigation()\<close>, also in
  spec_ctrl.c, reads the choice they left; \<open>spectre_v2_enabled\<close>, which bugs.c defines
  and only reads, is taken to hold that same finalized choice.
\<close>

definition spec_ctrl_set :: "spectre_v2_mitigation \<Rightarrow> state \<Rightarrow> state" where
  "spec_ctrl_set m s = s\<lparr>spectre_v2_enabled := m\<rparr>"

definition spec_ctrl_call :: "spectre_v2_mitigation option \<Rightarrow> state \<Rightarrow> bool \<times> state" where
  "spec_ctrl_call outcome s =
     (case outcome of None \<Rightarrow> (False, s) | Some m \<Rightarrow> (True, spec_ctrl_set m s))"

definition spec_ctrl_get_mitigation :: "state \<Rightarrow> spectre_v2_mitigation" where
  "spec_ctrl_get_mitigation s = spectre_v2_enabled s"

text \<open>The code of \<open>__spectre_v2_select_mitigation\<close> after its switch.\<close>

definition spectre_v2_after_switch :: "facts \<Rightarrow> bool \<Rightarrow> state \<Rightarrow> state" where
  "spectre_v2_after_switch f full_retpoline s =
     (let (ok, s1) = spec_ctrl_call (spec_ctrl_cond_enable_ibrs (spec_ctrl f) full_retpoline) s
      in if ok then s1
         else
           (let (ok2, s2) = spec_ctrl_call (spec_ctrl_cond_enable_ibp_disabled (spec_ctrl f)) s1
            in if ok2 then s2
               else spec_ctrl_set (spec_ctrl_enable_retpoline (spec_ctrl f)) s2))"

text \<open>\<open>uu_spectre_v2_select_mitigation\<close> is \<open>__spectre_v2_select_mitigation\<close>.\<close>

definition uu_spectre_v2_select_mitigation :: "facts \<Rightarrow> state \<Rightarrow> state" where
  "uu_spectre_v2_select_mitigation f s =
     (let full_retpoline = (CONFIG_RETPOLINE f \<and> retp_compiler (spec_ctrl f));
          cmd = spectre_v2_cmd s;
          s1 = (if boot_cpu_has f X86_FEATURE_IBPB
                then printk KERN_INFO
                       ''Spectre V2 : Enabling Indirect Branch Prediction Barrier''
                       (setup_force_cpu_cap X86_FEATURE_USE_IBPB s)
                else s)
      in if \<not> boot_cpu_has_bug f X86_BUG_SPECTRE_V2
            \<and> (cmd = SPECTRE_V2_CMD_NONE \<or> cmd = SPECTRE_V2_CMD_AUTO)
         then s1
         else
           (case cmd of
              SPECTRE_V2_CMD_NONE \<Rightarrow> s1
            | SPECTRE_V2_CMD_FORCE \<Rightarrow>
                if boot_cpu_has f X86_FEATURE_IBRS_ENHANCED
                then spec_ctrl_set (spec_ctrl_enable_ibrs_enhanced (spec_ctrl f)) s1
                else spectre_v2_after_switch f full_retpoline s1
            | SPECTRE_V2_CMD_AUTO \<Rightarrow>
                if boot_cpu_has f X86_FEATURE_IBRS_ENHANCED
                then spec_ctrl_set (spec_ctrl_enable_ibrs_enhanced (spec_ctrl f)) s1
                else spectre_v2_after_switch f full_retpoline s1
            | SPECTRE_V2_CMD_RETPOLINE_FORCE \<Rightarrow>
                spec_ctrl_set (spec_ctrl_enable_retpoline (spec_ctrl f)) s1
            | SPECTRE_V2_CMD_RETPOLINE \<Rightarrow>
                spec_ctrl_set (spec_ctrl_enable_retpoline (spec_ctrl f)) s1
            | SPECTRE_V2_CMD_RETPOLINE_AMD \<Rightarrow>
                spec_ctrl_set (spec_ctrl_enable_retpoline_amd (spec_ctrl f))
                  (printk KERN_WARNING SPECTRE_V2_LFENCE_MSG s1)
            | SPECTRE_V2_CMD_IBRS \<Rightarrow>
                (let (ok, s2) = spec_ctrl_call (spec_ctrl_force_enable_ibrs (spec_ctrl f)) s1
                 in if ok then s2 else spectre_v2_after_switch f full_retpoline s2)
            | SPECTRE_V2_CMD_IBRS_ALWAYS \<Rightarrow>
                (let (ok, s2) = spec_ctrl_call (spec_ctrl_enable_ibrs_always (spec_ctrl f)) s1
                 in if ok then s2
                    else
                      (let (ok2, s3) =
                             spec_ctrl_call (spec_ctrl_force_enable_ibp_disabled (spec_ctrl f)) s2
                       in if ok2 then s3 else spectre_v2_after_switch f full_retpoline s3))
            | SPECTRE_V2_CMD_RETPOLINE_IBRS_USER \<Rightarrow>
                (let (ok, s2) =
                       spec_ctrl_call (spec_ctrl_enable_retpoline_ibrs_user (spec_ctrl f)) s1
                 in if ok then s2 else spectre_v2_after_switch f full_retpoline s2)))"

definition spectre_v2_print_mitigation :: "state \<Rightarrow> state" where
  "spectre_v2_print_mitigation s =
     printk KERN_INFO (''Spectre V2 : '' @ spectre_v2_strings (spec_ctrl_get_mitigation s)) s"

text \<open>\<open>native_wrmsrl\<close> is the register write without the paravirt indirection.\<close>

definition spec_ctrl_disable_kernel_rrsba :: "facts \<Rightarrow> state \<Rightarrow> state" where
  "spec_ctrl_disable_kernel_rrsba f s =
     (if \<not> boot_cpu_has f X86_FEATURE_RRSBA_CTRL then s
      else if test_mask (ia32_cap f) ARCH_CAP_RRSBA
      then
        (let s1 = s\<lparr>x86_spec_ctrl_base := x86_spec_ctrl_base s OR SPEC_CTRL_RRSBA_DIS_S\<rparr>
         in wrmsrl MSR_IA32_SPEC_CTRL (x86_spec_ctrl_base s1) s1)
      else s)"

definition spectre_v2_select_mitigation :: "facts \<Rightarrow> state \<Rightarrow> state" where
  "spectre_v2_select_mitigation f s =
     (let (cmd, s0) =
            spectre_v2_parse_cmdline f (cmdline_nospectre_v2 f) (cmdline_spectre_v2_ret f)
              (cmdline_spectre_v2_arg f) s;
          s1 = uu_spectre_v2_select_mitigation f (s0\<lparr>spectre_v2_cmd := cmd\<rparr>);
          mode = spec_ctrl_get_mitigation s1;
          s2 = (if mode = SPECTRE_V2_IBRS_ENHANCED \<or> mode = SPECTRE_V2_RETPOLINE_IBRS_USER
                   \<or> mode = SPECTRE_V2_RETPOLINE
                then spec_ctrl_disable_kernel_rrsba f s1 else s1);
          s3 = spectre_v2_print_mitigation s2
      in if boot_cpu_has_bug f X86_BUG_SPECTRE_V2 \<and> mode \<noteq> SPECTRE_V2_NONE
         then printk KERN_INFO ''Filling RSB on context switch''
                (setup_force_cpu_cap X86_FEATURE_RSB_CTXSW s3)
         else s3)"

section \<open>Speculative Store Bypass\<close>

fun ssb_strings :: "ssb_mitigation \<Rightarrow> string" where
  "ssb_strings SPEC_STORE_BYPASS_NONE = ''Vulnerable''"
| "ssb_strings SPEC_STORE_BYPASS_DISABLE = ''Mitigation: Speculative Store Bypass disabled''"
| "ssb_strings SPEC_STORE_BYPASS_PRCTL =
     ''Mitigation: Speculative Store Bypass disabled via prctl''"
| "ssb_strings SPEC_STORE_BYPASS_SECCOMP =
     ''Mitigation: Speculative Store Bypass disabled via prctl and seccomp''"

text \<open>
  The numeric value of an \<open>enum ssb_mitigation\<close> constant, for the comparison
  \<open>ssb_mode >= SPEC_STORE_BYPASS_PRCTL\<close>. The enum is declared in a header that is not
  under src; the order is the one of the \<open>ssb_strings\<close> table.
\<close>

fun ssb_mitigation_val :: "ssb_mitigation \<Rightarrow> nat" where
  "ssb_mitigation_val SPEC_STORE_BYPASS_NONE = 0"
| "ssb_mitigation_val SPEC_STORE_BYPASS_DISABLE = 1"
| "ssb_mitigation_val SPEC_STORE_BYPASS_PRCTL = 2"
| "ssb_mitigation_val SPEC_STORE_BYPASS_SECCOMP = 3"

definition x86_amd_ssbd_enable :: "facts \<Rightarrow> state \<Rightarrow> state" where
  "x86_amd_ssbd_enable f s =
     (let msrval = x86_amd_ls_cfg_base f OR x86_amd_ls_cfg_ssbd_mask f
      in if boot_cpu_has f X86_FEATURE_VIRT_SSBD
         then wrmsrl MSR_AMD64_VIRT_SPEC_CTRL SPEC_CTRL_SSBD s
         else if boot_cpu_has f X86_FEATURE_LS_CFG_SSBD
         then wrmsrl MSR_AMD64_LS_CFG msrval s
         else s)"

text \<open>
  \<open>uu_ssb_select_mitigation\<close> is \<open>__ssb_select_mitigation\<close>. \<open>static_cpu_has\<close> reads
  the same capability bit as \<open>boot_cpu_has\<close>.
\<close>

definition uu_ssb_select_mitigation :: "facts \<Rightarrow> state \<Rightarrow> ssb_mitigation \<times> state" where
  "uu_ssb_select_mitigation f s =
     (let cmd = ssb_cmd s
      in if \<not> boot_cpu_has f X86_FEATURE_SSBD then (SPEC_STORE_BYPASS_NONE, s)
         else if \<not> boot_cpu_has_bug f X86_BUG_SPEC_STORE_BYPASS
                 \<and> (cmd = SPEC_STORE_BYPASS_CMD_NONE \<or> cmd = SPEC_STORE_BYPASS_CMD_AUTO)
         then (SPEC_STORE_BYPASS_NONE, s)
         else
           (let mode =
                  (case cmd of
                     SPEC_STORE_BYPASS_CMD_AUTO \<Rightarrow>
                       if CONFIG_SECCOMP f then SPEC_STORE_BYPASS_SECCOMP
                       else SPEC_STORE_BYPASS_PRCTL
                   | SPEC_STORE_BYPASS_CMD_SECCOMP \<Rightarrow>
                       if CONFIG_SECCOMP f then SPEC_STORE_BYPASS_SECCOMP
                       else SPEC_STORE_BYPASS_PRCTL
                   | SPEC_STORE_BYPASS_CMD_ON \<Rightarrow> SPEC_STORE_BYPASS_DISABLE
                   | SPEC_STORE_BYPASS_CMD_PRCTL \<Rightarrow> SPEC_STORE_BYPASS_PRCTL
                   | SPEC_STORE_BYPASS_CMD_NONE \<Rightarrow> SPEC_STORE_BYPASS_NONE)
            in if mode = SPEC_STORE_BYPASS_DISABLE
               then
                 (let s1 = setup_force_cpu_cap X86_FEATURE_SPEC_STORE_BYPASS_DISABLE s;
                      s2 = s1\<lparr>x86_spec_ctrl_base := x86_spec_ctrl_base s1 OR SPEC_CTRL_SSBD\<rparr>
                  in if \<not> boot_cpu_has f X86_FEATURE_MSR_SPEC_CTRL
                     then (mode, x86_amd_ssbd_enable f s2)
                     else
                       (let s3 = s2\<lparr>x86_spec_ctrl_mask := x86_spec_ctrl_mask s2 OR SPEC_CTRL_SSBD\<rparr>
                        in (mode, wrmsrl MSR_IA32_SPEC_CTRL (x86_spec_ctrl_base s3) s3)))
               else (mode, s)))"

definition ssb_print_mitigation :: "state \<Rightarrow> state" where
  "ssb_print_mitigation s =
     printk KERN_INFO (''Speculative Store Bypass: '' @ ssb_strings (ssb_mode s)) s"

definition ssb_select_mitigation :: "facts \<Rightarrow> state \<Rightarrow> state" where
  "ssb_select_mitigation f s =
     (let (mode, s0) = uu_ssb_select_mitigation f s;
          s1 = s0\<lparr>ssb_mode := mode\<rparr>;
          s2 = (if \<not> static_key_enabled (ssbd_userset_key s1)
                   \<and> ssb_mitigation_val (ssb_mode s1)
                       \<ge> ssb_mitigation_val SPEC_STORE_BYPASS_PRCTL
                then s1\<lparr>ssbd_userset_key := static_key_slow_inc (ssbd_userset_key s1)\<rparr> else s1)
      in if boot_cpu_has_bug f X86_BUG_SPEC_STORE_BYPASS then ssb_print_mitigation s2 else s2)"

section \<open>L1TF\<close>

text \<open>
  \<open>override_cache_bits\<close> and \<open>l1tf_pfn_limit\<close> only feed the range that
  \<open>e820_any_mapped\<close> is asked about; the answer is the detection fact
  \<open>e820_half_pa_mapped\<close>.
\<close>

definition l1tf_select_mitigation :: "facts \<Rightarrow> state \<Rightarrow> state" where
  "l1tf_select_mitigation f s =
     (if \<not> boot_cpu_has_bug f X86_BUG_L1TF then s
      else
        (let s1 = (if cpu_mitigations_off f then s\<lparr>l1tf_mitigation := L1TF_MITIGATION_OFF\<rparr>
                   else if cpu_mitigations_auto_nosmt f
                   then s\<lparr>l1tf_mitigation := L1TF_MITIGATION_FLUSH_NOSMT\<rparr>
                   else s);
             s2 = (case l1tf_mitigation s1 of
                     L1TF_MITIGATION_OFF \<Rightarrow> s1
                   | L1TF_MITIGATION_FLUSH_NOWARN \<Rightarrow> s1
                   | L1TF_MITIGATION_FLUSH \<Rightarrow> s1
                   | L1TF_MITIGATION_FLUSH_NOSMT \<Rightarrow> cpu_smt_disable False s1
                   | L1TF_MITIGATION_FULL \<Rightarrow> cpu_smt_disable False s1
                   | L1TF_MITIGATION_FULL_FORCE \<Rightarrow> cpu_smt_disable True s1)
         in if PAGETABLE_LEVELS_2 f
            then printk KERN_WARNING
                   ''L1TF: Kernel not compiled for PAE. No mitigation for L1TF'' s2
            else if e820_half_pa_mapped f
            then printk KERN_WARNING
                   ''L1TF: System has more than MAX_PA/2 memory. L1TF mitigation not effective.'' s2
            else setup_force_cpu_cap X86_FEATURE_L1TF_PTEINV s2))"

definition l1tf_cmdline :: "facts \<Rightarrow> string option \<Rightarrow> state \<Rightarrow> int \<times> state" where
  "l1tf_cmdline f str s =
     (if \<not> boot_cpu_has_bug f X86_BUG_L1TF then (0, s)
      else case str of
        None \<Rightarrow> (- EINVAL, s)
      | Some t \<Rightarrow>
          (0, if t = ''off'' then s\<lparr>l1tf_mitigation := L1TF_MITIGATION_OFF\<rparr>
              else if t = ''flush,nowarn'' then s\<lparr>l1tf_mitigation := L1TF_MITIGATION_FLUSH_NOWARN\<rparr>
              else if t = ''flush'' then s\<lparr>l1tf_mitigation := L1TF_MITIGATION_FLUSH\<rparr>
              else if t = ''flush,nosmt'' then s\<lparr>l1tf_mitigation := L1TF_MITIGATION_FLUSH_NOSMT\<rparr>
              else if t = ''full'' then s\<lparr>l1tf_mitigation := L1TF_MITIGATION_FULL\<rparr>
              else if t = ''full,force'' then s\<lparr>l1tf_mitigation := L1TF_MITIGATION_FULL_FORCE\<rparr>
              else s))"

section \<open>The effect applier: SMT feedback\<close>

text \<open>
  \<open>sched_smt_active()\<close> belongs to the scheduler; its answer at the time of the call is
  the parameter \<open>smt\<close>.
\<close>

definition update_mds_branch_idle :: "facts \<Rightarrow> bool \<Rightarrow> state \<Rightarrow> state" where
  "update_mds_branch_idle f smt s =
     (if \<not> boot_cpu_has f X86_BUG_MSBDS_ONLY then s
      else if smt
      then (if \<not> static_key_enabled (mds_idle_clear s)
            then s\<lparr>mds_idle_clear := static_key_slow_inc (mds_idle_clear s)\<rparr> else s)
      else if mmio_mitigation s = MMIO_MITIGATION_OFF \<or> test_mask (ia32_cap f) ARCH_CAP_FBSDP_NO
      then (if static_key_enabled (mds_idle_clear s)
            then s\<lparr>mds_idle_clear := static_key_slow_dec (mds_idle_clear s)\<rparr> else s)
      else s)"

definition MDS_MSG_SMT :: string where
  "MDS_MSG_SMT = ''MDS CPU bug present and SMT on, data leak possible. See https://www.kernel.org/doc/html/latest/admin-guide/hw-vuln/mds.html for more details.''"

definition TAA_MSG_SMT :: string where
  "TAA_MSG_SMT = ''TAA CPU bug present and SMT on, data leak possible. See https://www.kernel.org/doc/html/latest/admin-guide/hw-vuln/tsx_async_abort.html for more details.''"

definition MMIO_MSG_SMT :: string where
  "MMIO_MSG_SMT = ''MMIO Stale Data CPU bug present and SMT on, data leak possible. See https://www.kernel.org/doc/html/latest/admin-guide/hw-vuln/processor_mmio_stale_data.html for more details.''"

text \<open>The three \<open>pr_warn_once\<close> calls of \<open>arch_smt_update\<close>, each with its own latch.\<close>

definition pr_warn_once_mds :: "state \<Rightarrow> state" where
  "pr_warn_once_mds s =
     (if \<not> mds_smt_warned s then printk KERN_WARNING MDS_MSG_SMT (s\<lparr>mds_smt_warned := True\<rparr>)
      else s)"

definition pr_warn_once_taa :: "state \<Rightarrow> state" where
  "pr_warn_once_taa s =
     (if \<not> taa_smt_warned s then printk KERN_WARNING TAA_MSG_SMT (s\<lparr>taa_smt_warned := True\<rparr>)
      else s)"

definition pr_warn_once_mmio :: "state \<Rightarrow> state" where
  "pr_warn_once_mmio s =
     (if \<not> mmio_smt_warned s then printk KERN_WARNING MMIO_MSG_SMT (s\<lparr>mmio_smt_warned := True\<rparr>)
      else s)"

text \<open>\<open>arch_smt_update\<close> runs under \<open>spec_ctrl_mutex\<close>, so its body is one step.\<close>

definition arch_smt_update :: "facts \<Rightarrow> bool \<Rightarrow> state \<Rightarrow> state" where
  "arch_smt_update f smt s =
     (let s1 =
            (case mds_mitigation s of
               MDS_MITIGATION_FULL \<Rightarrow>
                 update_mds_branch_idle f smt
                   (if smt \<and> \<not> boot_cpu_has f X86_BUG_MSBDS_ONLY then pr_warn_once_mds s else s)
             | MDS_MITIGATION_VMWERV \<Rightarrow>
                 update_mds_branch_idle f smt
                   (if smt \<and> \<not> boot_cpu_has f X86_BUG_MSBDS_ONLY then pr_warn_once_mds s else s)
             | MDS_MITIGATION_OFF \<Rightarrow> s);
          s2 =
            (case taa_mitigation s1 of
               TAA_MITIGATION_VERW \<Rightarrow> if smt then pr_warn_once_taa s1 else s1
             | TAA_MITIGATION_UCODE_NEEDED \<Rightarrow> if smt then pr_warn_once_taa s1 else s1
             | TAA_MITIGATION_TSX_DISABLED \<Rightarrow> s1
             | TAA_MITIGATION_OFF \<Rightarrow> s1)
      in case mmio_mitigation s2 of
           MMIO_MITIGATION_VERW \<Rightarrow> if smt then pr_warn_once_mmio s2 else s2
         | MMIO_MITIGATION_UCODE_NEEDED \<Rightarrow> if smt then pr_warn_once_mmio s2 else s2
         | MMIO_MITIGATION_OFF \<Rightarrow> s2)"

text \<open>The state after any number of SMT topology changes, each followed by the applier.\<close>

primrec smt_changes :: "facts \<Rightarrow> bool list \<Rightarrow> state \<Rightarrow> state" where
  "smt_changes f [] s = s"
| "smt_changes f (smt # rest) s = smt_changes f rest (arch_smt_update f smt s)"

section \<open>The selectors by vulnerability kind\<close>

text \<open>
  The kinds whose selector \<open>check_bugs\<close> calls. The bug bit of each kind is the one its
  \<open>cpu_show_*\<close> function passes to \<open>cpu_show_common\<close>.
\<close>

datatype vuln_kind =
  SpectreV1 | SpectreV2 | RETBleed | SpeculativeStoreBypass | L1TF | MDS | TAA
  | MMIOStaleData | SRBDS | GDS

fun bug_of :: "vuln_kind \<Rightarrow> cpu_cap" where
  "bug_of SpectreV1 = X86_BUG_SPECTRE_V1"
| "bug_of SpectreV2 = X86_BUG_SPECTRE_V2"
| "bug_of RETBleed = X86_BUG_RETBLEED"
| "bug_of SpeculativeStoreBypass = X86_BUG_SPEC_STORE_BYPASS"
| "bug_of L1TF = X86_BUG_L1TF"
| "bug_of MDS = X86_BUG_MDS"
| "bug_of TAA = X86_BUG_TAA"
| "bug_of MMIOStaleData = X86_BUG_MMIO_STALE_DATA"
| "bug_of SRBDS = X86_BUG_SRBDS"
| "bug_of GDS = X86_BUG_GDS"

fun select_mitigation :: "vuln_kind \<Rightarrow> facts \<Rightarrow> state \<Rightarrow> state" where
  "select_mitigation SpectreV1 = spectre_v1_select_mitigation"
| "select_mitigation SpectreV2 = spectre_v2_select_mitigation"
| "select_mitigation RETBleed = retbleed_select_mitigation"
| "select_mitigation SpeculativeStoreBypass = ssb_select_mitigation"
| "select_mitigation L1TF = l1tf_select_mitigation"
| "select_mitigation MDS = mds_select_mitigation"
| "select_mitigation TAA = taa_select_mitigation"
| "select_mitigation MMIOStaleData = mmio_select_mitigation"
| "select_mitigation SRBDS = srbds_select_mitigation"
| "select_mitigation GDS = gds_select_mitigation"

section \<open>What a run of a selector leaves to observe\<close>

text \<open>
  The choice of every kind, the reference counts of the four static keys that the
  selectors take (the three buffer-clear keys and \<open>ssbd_userset_key\<close>), and for each
  kind whether its choice is the "Off"/"no mitigation" variant (the one whose status
  string is "Vulnerable", for Spectre V1 the variant without swapgs barriers).
\<close>

definition mitigation_choices ::
  "state \<Rightarrow> spectre_v1_mitigation \<times> spectre_v2_mitigation \<times> retbleed_mitigation
     \<times> ssb_mitigation \<times> l1tf_mitigations \<times> mds_mitigations \<times> taa_mitigations
     \<times> mmio_mitigations \<times> srbds_mitigations \<times> gds_mitigations" where
  "mitigation_choices s =
     (spectre_v1_mitigation s, spectre_v2_enabled s, retbleed_mitigation s, ssb_mode s,
      l1tf_mitigation s, mds_mitigation s, taa_mitigation s, mmio_mitigation s,
      srbds_mitigation s, gds_mitigation s)"

definition effect_counts :: "state \<Rightarrow> int \<times> int \<times> int \<times> int" where
  "effect_counts s =
     (mds_user_clear s, mds_idle_clear s, mmio_stale_data_clear s, ssbd_userset_key s)"

fun choice_is_off :: "vuln_kind \<Rightarrow> state \<Rightarrow> bool" where
  "choice_is_off SpectreV1 s = (spectre_v1_mitigation s = SPECTRE_V1_MITIGATION_NONE)"
| "choice_is_off SpectreV2 s = (spectre_v2_enabled s = SPECTRE_V2_NONE)"
| "choice_is_off RETBleed s = (retbleed_mitigation s = RETBLEED_MITIGATION_NONE)"
| "choice_is_off SpeculativeStoreBypass s = (ssb_mode s = SPEC_STORE_BYPASS_NONE)"
| "choice_is_off L1TF s = (l1tf_mitigation s = L1TF_MITIGATION_OFF)"
| "choice_is_off MDS s = (mds_mitigation s = MDS_MITIGATION_OFF)"
| "choice_is_off TAA s = (taa_mitigation s = TAA_MITIGATION_OFF)"
| "choice_is_off MMIOStaleData s = (mmio_mitigation s = MMIO_MITIGATION_OFF)"
| "choice_is_off SRBDS s = (srbds_mitigation s = SRBDS_MITIGATION_OFF)"
| "choice_is_off GDS s = (gds_mitigation s = GDS_MITIGATION_OFF)"

text \<open>
  What the Spectre V2 selector decides for a command on a machine: \<open>None\<close> when it
  returns without calling any of the spec_ctrl.c functions, otherwise the choice the last
  call left. Lemma \<open>uu_spectre_v2_select_enabled\<close> shows that this is what the code
  computes.
\<close>

definition spectre_v2_after_switch_choice :: "facts \<Rightarrow> spectre_v2_mitigation" where
  "spectre_v2_after_switch_choice f =
     (case spec_ctrl_cond_enable_ibrs (spec_ctrl f)
             (CONFIG_RETPOLINE f \<and> retp_compiler (spec_ctrl f)) of
        Some m \<Rightarrow> m
      | None \<Rightarrow>
          (case spec_ctrl_cond_enable_ibp_disabled (spec_ctrl f) of
             Some m \<Rightarrow> m
           | None \<Rightarrow> spec_ctrl_enable_retpoline (spec_ctrl f)))"

definition spectre_v2_decision ::
  "facts \<Rightarrow> spectre_v2_mitigation_cmd \<Rightarrow> spectre_v2_mitigation option" where
  "spectre_v2_decision f cmd =
     (if \<not> boot_cpu_has_bug f X86_BUG_SPECTRE_V2
         \<and> (cmd = SPECTRE_V2_CMD_NONE \<or> cmd = SPECTRE_V2_CMD_AUTO)
      then None
      else
        (case cmd of
           SPECTRE_V2_CMD_NONE \<Rightarrow> None
         | SPECTRE_V2_CMD_FORCE \<Rightarrow>
             Some (if boot_cpu_has f X86_FEATURE_IBRS_ENHANCED
                   then spec_ctrl_enable_ibrs_enhanced (spec_ctrl f)
                   else spectre_v2_after_switch_choice f)
         | SPECTRE_V2_CMD_AUTO \<Rightarrow>
             Some (if boot_cpu_has f X86_FEATURE_IBRS_ENHANCED
                   then spec_ctrl_enable_ibrs_enhanced (spec_ctrl f)
                   else spectre_v2_after_switch_choice f)
         | SPECTRE_V2_CMD_RETPOLINE_FORCE \<Rightarrow> Some (spec_ctrl_enable_retpoline (spec_ctrl f))
         | SPECTRE_V2_CMD_RETPOLINE \<Rightarrow> Some (spec_ctrl_enable_retpoline (spec_ctrl f))
         | SPECTRE_V2_CMD_RETPOLINE_AMD \<Rightarrow> Some (spec_ctrl_enable_retpoline_amd (spec_ctrl f))
         | SPECTRE_V2_CMD_IBRS \<Rightarrow>
             Some (case spec_ctrl_force_enable_ibrs (spec_ctrl f) of
                     Some m \<Rightarrow> m | None \<Rightarrow> spectre_v2_after_switch_choice f)
         | SPECTRE_V2_CMD_IBRS_ALWAYS \<Rightarrow>
             Some (case spec_ctrl_enable_ibrs_always (spec_ctrl f) of
                     Some m \<Rightarrow> m
                   | None \<Rightarrow>
                       (case spec_ctrl_force_enable_ibp_disabled (spec_ctrl f) of
                          Some m \<Rightarrow> m | None \<Rightarrow> spectre_v2_after_switch_choice f))
         | SPECTRE_V2_CMD_RETPOLINE_IBRS_USER \<Rightarrow>
             Some (case spec_ctrl_enable_retpoline_ibrs_user (spec_ctrl f) of
                     Some m \<Rightarrow> m | None \<Rightarrow> spectre_v2_after_switch_choice f)))"

text \<open>
  The comma-separated tokens of a parameter text, in order, and the names that
  \<open>retbleed=\<close> knows. Lemma \<open>retbleed_parse_loop_tokens\<close> shows that the parsing loop
  handles exactly these tokens.
\<close>

primrec comma_tokens :: "string \<Rightarrow> string list" where
  "comma_tokens [] = [[]]"
| "comma_tokens (c # cs) =
     (if c = CHR '','' then [] # comma_tokens cs
      else (case comma_tokens cs of [] \<Rightarrow> [[c]] | t # ts \<Rightarrow> (c # t) # ts))"

definition retbleed_names :: "string set" where
  "retbleed_names = {''off'', ''auto'', ''unret'', ''ibpb'', ''nosmt''}"

section \<open>The invariant of the idle key\<close>

text \<open>
  What holds of \<open>mds_idle_clear\<close> between two runs of the applier: if the MMIO selector
  took its reference (MMIO choice not Off and FBSDP_NO absent) the count is 1; otherwise it
  is 0, or 1 through \<open>update_mds_branch_idle\<close> on MSBDS-only hardware with MDS mitigated.
\<close>

definition idle_clear_inv :: "facts \<Rightarrow> state \<Rightarrow> bool" where
  "idle_clear_inv f s =
     (if mmio_mitigation s \<noteq> MMIO_MITIGATION_OFF \<and> \<not> test_mask (ia32_cap f) ARCH_CAP_FBSDP_NO
      then mds_idle_clear s = 1
      else mds_idle_clear s = 0
           \<or> (mds_idle_clear s = 1 \<and> mds_mitigation s \<noteq> MDS_MITIGATION_OFF
               \<and> boot_cpu_has f X86_BUG_MSBDS_ONLY))"

section \<open>Concrete machines used by the witnesses and counterexamples\<close>

text \<open>
  Hardware on which every Spectre V2 mode can be enabled, and only the forced requests
  for IBRS succeed.
\<close>

definition ibrs_capable :: spec_ctrl where
  "ibrs_capable =
     \<lparr> retp_compiler = True,
       spec_ctrl_enable_ibrs_enhanced = SPECTRE_V2_IBRS_ENHANCED,
       spec_ctrl_enable_retpoline = SPECTRE_V2_RETPOLINE,
       spec_ctrl_enable_retpoline_amd = SPECTRE_V2_RETPOLINE_AMD,
       spec_ctrl_force_enable_ibrs = Some SPECTRE_V2_IBRS,
       spec_ctrl_enable_ibrs_always = Some SPECTRE_V2_IBRS_ALWAYS,
       spec_ctrl_force_enable_ibp_disabled = Some SPECTRE_V2_IBP_DISABLED,
       spec_ctrl_enable_retpoline_ibrs_user = Some SPECTRE_V2_RETPOLINE_IBRS_USER,
       spec_ctrl_cond_enable_ibrs = (\<lambda>full_retpoline. None),
       spec_ctrl_cond_enable_ibp_disabled = None \<rparr>"

text \<open>
  An Intel machine with no capability bit set, default configuration and no Spectre V2
  option on the command line; the examples below switch single facts on.
\<close>

definition intel_defaults :: facts where
  "intel_defaults =
     \<lparr> x86_capability = {}, x86_vendor = X86_VENDOR_INTEL, ia32_cap = 0,
       cpu_mitigations = CPU_MITIGATIONS_AUTO, CONFIG_RETPOLINE = True,
       CONFIG_GDS_FORCE_MITIGATION = False, CONFIG_SECCOMP = True,
       PAGETABLE_LEVELS_2 = False, e820_half_pa_mapped = False,
       x86_amd_ls_cfg_base = 0, x86_amd_ls_cfg_ssbd_mask = 0,
       spec_ctrl = ibrs_capable, cmdline_nospectre_v2 = False,
       cmdline_spectre_v2_ret = - 1, cmdline_spectre_v2_arg = [] \<rparr>"

definition with_caps :: "cpu_cap set \<Rightarrow> facts" where
  "with_caps caps = intel_defaults\<lparr>x86_capability := caps\<rparr>"

text \<open>The state after \<open>mds=off tsx_async_abort=off\<close> has been parsed at boot.\<close>

definition both_off :: "facts \<Rightarrow> state" where
  "both_off f =
     snd (tsx_async_abort_parse_cmdline f (Some ''off'')
            (snd (mds_cmdline f (Some ''off'') (boot_state f 0 0))))"

text \<open>The state after \<open>srbds=off\<close> has been parsed at boot.\<close>

definition srbds_off_state :: "facts \<Rightarrow> state" where
  "srbds_off_state f = snd (srbds_parse_cmdline f (Some ''off'') (boot_state f 0 0))"

text \<open>
  A GDS-affected machine with the GDS_CTRL microcode; the same with \<open>mitigations=off\<close>;
  and the state after \<open>gather_data_sampling=off\<close> was parsed, on a processor whose
  MCU_OPT_CTRL register has the lock bit set.
\<close>

definition gds_locked_machine :: facts where
  "gds_locked_machine = (with_caps {X86_BUG_GDS})\<lparr>ia32_cap := ARCH_CAP_GDS_CTRL\<rparr>"

definition gds_locked_mitigations_off :: facts where
  "gds_locked_mitigations_off = gds_locked_machine\<lparr>cpu_mitigations := CPU_MITIGATIONS_OFF\<rparr>"

definition gds_off_state :: "facts \<Rightarrow> state" where
  "gds_off_state f = snd (gds_parse_cmdline f (Some ''off'') (boot_state f 0 GDS_MITG_LOCKED))"

text \<open>
  The state after \<open>retbleed=str\<close> was parsed and the Spectre V2 selection (whose body is
  in spec_ctrl.c) ended with Enhanced IBRS.
\<close>

definition retbleed_state :: "facts \<Rightarrow> string \<Rightarrow> state" where
  "retbleed_state f str =
     (snd (retbleed_parse_cmdline (Some str) (boot_state f 0 0)))
       \<lparr>spectre_v2_enabled := SPECTRE_V2_IBRS_ENHANCED\<rparr>"

text \<open>A machine booted with \<open>mitigations=off\<close>.\<close>

definition mitigations_off_machine :: "cpu_cap set \<Rightarrow> facts" where
  "mitigations_off_machine caps = (with_caps caps)\<lparr>cpu_mitigations := CPU_MITIGATIONS_OFF\<rparr>"

text \<open>The same with most bugs present and no mitigating feature.\<close>

definition all_bugs_mitigations_off :: facts where
  "all_bugs_mitigations_off =
     mitigations_off_machine
       {X86_BUG_MDS, X86_BUG_TAA, X86_BUG_MMIO_STALE_DATA, X86_BUG_L1TF, X86_BUG_SRBDS,
        X86_BUG_GDS, X86_FEATURE_SSBD, X86_BUG_SPEC_STORE_BYPASS}"

text \<open>The kernel log line of the refused GDS disable request.\<close>

definition GDS_DISABLE_FAILED :: "log_level \<times> string" where
  "GDS_DISABLE_FAILED = (KERN_WARNING, ''GDS: Mitigation locked. Disable failed.'')"

section \<open>What each selector of the MDS, TAA and MMIO triad does to each variable\<close>

lemma atomic_inc_zero [simp]: "atomic_inc 0 = 1"
  by (simp add: atomic_inc_def INT_MAX_def)

lemma atomic_inc_below: "c < INT_MAX \<Longrightarrow> atomic_inc c = c + 1"
  by (simp add: atomic_inc_def)

lemma atomic_inc_enabled: "0 \<le> c \<Longrightarrow> c < INT_MAX \<Longrightarrow> static_key_enabled (atomic_inc c)"
  by (simp add: atomic_inc_def static_key_enabled_def)

lemma mds_select_mds [simp]:
  "mds_mitigation (mds_select_mitigation f s) =
     (if \<not> boot_cpu_has_bug f X86_BUG_MDS \<or> cpu_mitigations_off f then MDS_MITIGATION_OFF
      else if mds_mitigation s = MDS_MITIGATION_FULL \<and> \<not> boot_cpu_has f X86_FEATURE_MD_CLEAR
      then MDS_MITIGATION_VMWERV else mds_mitigation s)"
  by (simp add: mds_select_mitigation_def Let_def cpu_smt_disable_def)

lemma mds_select_frame [simp]:
  "taa_mitigation (mds_select_mitigation f s) = taa_mitigation s"
  "mmio_mitigation (mds_select_mitigation f s) = mmio_mitigation s"
  "mds_idle_clear (mds_select_mitigation f s) = mds_idle_clear s"
  "mmio_stale_data_clear (mds_select_mitigation f s) = mmio_stale_data_clear s"
  by (simp_all add: mds_select_mitigation_def Let_def cpu_smt_disable_def)

lemma mds_select_user_clear [simp]:
  "mds_user_clear (mds_select_mitigation f s) =
     (if boot_cpu_has_bug f X86_BUG_MDS \<and> \<not> cpu_mitigations_off f
         \<and> mds_mitigation s = MDS_MITIGATION_FULL
      then atomic_inc (mds_user_clear s) else mds_user_clear s)"
  by (simp add: mds_select_mitigation_def Let_def cpu_smt_disable_def static_key_slow_inc_def)

lemma taa_select_taa [simp]:
  "taa_mitigation (taa_select_mitigation f s) =
     (if \<not> boot_cpu_has_bug f X86_BUG_TAA then TAA_MITIGATION_OFF
      else if \<not> boot_cpu_has f X86_FEATURE_RTM then TAA_MITIGATION_TSX_DISABLED
      else if cpu_mitigations_off f then TAA_MITIGATION_OFF
      else if taa_mitigation s = TAA_MITIGATION_OFF \<and> mds_mitigation s = MDS_MITIGATION_OFF
      then TAA_MITIGATION_OFF
      else if test_mask (ia32_cap f) ARCH_CAP_MDS_NO
              \<and> \<not> test_mask (ia32_cap f) ARCH_CAP_TSX_CTRL_MSR
      then TAA_MITIGATION_UCODE_NEEDED
      else if boot_cpu_has f X86_FEATURE_MD_CLEAR then TAA_MITIGATION_VERW
      else TAA_MITIGATION_UCODE_NEEDED)"
  by (simp add: taa_select_mitigation_def Let_def cpu_smt_disable_def)

lemma taa_select_frame [simp]:
  "mds_mitigation (taa_select_mitigation f s) = mds_mitigation s"
  "mmio_mitigation (taa_select_mitigation f s) = mmio_mitigation s"
  "mds_idle_clear (taa_select_mitigation f s) = mds_idle_clear s"
  "mmio_stale_data_clear (taa_select_mitigation f s) = mmio_stale_data_clear s"
  by (simp_all add: taa_select_mitigation_def Let_def cpu_smt_disable_def)

lemma taa_select_user_clear [simp]:
  "mds_user_clear (taa_select_mitigation f s) =
     (if boot_cpu_has_bug f X86_BUG_TAA \<and> boot_cpu_has f X86_FEATURE_RTM
         \<and> \<not> cpu_mitigations_off f
         \<and> \<not> (taa_mitigation s = TAA_MITIGATION_OFF \<and> mds_mitigation s = MDS_MITIGATION_OFF)
      then atomic_inc (mds_user_clear s) else mds_user_clear s)"
  by (simp add: taa_select_mitigation_def Let_def cpu_smt_disable_def static_key_slow_inc_def)

lemma mmio_select_mmio [simp]:
  "mmio_mitigation (mmio_select_mitigation f s) =
     (if \<not> boot_cpu_has_bug f X86_BUG_MMIO_STALE_DATA \<or> cpu_mitigations_off f
         \<or> mmio_mitigation s = MMIO_MITIGATION_OFF
      then MMIO_MITIGATION_OFF
      else if test_mask (ia32_cap f) ARCH_CAP_FB_CLEAR
              \<or> (boot_cpu_has f X86_FEATURE_MD_CLEAR \<and> boot_cpu_has f X86_FEATURE_FLUSH_L1D
                  \<and> \<not> test_mask (ia32_cap f) ARCH_CAP_MDS_NO)
      then MMIO_MITIGATION_VERW else MMIO_MITIGATION_UCODE_NEEDED)"
  by (simp add: mmio_select_mitigation_def Let_def cpu_smt_disable_def)

lemma mmio_select_frame [simp]:
  "mds_mitigation (mmio_select_mitigation f s) = mds_mitigation s"
  "taa_mitigation (mmio_select_mitigation f s) = taa_mitigation s"
  by (simp_all add: mmio_select_mitigation_def Let_def cpu_smt_disable_def)

lemma mmio_select_user_clear [simp]:
  "mds_user_clear (mmio_select_mitigation f s) =
     (if boot_cpu_has_bug f X86_BUG_MMIO_STALE_DATA \<and> \<not> cpu_mitigations_off f
         \<and> mmio_mitigation s \<noteq> MMIO_MITIGATION_OFF
         \<and> (boot_cpu_has_bug f X86_BUG_MDS
             \<or> (boot_cpu_has_bug f X86_BUG_TAA \<and> boot_cpu_has f X86_FEATURE_RTM))
      then atomic_inc (mds_user_clear s) else mds_user_clear s)"
  by (simp add: mmio_select_mitigation_def Let_def cpu_smt_disable_def static_key_slow_inc_def)

lemma mmio_select_stale_clear [simp]:
  "mmio_stale_data_clear (mmio_select_mitigation f s) =
     (if boot_cpu_has_bug f X86_BUG_MMIO_STALE_DATA \<and> \<not> cpu_mitigations_off f
         \<and> mmio_mitigation s \<noteq> MMIO_MITIGATION_OFF
         \<and> \<not> (boot_cpu_has_bug f X86_BUG_MDS
             \<or> (boot_cpu_has_bug f X86_BUG_TAA \<and> boot_cpu_has f X86_FEATURE_RTM))
      then atomic_inc (mmio_stale_data_clear s) else mmio_stale_data_clear s)"
  by (simp add: mmio_select_mitigation_def Let_def cpu_smt_disable_def static_key_slow_inc_def)

lemma mmio_select_idle_clear [simp]:
  "mds_idle_clear (mmio_select_mitigation f s) =
     (if boot_cpu_has_bug f X86_BUG_MMIO_STALE_DATA \<and> \<not> cpu_mitigations_off f
         \<and> mmio_mitigation s \<noteq> MMIO_MITIGATION_OFF
         \<and> \<not> test_mask (ia32_cap f) ARCH_CAP_FBSDP_NO
      then atomic_inc (mds_idle_clear s) else mds_idle_clear s)"
  by (simp add: mmio_select_mitigation_def Let_def cpu_smt_disable_def static_key_slow_inc_def)

lemma md_clear_print_frame [simp]:
  "mds_mitigation (md_clear_print f s) = mds_mitigation s"
  "taa_mitigation (md_clear_print f s) = taa_mitigation s"
  "mmio_mitigation (md_clear_print f s) = mmio_mitigation s"
  "mds_user_clear (md_clear_print f s) = mds_user_clear s"
  "mds_idle_clear (md_clear_print f s) = mds_idle_clear s"
  "mmio_stale_data_clear (md_clear_print f s) = mmio_stale_data_clear s"
  by (simp_all add: md_clear_print_def Let_def printk_def)



lemmas eval_defs =
  with_caps_def intel_defaults_def boot_state_def boot_cpu_has_def boot_cpu_has_bug_def
  cpu_mitigations_off_def cpu_mitigations_auto_nosmt_def test_mask_def static_key_enabled_def
  printk_def cpu_smt_disable_def setup_force_cpu_cap_def setup_clear_cpu_cap_def wrmsrl_def
  static_key_slow_inc_def static_key_slow_dec_def atomic_inc_def atomic_dec_def INT_MAX_def
  ibrs_capable_def Let_def

lemmas bit_defs = ARCH_CAP_MDS_NO_def ARCH_CAP_TSX_CTRL_MSR_def ARCH_CAP_FBSDP_NO_def
  ARCH_CAP_FB_CLEAR_def ARCH_CAP_GDS_CTRL_def RNGDS_MITG_DIS_def GDS_MITG_DIS_def
  GDS_MITG_LOCKED_def SPEC_CTRL_STIBP_def SPEC_CTRL_SSBD_def

lemmas gds_defs = gds_select_mitigation_def gds_out_def update_gds_msr_def gds_wrmsr_check_def

lemmas retbleed_defs = retbleed_select_mitigation_def retbleed_apply_def retbleed_cmd_auto_def
  retbleed_parse_cmdline_def retbleed_option_def

lemmas cmdline_defs = mds_cmdline_def tsx_async_abort_parse_cmdline_def
  mmio_stale_data_parse_cmdline_def srbds_parse_cmdline_def gds_parse_cmdline_def

section \<open>MMIO Stale Data: which buffer-clear effect is requested\<close>

text \<open>
  C7. When MMIO Stale Data is affected, global mitigations are not off and the MMIO
  choice on entry (the default or the \<open>mmio_stale_data=\<close> override) is not Off, one run
  of the selector ends with a choice other than Off and takes one reference on exactly
  one of the two keys: on \<open>mds_user_clear\<close> if the host is also MDS-affected or
  TAA-affected with RTM enabled, and on \<open>mmio_stale_data_clear\<close> otherwise; the other key
  keeps its count.
\<close>

theorem mmio_select_one_effect:
  assumes "boot_cpu_has_bug f X86_BUG_MMIO_STALE_DATA"
      and "\<not> cpu_mitigations_off f"
      and "mmio_mitigation s \<noteq> MMIO_MITIGATION_OFF"
  shows "mmio_mitigation (mmio_select_mitigation f s) \<noteq> MMIO_MITIGATION_OFF
       \<and> (if boot_cpu_has_bug f X86_BUG_MDS
             \<or> (boot_cpu_has_bug f X86_BUG_TAA \<and> boot_cpu_has f X86_FEATURE_RTM)
          then mds_user_clear (mmio_select_mitigation f s) = atomic_inc (mds_user_clear s)
               \<and> mmio_stale_data_clear (mmio_select_mitigation f s) = mmio_stale_data_clear s
          else mds_user_clear (mmio_select_mitigation f s) = mds_user_clear s
               \<and> mmio_stale_data_clear (mmio_select_mitigation f s)
                   = atomic_inc (mmio_stale_data_clear s))"
  using assms by simp

text \<open>
  The witness runs the selector at boot on three hosts: one that is also MDS-affected,
  one that is also TAA-affected with RTM, and one affected by MMIO Stale Data alone.
\<close>

theorem mmio_select_one_effect_witness:
  "boot_cpu_has_bug (with_caps {X86_BUG_MMIO_STALE_DATA, X86_BUG_MDS}) X86_BUG_MMIO_STALE_DATA
   \<and> \<not> cpu_mitigations_off (with_caps {X86_BUG_MMIO_STALE_DATA, X86_BUG_MDS})
   \<and> mmio_mitigation (boot_state (with_caps {X86_BUG_MMIO_STALE_DATA, X86_BUG_MDS}) 0 0)
       \<noteq> MMIO_MITIGATION_OFF
   \<and> mds_user_clear
        (mmio_select_mitigation (with_caps {X86_BUG_MMIO_STALE_DATA, X86_BUG_MDS})
           (boot_state (with_caps {X86_BUG_MMIO_STALE_DATA, X86_BUG_MDS}) 0 0)) = 1
   \<and> mmio_stale_data_clear
        (mmio_select_mitigation (with_caps {X86_BUG_MMIO_STALE_DATA, X86_BUG_MDS})
           (boot_state (with_caps {X86_BUG_MMIO_STALE_DATA, X86_BUG_MDS}) 0 0)) = 0
   \<and> mds_user_clear
        (mmio_select_mitigation
           (with_caps {X86_BUG_MMIO_STALE_DATA, X86_BUG_TAA, X86_FEATURE_RTM})
           (boot_state (with_caps {X86_BUG_MMIO_STALE_DATA, X86_BUG_TAA, X86_FEATURE_RTM}) 0 0))
       = 1
   \<and> mmio_stale_data_clear
        (mmio_select_mitigation
           (with_caps {X86_BUG_MMIO_STALE_DATA, X86_BUG_TAA, X86_FEATURE_RTM})
           (boot_state (with_caps {X86_BUG_MMIO_STALE_DATA, X86_BUG_TAA, X86_FEATURE_RTM}) 0 0))
       = 0
   \<and> mds_user_clear
        (mmio_select_mitigation (with_caps {X86_BUG_MMIO_STALE_DATA})
           (boot_state (with_caps {X86_BUG_MMIO_STALE_DATA}) 0 0)) = 0
   \<and> mmio_stale_data_clear
        (mmio_select_mitigation (with_caps {X86_BUG_MMIO_STALE_DATA})
           (boot_state (with_caps {X86_BUG_MMIO_STALE_DATA}) 0 0)) = 1
   \<and> mmio_mitigation
        (mmio_select_mitigation (with_caps {X86_BUG_MMIO_STALE_DATA})
           (boot_state (with_caps {X86_BUG_MMIO_STALE_DATA}) 0 0)) \<noteq> MMIO_MITIGATION_OFF"
proof -
  let ?f = "with_caps {X86_BUG_MMIO_STALE_DATA, X86_BUG_MDS}"
  let ?g = "with_caps {X86_BUG_MMIO_STALE_DATA, X86_BUG_TAA, X86_FEATURE_RTM}"
  let ?h = "with_caps {X86_BUG_MMIO_STALE_DATA}"
  have f1: "boot_cpu_has_bug ?f X86_BUG_MMIO_STALE_DATA" by (simp add: eval_defs)
  have f2: "\<not> cpu_mitigations_off ?f" by (simp add: eval_defs)
  have f3: "mmio_mitigation (boot_state ?f 0 0) \<noteq> MMIO_MITIGATION_OFF" by (simp add: eval_defs)
  have f4: "boot_cpu_has_bug ?f X86_BUG_MDS" by (simp add: eval_defs)
  have f5: "mds_user_clear (boot_state ?f 0 0) = 0 \<and> mmio_stale_data_clear (boot_state ?f 0 0) = 0"
    by (simp add: eval_defs)
  have g1: "boot_cpu_has_bug ?g X86_BUG_MMIO_STALE_DATA" by (simp add: eval_defs)
  have g2: "\<not> cpu_mitigations_off ?g" by (simp add: eval_defs)
  have g3: "mmio_mitigation (boot_state ?g 0 0) \<noteq> MMIO_MITIGATION_OFF" by (simp add: eval_defs)
  have g4: "boot_cpu_has_bug ?g X86_BUG_TAA \<and> boot_cpu_has ?g X86_FEATURE_RTM"
    by (simp add: eval_defs)
  have g5: "mds_user_clear (boot_state ?g 0 0) = 0 \<and> mmio_stale_data_clear (boot_state ?g 0 0) = 0"
    by (simp add: eval_defs)
  have h1: "boot_cpu_has_bug ?h X86_BUG_MMIO_STALE_DATA" by (simp add: eval_defs)
  have h2: "\<not> cpu_mitigations_off ?h" by (simp add: eval_defs)
  have h3: "mmio_mitigation (boot_state ?h 0 0) \<noteq> MMIO_MITIGATION_OFF" by (simp add: eval_defs)
  have h4: "\<not> boot_cpu_has_bug ?h X86_BUG_MDS \<and> \<not> boot_cpu_has_bug ?h X86_BUG_TAA"
    by (simp add: eval_defs)
  have h5: "mds_user_clear (boot_state ?h 0 0) = 0 \<and> mmio_stale_data_clear (boot_state ?h 0 0) = 0"
    by (simp add: eval_defs)
  have a: "mds_user_clear (mmio_select_mitigation ?f (boot_state ?f 0 0)) = 1
           \<and> mmio_stale_data_clear (mmio_select_mitigation ?f (boot_state ?f 0 0)) = 0"
    using mmio_select_one_effect [OF f1 f2 f3] f4 f5 by simp
  have b: "mds_user_clear (mmio_select_mitigation ?g (boot_state ?g 0 0)) = 1
           \<and> mmio_stale_data_clear (mmio_select_mitigation ?g (boot_state ?g 0 0)) = 0"
    using mmio_select_one_effect [OF g1 g2 g3] g4 g5 by simp
  have c: "mds_user_clear (mmio_select_mitigation ?h (boot_state ?h 0 0)) = 0
           \<and> mmio_stale_data_clear (mmio_select_mitigation ?h (boot_state ?h 0 0)) = 1
           \<and> mmio_mitigation (mmio_select_mitigation ?h (boot_state ?h 0 0)) \<noteq> MMIO_MITIGATION_OFF"
    using mmio_select_one_effect [OF h1 h2 h3] h4 h5 by simp
  show ?thesis
    using f1 f2 f3 a b c by simp
qed

section \<open>The triad after the update pass\<close>



section \<open>TAA under the compound override\<close>

text \<open>
  C4 as stated: with TAA affected and both the TAA and the MDS override "off", TAA ends
  Off after \<open>md_clear_select_mitigation\<close>. The code does otherwise on two machines: with
  RTM disabled the selector answers TSX-disabled before it looks at any override, and
  with RTM enabled and MMIO Stale Data affected (its override not off) the MMIO selector
  enables \<open>mds_user_clear\<close>, so that the update pass re-selects TAA.
\<close>

theorem taa_compound_override_counterexample:
  "boot_cpu_has_bug (with_caps {X86_BUG_TAA}) X86_BUG_TAA
   \<and> taa_mitigation
        (md_clear_select_mitigation (with_caps {X86_BUG_TAA}) (both_off (with_caps {X86_BUG_TAA})))
       \<noteq> TAA_MITIGATION_OFF
   \<and> boot_cpu_has_bug (with_caps {X86_BUG_TAA, X86_FEATURE_RTM, X86_BUG_MMIO_STALE_DATA}) X86_BUG_TAA
   \<and> taa_mitigation
        (md_clear_select_mitigation
           (with_caps {X86_BUG_TAA, X86_FEATURE_RTM, X86_BUG_MMIO_STALE_DATA})
           (both_off (with_caps {X86_BUG_TAA, X86_FEATURE_RTM, X86_BUG_MMIO_STALE_DATA})))
       \<noteq> TAA_MITIGATION_OFF"
  by (simp add: md_clear_select_mitigation_def md_clear_update_mitigation_def
        both_off_def cmdline_defs eval_defs)


text \<open>
  C4, amended. With TAA affected, both overrides off and \<open>mds_user_clear\<close> at its boot
  value 0, the final TAA choice is Off exactly when RTM is enabled and the MMIO selector
  does not request the shared buffer clear (mitigations globally off, MMIO Stale Data not
  affected, or its override off). With RTM disabled it is TSX-disabled; otherwise TAA is
  re-selected to VERW or, without the microcode, to Ucode-needed.
\<close>

theorem taa_compound_override:
  assumes "boot_cpu_has_bug f X86_BUG_TAA"
      and "taa_mitigation s = TAA_MITIGATION_OFF"
      and "boot_cpu_has_bug f X86_BUG_MDS \<longrightarrow> mds_mitigation s = MDS_MITIGATION_OFF"
      and "mds_user_clear s = 0"
  shows "taa_mitigation (md_clear_select_mitigation f s) =
           (if \<not> boot_cpu_has f X86_FEATURE_RTM then TAA_MITIGATION_TSX_DISABLED
            else if cpu_mitigations_off f \<or> \<not> boot_cpu_has_bug f X86_BUG_MMIO_STALE_DATA
                    \<or> mmio_mitigation s = MMIO_MITIGATION_OFF
            then TAA_MITIGATION_OFF
            else if test_mask (ia32_cap f) ARCH_CAP_MDS_NO
                    \<and> \<not> test_mask (ia32_cap f) ARCH_CAP_TSX_CTRL_MSR
            then TAA_MITIGATION_UCODE_NEEDED
            else if boot_cpu_has f X86_FEATURE_MD_CLEAR then TAA_MITIGATION_VERW
            else TAA_MITIGATION_UCODE_NEEDED)"
  using assms
  by (simp add: md_clear_select_mitigation_def md_clear_update_mitigation_def Let_def
        static_key_enabled_def)

theorem taa_compound_override_witness:
  "boot_cpu_has_bug (with_caps {X86_BUG_TAA, X86_FEATURE_RTM, X86_BUG_MDS}) X86_BUG_TAA
   \<and> taa_mitigation (both_off (with_caps {X86_BUG_TAA, X86_FEATURE_RTM, X86_BUG_MDS}))
       = TAA_MITIGATION_OFF
   \<and> mds_mitigation (both_off (with_caps {X86_BUG_TAA, X86_FEATURE_RTM, X86_BUG_MDS}))
       = MDS_MITIGATION_OFF
   \<and> mds_user_clear (both_off (with_caps {X86_BUG_TAA, X86_FEATURE_RTM, X86_BUG_MDS})) = 0
   \<and> taa_mitigation
        (md_clear_select_mitigation (with_caps {X86_BUG_TAA, X86_FEATURE_RTM, X86_BUG_MDS})
           (both_off (with_caps {X86_BUG_TAA, X86_FEATURE_RTM, X86_BUG_MDS})))
       = TAA_MITIGATION_OFF"
proof -
  let ?f = "with_caps {X86_BUG_TAA, X86_FEATURE_RTM, X86_BUG_MDS}"
  have h1: "boot_cpu_has_bug ?f X86_BUG_TAA" by (simp add: eval_defs)
  have h2: "taa_mitigation (both_off ?f) = TAA_MITIGATION_OFF"
    by (simp add: both_off_def cmdline_defs eval_defs)
  have h3: "mds_mitigation (both_off ?f) = MDS_MITIGATION_OFF"
    by (simp add: both_off_def cmdline_defs eval_defs)
  have h4: "mds_user_clear (both_off ?f) = 0"
    by (simp add: both_off_def cmdline_defs eval_defs)
  have h5: "boot_cpu_has f X86_FEATURE_RTM \<and> \<not> boot_cpu_has_bug f X86_BUG_MMIO_STALE_DATA"
    if "f = ?f" for f
    using that by (simp add: eval_defs)
  show ?thesis
    using h1 h2 h3 h4 h5 [OF refl] taa_compound_override [of ?f "both_off ?f"] 
    by simp
qed


section \<open>SRBDS: the priority of the checks\<close>

text \<open>
  C10. With SRBDS affected the checks are taken in a fixed order: MDS_NO without RTM and
  without the MMIO Stale Data bug gives TSX-off, else a hypervisor gives the Hypervisor
  choice, else missing SRBDS_CTRL microcode gives Ucode-needed, and only then does
  \<open>srbds=off\<close> or mitigations-off give Off; otherwise the choice is kept. When the
  outcome is Hypervisor or Ucode-needed the MCU_OPT_CTRL register is not written. (The
  Hypervisor value is only ever stored on a machine with the hypervisor bit, which is the
  second assumption.)
\<close>

theorem srbds_priority:
  assumes "boot_cpu_has_bug f X86_BUG_SRBDS"
      and "srbds_mitigation s = SRBDS_MITIGATION_HYPERVISOR \<longrightarrow> boot_cpu_has f X86_FEATURE_HYPERVISOR"
  shows "srbds_mitigation (srbds_select_mitigation f s) =
     (if test_mask (ia32_cap f) ARCH_CAP_MDS_NO \<and> \<not> boot_cpu_has f X86_FEATURE_RTM
              \<and> \<not> boot_cpu_has_bug f X86_BUG_MMIO_STALE_DATA
      then SRBDS_MITIGATION_TSX_OFF
      else if boot_cpu_has f X86_FEATURE_HYPERVISOR then SRBDS_MITIGATION_HYPERVISOR
      else if \<not> boot_cpu_has f X86_FEATURE_SRBDS_CTRL then SRBDS_MITIGATION_UCODE_NEEDED
      else if cpu_mitigations_off f \<or> srbds_off s then SRBDS_MITIGATION_OFF
      else srbds_mitigation s)
    \<and> (srbds_mitigation (srbds_select_mitigation f s) = SRBDS_MITIGATION_HYPERVISOR
         \<or> srbds_mitigation (srbds_select_mitigation f s) = SRBDS_MITIGATION_UCODE_NEEDED
        \<longrightarrow> wrmsr_trace (srbds_select_mitigation f s) = wrmsr_trace s
            \<and> mcu_opt_ctrl (srbds_select_mitigation f s) = mcu_opt_ctrl s)"
  using assms
  by (auto simp add: srbds_select_mitigation_def update_srbds_msr_def Let_def printk_def wrmsrl_def)

theorem srbds_priority_witness:
  "boot_cpu_has_bug (with_caps {X86_BUG_SRBDS, X86_FEATURE_HYPERVISOR, X86_FEATURE_SRBDS_CTRL}) X86_BUG_SRBDS
   \<and> srbds_off (srbds_off_state (with_caps {X86_BUG_SRBDS, X86_FEATURE_HYPERVISOR, X86_FEATURE_SRBDS_CTRL}))
   \<and> srbds_mitigation
        (srbds_select_mitigation (with_caps {X86_BUG_SRBDS, X86_FEATURE_HYPERVISOR, X86_FEATURE_SRBDS_CTRL})
           (srbds_off_state (with_caps {X86_BUG_SRBDS, X86_FEATURE_HYPERVISOR, X86_FEATURE_SRBDS_CTRL})))
       = SRBDS_MITIGATION_HYPERVISOR
   \<and> wrmsr_trace
        (srbds_select_mitigation (with_caps {X86_BUG_SRBDS, X86_FEATURE_HYPERVISOR, X86_FEATURE_SRBDS_CTRL})
           (srbds_off_state (with_caps {X86_BUG_SRBDS, X86_FEATURE_HYPERVISOR, X86_FEATURE_SRBDS_CTRL})))
       = []"
proof -
  let ?f = "with_caps {X86_BUG_SRBDS, X86_FEATURE_HYPERVISOR, X86_FEATURE_SRBDS_CTRL}"
  have h1: "boot_cpu_has_bug ?f X86_BUG_SRBDS" by (simp add: eval_defs)
  have h2: "srbds_mitigation (srbds_off_state ?f) = SRBDS_MITIGATION_HYPERVISOR
              \<longrightarrow> boot_cpu_has ?f X86_FEATURE_HYPERVISOR"
    by (simp add: eval_defs)
  have h3: "srbds_off (srbds_off_state ?f) \<and> wrmsr_trace (srbds_off_state ?f) = []"
    by (simp add: srbds_off_state_def srbds_parse_cmdline_def eval_defs)
  have h4: "boot_cpu_has f X86_FEATURE_HYPERVISOR \<and> \<not> test_mask (ia32_cap f) ARCH_CAP_MDS_NO"
    if "f = ?f" for f
    using that by (simp add: eval_defs)
  show ?thesis
    using h1 h3 h4 [OF refl] srbds_priority [OF h1 h2] by simp
qed

section \<open>GDS: the lock\<close>

lemma and_not_other_bit:
  "m \<noteq> n \<Longrightarrow> ((w::u64) AND NOT (push_bit m 1)) AND push_bit n 1 = w AND push_bit n 1"
  by (rule bit_eqI) (auto simp add: bit_simps)

lemma or_other_bit:
  "m \<noteq> n \<Longrightarrow> ((w::u64) OR push_bit m 1) AND push_bit n 1 = w AND push_bit n 1"
  by (rule bit_eqI) (auto simp add: bit_simps)

lemma locked_and_not_dis:
  "test_mask (w AND NOT GDS_MITG_DIS) GDS_MITG_LOCKED = test_mask w GDS_MITG_LOCKED"
  unfolding GDS_MITG_DIS_def GDS_MITG_LOCKED_def test_mask_def
  by (subst and_not_other_bit) simp_all

lemma locked_or_dis:
  "test_mask (w OR GDS_MITG_DIS) GDS_MITG_LOCKED = test_mask w GDS_MITG_LOCKED"
  unfolding GDS_MITG_DIS_def GDS_MITG_LOCKED_def test_mask_def
  by (subst or_other_bit) simp_all

lemma gds_locked_step:
  assumes "boot_cpu_has_bug f X86_BUG_GDS" "\<not> boot_cpu_has f X86_FEATURE_HYPERVISOR"
    "test_mask (ia32_cap f) ARCH_CAP_GDS_CTRL" "test_mask (mcu_opt_ctrl s) GDS_MITG_LOCKED"
    "\<not> cpu_mitigations_off f"
  shows "gds_mitigation (gds_select_mitigation f s) = GDS_MITIGATION_FULL_LOCKED"
    and "test_mask (mcu_opt_ctrl (gds_select_mitigation f s)) GDS_MITG_LOCKED"
    and "count_list (dmesg (gds_select_mitigation f s)) GDS_DISABLE_FAILED =
         count_list (dmesg s) GDS_DISABLE_FAILED
           + (if gds_mitigation s = GDS_MITIGATION_OFF then 1 else 0)"
  using assms
  by (simp_all add: gds_defs Let_def wrmsrl_def printk_def locked_and_not_dis
        GDS_DISABLE_FAILED_def)

lemma gds_locked_runs:
  assumes "boot_cpu_has_bug f X86_BUG_GDS" "\<not> boot_cpu_has f X86_FEATURE_HYPERVISOR"
    "test_mask (ia32_cap f) ARCH_CAP_GDS_CTRL" "\<not> cpu_mitigations_off f"
    "test_mask (mcu_opt_ctrl t) GDS_MITG_LOCKED"
    "gds_mitigation t = GDS_MITIGATION_FULL_LOCKED"
  shows "gds_mitigation ((gds_select_mitigation f ^^ n) t) = GDS_MITIGATION_FULL_LOCKED
       \<and> test_mask (mcu_opt_ctrl ((gds_select_mitigation f ^^ n) t)) GDS_MITG_LOCKED
       \<and> count_list (dmesg ((gds_select_mitigation f ^^ n) t)) GDS_DISABLE_FAILED =
           count_list (dmesg t) GDS_DISABLE_FAILED"
proof (induction n)
  case 0
  show ?case using assms(5,6) by simp
next
  case (Suc n)
  let ?u = "(gds_select_mitigation f ^^ n) t"
  from Suc.IH have l: "test_mask (mcu_opt_ctrl ?u) GDS_MITG_LOCKED"
    and g: "gds_mitigation ?u = GDS_MITIGATION_FULL_LOCKED"
    and c: "count_list (dmesg ?u) GDS_DISABLE_FAILED = count_list (dmesg t) GDS_DISABLE_FAILED"
    by simp_all
  from gds_locked_step [OF assms(1,2,3) l assms(4)] g c show ?case by simp
qed

text \<open>
  C6 as stated: on affected, non-hypervisor hardware with the microcode control and the
  lock bit set, the warning "Mitigation locked. Disable failed." is logged once and never
  again on a re-run. With \<open>mitigations=off\<close> the selector asks for Off again at the start
  of every run, so every run logs the warning: two runs leave two warnings.
\<close>

theorem gds_lock_law_counterexample:
  "boot_cpu_has_bug gds_locked_mitigations_off X86_BUG_GDS
   \<and> \<not> boot_cpu_has gds_locked_mitigations_off X86_FEATURE_HYPERVISOR
   \<and> test_mask (ia32_cap gds_locked_mitigations_off) ARCH_CAP_GDS_CTRL
   \<and> test_mask (mcu_opt_ctrl (gds_off_state gds_locked_mitigations_off)) GDS_MITG_LOCKED
   \<and> count_list
        (dmesg (gds_select_mitigation gds_locked_mitigations_off
                  (gds_off_state gds_locked_mitigations_off)))
        GDS_DISABLE_FAILED = 1
   \<and> count_list
        (dmesg (gds_select_mitigation gds_locked_mitigations_off
                  (gds_select_mitigation gds_locked_mitigations_off
                     (gds_off_state gds_locked_mitigations_off))))
        GDS_DISABLE_FAILED = 2"
  by (simp add: gds_defs gds_off_state_def gds_locked_mitigations_off_def gds_locked_machine_def
        cmdline_defs eval_defs bit_defs GDS_DISABLE_FAILED_def)

text \<open>
  C6, amended. On affected, non-hypervisor hardware with the microcode control, the lock
  bit set and global mitigations not off: the first run ends with Full (locked) and logs
  the "disable failed" warning once if the choice on entry was Off (the
  \<open>gather_data_sampling=off\<close> override) and not at all otherwise; every number \<open>n\<close> of
  further runs ends with Full (locked) again and adds no warning.
\<close>

theorem gds_lock_law:
  assumes "boot_cpu_has_bug f X86_BUG_GDS" "\<not> boot_cpu_has f X86_FEATURE_HYPERVISOR"
    "test_mask (ia32_cap f) ARCH_CAP_GDS_CTRL" "test_mask (mcu_opt_ctrl s) GDS_MITG_LOCKED"
    "\<not> cpu_mitigations_off f"
  shows "gds_mitigation (gds_select_mitigation f s) = GDS_MITIGATION_FULL_LOCKED
       \<and> count_list (dmesg (gds_select_mitigation f s)) GDS_DISABLE_FAILED =
           count_list (dmesg s) GDS_DISABLE_FAILED
             + (if gds_mitigation s = GDS_MITIGATION_OFF then 1 else 0)
       \<and> gds_mitigation ((gds_select_mitigation f ^^ n) (gds_select_mitigation f s))
           = GDS_MITIGATION_FULL_LOCKED
       \<and> count_list (dmesg ((gds_select_mitigation f ^^ n) (gds_select_mitigation f s)))
             GDS_DISABLE_FAILED
           = count_list (dmesg (gds_select_mitigation f s)) GDS_DISABLE_FAILED"
  using gds_locked_step [OF assms]
    gds_locked_runs [OF assms(1,2,3,5) gds_locked_step(2) [OF assms] gds_locked_step(1) [OF assms],
      of n]
  by simp

theorem gds_lock_law_witness:
  "boot_cpu_has_bug gds_locked_machine X86_BUG_GDS
   \<and> \<not> boot_cpu_has gds_locked_machine X86_FEATURE_HYPERVISOR
   \<and> test_mask (ia32_cap gds_locked_machine) ARCH_CAP_GDS_CTRL
   \<and> test_mask (mcu_opt_ctrl (gds_off_state gds_locked_machine)) GDS_MITG_LOCKED
   \<and> \<not> cpu_mitigations_off gds_locked_machine
   \<and> gds_mitigation (gds_off_state gds_locked_machine) = GDS_MITIGATION_OFF
   \<and> gds_mitigation (gds_select_mitigation gds_locked_machine (gds_off_state gds_locked_machine))
       = GDS_MITIGATION_FULL_LOCKED
   \<and> count_list
        (dmesg (gds_select_mitigation gds_locked_machine (gds_off_state gds_locked_machine)))
        GDS_DISABLE_FAILED = 1
   \<and> gds_mitigation
        ((gds_select_mitigation gds_locked_machine ^^ 3)
           (gds_select_mitigation gds_locked_machine (gds_off_state gds_locked_machine)))
       = GDS_MITIGATION_FULL_LOCKED
   \<and> count_list
        (dmesg ((gds_select_mitigation gds_locked_machine ^^ 3)
                  (gds_select_mitigation gds_locked_machine (gds_off_state gds_locked_machine))))
        GDS_DISABLE_FAILED = 1"
proof -
  let ?f = gds_locked_machine
  let ?s = "gds_off_state ?f"
  have h1: "boot_cpu_has_bug ?f X86_BUG_GDS"
    by (simp add: gds_locked_machine_def eval_defs)
  have h2: "\<not> boot_cpu_has ?f X86_FEATURE_HYPERVISOR"
    by (simp add: gds_locked_machine_def eval_defs)
  have h3: "test_mask (ia32_cap ?f) ARCH_CAP_GDS_CTRL"
    by (simp add: gds_locked_machine_def eval_defs bit_defs)
  have h4: "test_mask (mcu_opt_ctrl ?s) GDS_MITG_LOCKED"
    by (simp add: gds_off_state_def gds_locked_machine_def cmdline_defs eval_defs bit_defs)
  have h5: "\<not> cpu_mitigations_off ?f"
    by (simp add: gds_locked_machine_def eval_defs)
  have h6: "gds_mitigation ?s = GDS_MITIGATION_OFF \<and> count_list (dmesg ?s) GDS_DISABLE_FAILED = 0"
    by (simp add: gds_off_state_def gds_locked_machine_def cmdline_defs eval_defs)
  show ?thesis
    using h1 h2 h3 h4 h5 h6 gds_lock_law [OF h1 h2 h3 h4 h5, of 3]
    by simp
qed

section \<open>RETBleed on Intel with Enhanced IBRS\<close>

text \<open>
  C1 as stated: on RETBleed-affected Intel hardware with mitigations not off and Spectre V2
  finalized to Enhanced IBRS, the RETBleed choice ends Enhanced IBRS for every value of
  the \<open>retbleed=\<close> override, "off" included. With \<open>retbleed=off\<close> the selector returns
  in its first switch and the choice stays what it was, None at boot.
\<close>

theorem retbleed_eibrs_counterexample:
  "boot_cpu_has_bug (with_caps {X86_BUG_RETBLEED}) X86_BUG_RETBLEED
   \<and> \<not> cpu_mitigations_off (with_caps {X86_BUG_RETBLEED})
   \<and> x86_vendor (with_caps {X86_BUG_RETBLEED}) = X86_VENDOR_INTEL
   \<and> spectre_v2_enabled (retbleed_state (with_caps {X86_BUG_RETBLEED}) ''off'')
       = SPECTRE_V2_IBRS_ENHANCED
   \<and> retbleed_mitigation
        (retbleed_select_mitigation (with_caps {X86_BUG_RETBLEED})
           (retbleed_state (with_caps {X86_BUG_RETBLEED}) ''off''))
       \<noteq> RETBLEED_MITIGATION_EIBRS"
  by (simp add: retbleed_defs retbleed_state_def eval_defs)

text \<open>
  C1, amended. Under the same conditions the RETBleed choice ends Enhanced IBRS for every
  value of the \<open>retbleed=\<close> override other than "off".
\<close>

theorem retbleed_eibrs:
  assumes "boot_cpu_has_bug f X86_BUG_RETBLEED" "\<not> cpu_mitigations_off f"
    "x86_vendor f = X86_VENDOR_INTEL" "spectre_v2_enabled s = SPECTRE_V2_IBRS_ENHANCED"
    "retbleed_cmd s \<noteq> RETBLEED_CMD_OFF"
  shows "retbleed_mitigation (retbleed_select_mitigation f s) = RETBLEED_MITIGATION_EIBRS"
proof -
  have ap: "retbleed_mitigation (retbleed_apply f t) = RETBLEED_MITIGATION_EIBRS"
    if "spectre_v2_enabled t = SPECTRE_V2_IBRS_ENHANCED" for t
    using that assms(3)
    by (simp add: retbleed_apply_def Let_def printk_def setup_force_cpu_cap_def
          cpu_smt_disable_def split: retbleed_mitigation.split)
  have au: "spectre_v2_enabled (retbleed_cmd_auto f t) = spectre_v2_enabled t" for t
    by (simp add: retbleed_cmd_auto_def printk_def)
  show ?thesis using assms
    by (cases "retbleed_cmd s") (simp_all add: retbleed_select_mitigation_def ap au printk_def)
qed

theorem retbleed_eibrs_witness:
  "boot_cpu_has_bug (with_caps {X86_BUG_RETBLEED}) X86_BUG_RETBLEED
   \<and> \<not> cpu_mitigations_off (with_caps {X86_BUG_RETBLEED})
   \<and> x86_vendor (with_caps {X86_BUG_RETBLEED}) = X86_VENDOR_INTEL
   \<and> spectre_v2_enabled (retbleed_state (with_caps {X86_BUG_RETBLEED}) ''unret,nosmt'')
       = SPECTRE_V2_IBRS_ENHANCED
   \<and> retbleed_cmd (retbleed_state (with_caps {X86_BUG_RETBLEED}) ''unret,nosmt'')
       = RETBLEED_CMD_UNRET
   \<and> retbleed_mitigation
        (retbleed_select_mitigation (with_caps {X86_BUG_RETBLEED})
           (retbleed_state (with_caps {X86_BUG_RETBLEED}) ''unret,nosmt''))
       = RETBLEED_MITIGATION_EIBRS"
proof -
  let ?f = "with_caps {X86_BUG_RETBLEED}"
  let ?s = "retbleed_state ?f ''unret,nosmt''"
  have h1: "boot_cpu_has_bug ?f X86_BUG_RETBLEED" by (simp add: eval_defs)
  have h2: "\<not> cpu_mitigations_off ?f" by (simp add: eval_defs)
  have h3: "x86_vendor ?f = X86_VENDOR_INTEL" by (simp add: eval_defs)
  have h4: "spectre_v2_enabled ?s = SPECTRE_V2_IBRS_ENHANCED" by (simp add: retbleed_defs retbleed_state_def)
  have h5: "retbleed_cmd ?s = RETBLEED_CMD_UNRET" by (simp add: retbleed_defs retbleed_state_def eval_defs)
  have h6: "retbleed_cmd ?s \<noteq> RETBLEED_CMD_OFF" using h5 by simp
  show ?thesis
    using h1 h2 h3 h4 h5 retbleed_eibrs [OF h1 h2 h3 h4 h6] by simp
qed


section \<open>The idle buffer clear after the applier\<close>

lemma md_clear_update_idle:
  "mds_idle_clear (md_clear_update_mitigation f s) =
     (if mmio_mitigation s = MMIO_MITIGATION_OFF
         \<and> mmio_mitigation (md_clear_update_mitigation f s) \<noteq> MMIO_MITIGATION_OFF
         \<and> \<not> test_mask (ia32_cap f) ARCH_CAP_FBSDP_NO
      then atomic_inc (mds_idle_clear s) else mds_idle_clear s)"
  by (simp add: md_clear_update_mitigation_def Let_def)

lemma md_clear_update_mmio_keep:
  "mmio_mitigation s \<noteq> MMIO_MITIGATION_OFF \<Longrightarrow>
   mmio_mitigation (md_clear_update_mitigation f s) = mmio_mitigation s"
  by (simp add: md_clear_update_mitigation_def Let_def)

lemma md_clear_select_idle:
  "mds_idle_clear (md_clear_select_mitigation f s) =
     (if mmio_mitigation (md_clear_select_mitigation f s) \<noteq> MMIO_MITIGATION_OFF
         \<and> \<not> test_mask (ia32_cap f) ARCH_CAP_FBSDP_NO
      then atomic_inc (mds_idle_clear s) else mds_idle_clear s)"
proof -
  let ?s3 = "mmio_select_mitigation f (taa_select_mitigation f (mds_select_mitigation f s))"
  have i3: "mds_idle_clear ?s3 =
              (if mmio_mitigation ?s3 \<noteq> MMIO_MITIGATION_OFF
                  \<and> \<not> test_mask (ia32_cap f) ARCH_CAP_FBSDP_NO
               then atomic_inc (mds_idle_clear s) else mds_idle_clear s)"
    by simp
  show ?thesis
  proof (cases "mmio_mitigation ?s3 = MMIO_MITIGATION_OFF")
    case True
    with i3 have "mds_idle_clear ?s3 = mds_idle_clear s" by (simp only: if_False simp_thms)
    then show ?thesis
      unfolding md_clear_select_mitigation_def
      by (subst md_clear_update_idle) (simp only: True simp_thms)
  next
    case False
    from md_clear_update_mmio_keep [OF False]
    have k: "mmio_mitigation (md_clear_update_mitigation f ?s3) = mmio_mitigation ?s3" .
    show ?thesis
      unfolding md_clear_select_mitigation_def
      by (subst md_clear_update_idle) (simp only: k i3 False simp_thms if_False)
  qed
qed

lemma update_mds_branch_idle_frame [simp]:
  "mds_mitigation (update_mds_branch_idle f smt s) = mds_mitigation s"
  "taa_mitigation (update_mds_branch_idle f smt s) = taa_mitigation s"
  "mmio_mitigation (update_mds_branch_idle f smt s) = mmio_mitigation s"
  "mds_user_clear (update_mds_branch_idle f smt s) = mds_user_clear s"
  "mmio_stale_data_clear (update_mds_branch_idle f smt s) = mmio_stale_data_clear s"
  by (simp_all add: update_mds_branch_idle_def)

lemma pr_warn_once_frame [simp]:
  "mds_mitigation (pr_warn_once_mds s) = mds_mitigation s"
  "taa_mitigation (pr_warn_once_mds s) = taa_mitigation s"
  "mmio_mitigation (pr_warn_once_mds s) = mmio_mitigation s"
  "mds_idle_clear (pr_warn_once_mds s) = mds_idle_clear s"
  "mds_mitigation (pr_warn_once_taa s) = mds_mitigation s"
  "taa_mitigation (pr_warn_once_taa s) = taa_mitigation s"
  "mmio_mitigation (pr_warn_once_taa s) = mmio_mitigation s"
  "mds_idle_clear (pr_warn_once_taa s) = mds_idle_clear s"
  "mds_mitigation (pr_warn_once_mmio s) = mds_mitigation s"
  "taa_mitigation (pr_warn_once_mmio s) = taa_mitigation s"
  "mmio_mitigation (pr_warn_once_mmio s) = mmio_mitigation s"
  "mds_idle_clear (pr_warn_once_mmio s) = mds_idle_clear s"
  by (simp_all add: pr_warn_once_mds_def pr_warn_once_taa_def pr_warn_once_mmio_def printk_def)

lemma arch_smt_update_frame [simp]:
  "mds_mitigation (arch_smt_update f smt s) = mds_mitigation s"
  "mmio_mitigation (arch_smt_update f smt s) = mmio_mitigation s"
  by (simp_all add: arch_smt_update_def Let_def
        split: mds_mitigations.split taa_mitigations.split mmio_mitigations.split)

lemma arch_smt_update_idle:
  "mds_idle_clear (arch_smt_update f smt s) =
     (if mds_mitigation s = MDS_MITIGATION_OFF then mds_idle_clear s
      else mds_idle_clear (update_mds_branch_idle f smt s))"
  by (simp add: arch_smt_update_def Let_def update_mds_branch_idle_def
        split: mds_mitigations.split taa_mitigations.split mmio_mitigations.split)

lemma smt_changes_frame [simp]:
  "mds_mitigation (smt_changes f smts s) = mds_mitigation s"
  "mmio_mitigation (smt_changes f smts s) = mmio_mitigation s"
  by (induction smts arbitrary: s) simp_all

lemma smt_changes_append:
  "smt_changes f (xs @ ys) s = smt_changes f ys (smt_changes f xs s)"
  by (induction xs arbitrary: s) simp_all


lemma idle_clear_inv_step:
  assumes "idle_clear_inv f s"
  shows "idle_clear_inv f (arch_smt_update f smt s)"
    and "static_key_enabled (mds_idle_clear (arch_smt_update f smt s)) \<longleftrightarrow>
            (mmio_mitigation s \<noteq> MMIO_MITIGATION_OFF
               \<and> \<not> test_mask (ia32_cap f) ARCH_CAP_FBSDP_NO)
            \<or> (mds_mitigation s \<noteq> MDS_MITIGATION_OFF \<and> boot_cpu_has f X86_BUG_MSBDS_ONLY \<and> smt)"
  using assms
  by (auto simp add: idle_clear_inv_def arch_smt_update_idle update_mds_branch_idle_def
        static_key_enabled_def static_key_slow_inc_def static_key_slow_dec_def
        atomic_inc_def atomic_dec_def INT_MAX_def split: if_splits)

lemma idle_clear_inv_changes:
  "idle_clear_inv f s \<Longrightarrow> idle_clear_inv f (smt_changes f smts s)"
  by (induction smts arbitrary: s) (simp_all add: idle_clear_inv_step(1))

lemma idle_clear_inv_boot:
  assumes "mds_idle_clear s0 = 0"
  shows "idle_clear_inv f (md_clear_select_mitigation f s0)"
  unfolding idle_clear_inv_def
  using assms by (subst (1 2 3) md_clear_select_idle) simp

text \<open>
  C5 as stated: after the applier \<open>mds_idle_clear\<close> is enabled if and only if the
  hardware is MSBDS-only and SMT is active. Two machines say otherwise. With MMIO Stale
  Data affected and FBSDP_NO absent the MMIO selector enables the key whatever the SMT
  state, and the applier leaves it on with SMT inactive. With MSBDS-only hardware, SMT
  active and \<open>mds=off\<close>, the applier does not reach \<open>update_mds_branch_idle\<close> and the
  key stays off.
\<close>

theorem idle_clear_after_smt_update_counterexample:
  "static_key_enabled
     (mds_idle_clear
        (arch_smt_update (with_caps {X86_BUG_MMIO_STALE_DATA}) False
           (md_clear_select_mitigation (with_caps {X86_BUG_MMIO_STALE_DATA})
              (boot_state (with_caps {X86_BUG_MMIO_STALE_DATA}) 0 0))))
   \<and> \<not> boot_cpu_has (with_caps {X86_BUG_MMIO_STALE_DATA}) X86_BUG_MSBDS_ONLY
   \<and> \<not> static_key_enabled
        (mds_idle_clear
           (arch_smt_update (with_caps {X86_BUG_MDS, X86_BUG_MSBDS_ONLY}) True
              (md_clear_select_mitigation (with_caps {X86_BUG_MDS, X86_BUG_MSBDS_ONLY})
                 (snd (mds_cmdline (with_caps {X86_BUG_MDS, X86_BUG_MSBDS_ONLY}) (Some ''off'')
                        (boot_state (with_caps {X86_BUG_MDS, X86_BUG_MSBDS_ONLY}) 0 0))))))
   \<and> boot_cpu_has (with_caps {X86_BUG_MDS, X86_BUG_MSBDS_ONLY}) X86_BUG_MSBDS_ONLY"
  by (simp add: arch_smt_update_idle update_mds_branch_idle_def md_clear_select_idle
        md_clear_select_mitigation_def md_clear_update_mitigation_def cmdline_defs eval_defs
        bit_defs)

text \<open>
  C5, amended. Starting from a state with \<open>mds_idle_clear\<close> at its boot value 0, after
  \<open>md_clear_select_mitigation\<close> and any sequence of applier runs (the one at boot and one
  per SMT topology change, the last of them with SMT state \<open>smt\<close>), \<open>mds_idle_clear\<close> is
  enabled if and only if the MMIO selector requested it (final MMIO choice not Off and
  FBSDP_NO absent), or the MDS choice is not Off, the hardware is MSBDS-only and SMT is
  active. In particular, without the MMIO request it is off whenever SMT is inactive.
\<close>

theorem idle_clear_after_smt_update:
  assumes "mds_idle_clear s0 = 0"
  shows "static_key_enabled
           (mds_idle_clear (smt_changes f (smts @ [smt]) (md_clear_select_mitigation f s0)))
         \<longleftrightarrow>
           (mmio_mitigation (md_clear_select_mitigation f s0) \<noteq> MMIO_MITIGATION_OFF
              \<and> \<not> test_mask (ia32_cap f) ARCH_CAP_FBSDP_NO)
           \<or> (mds_mitigation (md_clear_select_mitigation f s0) \<noteq> MDS_MITIGATION_OFF
               \<and> boot_cpu_has f X86_BUG_MSBDS_ONLY \<and> smt)"
  using idle_clear_inv_step(2)
          [where smt = smt, OF idle_clear_inv_changes [OF idle_clear_inv_boot [OF assms]]]
  by (simp add: smt_changes_append)

theorem idle_clear_after_smt_update_witness:
  "mds_idle_clear (boot_state (with_caps {X86_BUG_MDS, X86_BUG_MSBDS_ONLY}) 0 0) = 0
   \<and> static_key_enabled
        (mds_idle_clear
           (smt_changes (with_caps {X86_BUG_MDS, X86_BUG_MSBDS_ONLY}) ([True, False] @ [True])
              (md_clear_select_mitigation (with_caps {X86_BUG_MDS, X86_BUG_MSBDS_ONLY})
                 (boot_state (with_caps {X86_BUG_MDS, X86_BUG_MSBDS_ONLY}) 0 0))))
   \<and> \<not> static_key_enabled
        (mds_idle_clear
           (smt_changes (with_caps {X86_BUG_MDS, X86_BUG_MSBDS_ONLY}) ([True] @ [False])
              (md_clear_select_mitigation (with_caps {X86_BUG_MDS, X86_BUG_MSBDS_ONLY})
                 (boot_state (with_caps {X86_BUG_MDS, X86_BUG_MSBDS_ONLY}) 0 0))))"
proof -
  let ?f = "with_caps {X86_BUG_MDS, X86_BUG_MSBDS_ONLY}"
  have h: "mds_idle_clear (boot_state ?f 0 0) = 0"
    by (simp add: eval_defs)
  have m: "mds_mitigation (md_clear_select_mitigation ?f (boot_state ?f 0 0)) = MDS_MITIGATION_VMWERV
           \<and> mmio_mitigation (md_clear_select_mitigation ?f (boot_state ?f 0 0)) = MMIO_MITIGATION_OFF
           \<and> boot_cpu_has ?f X86_BUG_MSBDS_ONLY"
    by (simp add: md_clear_select_mitigation_def md_clear_update_mitigation_def eval_defs)
  show ?thesis
    using h m
      idle_clear_after_smt_update [OF h, of ?f "[True, False]" True]
      idle_clear_after_smt_update [OF h, of ?f "[True]" False]
    by simp
qed

section \<open>Unknown override tokens\<close>

lemma match_option_token:
  assumes "match_option (take n v) (int (length v)) opt" and "length opt \<le> n"
  shows "v = opt"
proof -
  from assms(1)
  have c: "int (length opt) = int (length v) \<and> take (nat (int (length opt))) (take n v) = opt"
    unfolding match_option_def Let_def .
  from c have l: "length opt = length v" by simp
  from c have t: "take (length opt) (take n v) = opt" by (simp only: nat_int)
  from assms(2) have "take (length opt) (take n v) = take (length opt) v"
    by (simp add: min_def)
  with t have "take (length opt) v = opt" by (simp only:)
  then show ?thesis unfolding l by simp
qed

lemma scan_options_unknown:
  assumes "v \<notin> set opts" and "\<forall>opt \<in> set opts. length opt \<le> n"
  shows "scan_options (take n v) (int (length v)) opts = length opts"
  using assms
proof (induction opts)
  case Nil
  show ?case by simp
next
  case (Cons opt opts)
  from Cons.prems have "v \<noteq> opt" and "length opt \<le> n" by simp_all
  with match_option_token [of n v opt] have "\<not> match_option (take n v) (int (length v)) opt"
    by blast
  moreover from Cons have "scan_options (take n v) (int (length v)) opts = length opts"
    by simp
  ultimately show ?case by simp
qed

lemma mitigation_options_short:
  "\<forall>opt \<in> set (map fst mitigation_options). length opt \<le> 19"
  "\<forall>opt \<in> set (map fst ssb_mitigation_options). length opt \<le> 19"
  by (simp_all add: mitigation_options_def ssb_mitigation_options_def)

lemma comma_tokens_first:
  "comma_tokens str =
     takeWhile (\<lambda>c. c \<noteq> CHR '','') str
       # (case dropWhile (\<lambda>c. c \<noteq> CHR '','') str of [] \<Rightarrow> [] | _ # next \<Rightarrow> comma_tokens next)"
  by (induction str) simp_all

lemma retbleed_parse_loop_tokens:
  "retbleed_parse_loop x s =
     (case x of None \<Rightarrow> s | Some str \<Rightarrow> fold retbleed_option (comma_tokens str) s)"
proof (induction x s rule: retbleed_parse_loop.induct)
  case (1 s)
  show ?case by simp
next
  case (2 str s)
  show ?case
  proof (cases "dropWhile (\<lambda>c. c \<noteq> CHR '','') str")
    case Nil
    have "retbleed_parse_loop (Some str) s
            = retbleed_option (takeWhile (\<lambda>c. c \<noteq> CHR '','') str) s"
      by (simp only: retbleed_parse_loop.simps Nil list.case)
    moreover have "comma_tokens str = [takeWhile (\<lambda>c. c \<noteq> CHR '','') str]"
      by (subst comma_tokens_first) (simp only: Nil list.case)
    ultimately show ?thesis by simp
  next
    case (Cons c rest)
    have "retbleed_parse_loop (Some str) s
            = retbleed_parse_loop (Some rest)
                (retbleed_option (takeWhile (\<lambda>c. c \<noteq> CHR '','') str) s)"
      by (simp only: retbleed_parse_loop.simps Cons list.case)
    also have "\<dots> = fold retbleed_option (comma_tokens rest)
                      (retbleed_option (takeWhile (\<lambda>c. c \<noteq> CHR '','') str) s)"
      using 2 by (simp only: Cons list.case option.case)
    finally have a: "retbleed_parse_loop (Some str) s =
        fold retbleed_option (comma_tokens rest)
          (retbleed_option (takeWhile (\<lambda>c. c \<noteq> CHR '','') str) s)" .
    have "comma_tokens str = takeWhile (\<lambda>c. c \<noteq> CHR '','') str # comma_tokens rest"
      by (subst comma_tokens_first) (simp only: Cons list.case)
    with a show ?thesis by simp
  qed
qed

lemma retbleed_option_known:
  "t \<in> retbleed_names \<Longrightarrow> retbleed_option t (printk l m s) = printk l m (retbleed_option t s)"
  "t \<in> retbleed_names \<Longrightarrow> dmesg (retbleed_option t s) = dmesg s"
  by (auto simp add: retbleed_names_def retbleed_option_def printk_def)

lemma retbleed_option_unknown:
  "t \<notin> retbleed_names \<Longrightarrow>
   retbleed_option t s =
     printk KERN_ERR (''RETBleed: Ignoring unknown retbleed option ('' @ t @ '').'') s"
  by (simp add: retbleed_names_def retbleed_option_def)

lemma fold_retbleed_known_printk:
  "\<forall>t \<in> set ts. t \<in> retbleed_names \<Longrightarrow>
   fold retbleed_option ts (printk l m s) = printk l m (fold retbleed_option ts s)"
  by (induction ts arbitrary: s) (simp_all add: retbleed_option_known(1))

lemma fold_retbleed_tokens:
  "fold retbleed_option ts s =
     (fold retbleed_option (filter (\<lambda>t. t \<in> retbleed_names) ts) s)
       \<lparr>dmesg := dmesg s @
          map (\<lambda>t. (KERN_ERR, ''RETBleed: Ignoring unknown retbleed option ('' @ t @ '').''))
            (filter (\<lambda>t. t \<notin> retbleed_names) ts)\<rparr>"
proof (induction ts arbitrary: s)
  case Nil
  show ?case by simp
next
  case (Cons t ts)
  show ?case
  proof (cases "t \<in> retbleed_names")
    case True
    show ?thesis
      using True by (simp add: Cons.IH [of "retbleed_option t s"] retbleed_option_known(2))
  next
    case False
    have k: "\<forall>t \<in> set (filter (\<lambda>t. t \<in> retbleed_names) ts). t \<in> retbleed_names" by simp
    show ?thesis
      using False
      by (simp add: retbleed_option_unknown Cons.IH [of "printk l m s" for l m]
            fold_retbleed_known_printk [OF k]) (simp add: printk_def)
  qed
qed


text \<open>
  C8 as stated: every parser answers an unrecognized token with the "auto" policy and
  exactly one warning, the \<open>mds=\<close> parser included. \<open>mds_cmdline\<close> has no warning at
  all: \<open>mds=bogus\<close> leaves the log empty (and the default in place).
\<close>

theorem unknown_override_token_counterexample:
  "''bogus'' \<notin> {''off'', ''full'', ''full,nosmt''}
   \<and> dmesg (snd (mds_cmdline (with_caps {X86_BUG_MDS}) (Some ''bogus'')
                   (boot_state (with_caps {X86_BUG_MDS}) 0 0))) = []
   \<and> mds_mitigation (snd (mds_cmdline (with_caps {X86_BUG_MDS}) (Some ''bogus'')
                            (boot_state (with_caps {X86_BUG_MDS}) 0 0))) = MDS_MITIGATION_FULL"
  by (simp add: cmdline_defs eval_defs)

text \<open>
  C8, amended. \<open>v\<close> is the value of \<open>spectre_v2=\<close> or \<open>spec_store_bypass_disable=\<close> on
  the command line: \<open>cmdline_find_option\<close> reports its length and leaves its first \<open>n\<close>
  characters in the buffer, which has room for 19. If \<open>v\<close> is not a name of the option
  table (and neither the \<open>no...\<close> flag nor mitigations-off short-cuts the parser), the
  parser answers AUTO and logs exactly one error line. The \<open>retbleed=\<close> parser handles
  any comma-separated list \<open>str\<close>: its result is that of the recognized tokens alone,
  plus one error line for each unknown token, in order. The \<open>mds=\<close>, \<open>tsx_async_abort=\<close>,
  \<open>mmio_stale_data=\<close>, \<open>gather_data_sampling=\<close> and \<open>l1tf=\<close> parsers leave the state,
  and so the default choice, untouched and log nothing; the \<open>srbds=\<close> parser clears
  \<open>srbds_off\<close>, its default, and logs nothing.
\<close>

theorem unknown_override_token:
  "(\<not> nospectre_v2 \<and> \<not> cpu_mitigations_off f \<and> 19 \<le> n
      \<and> v \<notin> set (map fst mitigation_options)
    \<longrightarrow> spectre_v2_parse_cmdline f nospectre_v2 (int (length v)) (take n v) s =
          (SPECTRE_V2_CMD_AUTO,
           printk KERN_ERR
             (''Spectre V2 : unknown option ('' @ take n v @ ''). Switching to AUTO select'') s))
   \<and> (\<not> nossbd \<and> \<not> cpu_mitigations_off f \<and> 19 \<le> n
        \<and> v \<notin> set (map fst ssb_mitigation_options)
      \<longrightarrow> uu_ssb_parse_cmdline f nossbd (int (length v)) (take n v) s =
            (SPEC_STORE_BYPASS_CMD_AUTO,
             printk KERN_ERR
               (''Speculative Store Bypass: unknown option ('' @ take n v
                  @ ''). Switching to AUTO select'') s))
   \<and> retbleed_parse_cmdline (Some str) s =
       (0, (fold retbleed_option (filter (\<lambda>t. t \<in> retbleed_names) (comma_tokens str)) s)
             \<lparr>dmesg := dmesg s @
                map (\<lambda>t. (KERN_ERR,
                            ''RETBleed: Ignoring unknown retbleed option ('' @ t @ '').''))
                  (filter (\<lambda>t. t \<notin> retbleed_names) (comma_tokens str))\<rparr>)
   \<and> (t \<notin> {''off'', ''full'', ''full,nosmt''}
      \<longrightarrow> mds_cmdline f (Some t) s = (0, s)
          \<and> tsx_async_abort_parse_cmdline f (Some t) s = (0, s)
          \<and> mmio_stale_data_parse_cmdline f (Some t) s = (0, s))
   \<and> (t \<notin> {''off'', ''force''} \<longrightarrow> gds_parse_cmdline f (Some t) s = (0, s))
   \<and> (t \<notin> {''off'', ''flush,nowarn'', ''flush'', ''flush,nosmt'', ''full'', ''full,force''}
      \<longrightarrow> l1tf_cmdline f (Some t) s = (0, s))
   \<and> (t \<noteq> ''off''
      \<longrightarrow> srbds_parse_cmdline f (Some t) s =
            (0, if boot_cpu_has_bug f X86_BUG_SRBDS then s\<lparr>srbds_off := False\<rparr> else s))"
proof -
  have a: "\<not> nospectre_v2 \<and> \<not> cpu_mitigations_off f \<and> 19 \<le> n
      \<and> v \<notin> set (map fst mitigation_options)
    \<longrightarrow> spectre_v2_parse_cmdline f nospectre_v2 (int (length v)) (take n v) s =
          (SPECTRE_V2_CMD_AUTO,
           printk KERN_ERR
             (''Spectre V2 : unknown option ('' @ take n v @ ''). Switching to AUTO select'') s)"
  proof
    assume h: "\<not> nospectre_v2 \<and> \<not> cpu_mitigations_off f \<and> 19 \<le> n
      \<and> v \<notin> set (map fst mitigation_options)"
    from h mitigation_options_short(1)
    have sh: "\<forall>opt \<in> set (map fst mitigation_options). length opt \<le> n" by fastforce
    note u = scan_options_unknown [OF h [THEN conjunct2, THEN conjunct2, THEN conjunct2] sh]
    from h have "\<not> nospectre_v2" "\<not> cpu_mitigations_off f" by simp_all
    then show "spectre_v2_parse_cmdline f nospectre_v2 (int (length v)) (take n v) s =
          (SPECTRE_V2_CMD_AUTO,
           printk KERN_ERR
             (''Spectre V2 : unknown option ('' @ take n v @ ''). Switching to AUTO select'') s)"
      using u by (simp add: spectre_v2_parse_cmdline_def)
  qed
  have b: "\<not> nossbd \<and> \<not> cpu_mitigations_off f \<and> 19 \<le> n
        \<and> v \<notin> set (map fst ssb_mitigation_options)
      \<longrightarrow> uu_ssb_parse_cmdline f nossbd (int (length v)) (take n v) s =
            (SPEC_STORE_BYPASS_CMD_AUTO,
             printk KERN_ERR
               (''Speculative Store Bypass: unknown option ('' @ take n v
                  @ ''). Switching to AUTO select'') s)"
  proof
    assume h: "\<not> nossbd \<and> \<not> cpu_mitigations_off f \<and> 19 \<le> n
        \<and> v \<notin> set (map fst ssb_mitigation_options)"
    from h mitigation_options_short(2)
    have sh: "\<forall>opt \<in> set (map fst ssb_mitigation_options). length opt \<le> n" by fastforce
    note u = scan_options_unknown [OF h [THEN conjunct2, THEN conjunct2, THEN conjunct2] sh]
    from h have "\<not> nossbd" "\<not> cpu_mitigations_off f" by simp_all
    then show "uu_ssb_parse_cmdline f nossbd (int (length v)) (take n v) s =
            (SPEC_STORE_BYPASS_CMD_AUTO,
             printk KERN_ERR
               (''Speculative Store Bypass: unknown option ('' @ take n v
                  @ ''). Switching to AUTO select'') s)"
      using u by (simp add: uu_ssb_parse_cmdline_def)
  qed
  have c: "retbleed_parse_cmdline (Some str) s =
       (0, (fold retbleed_option (filter (\<lambda>t. t \<in> retbleed_names) (comma_tokens str)) s)
             \<lparr>dmesg := dmesg s @
                map (\<lambda>t. (KERN_ERR,
                            ''RETBleed: Ignoring unknown retbleed option ('' @ t @ '').''))
                  (filter (\<lambda>t. t \<notin> retbleed_names) (comma_tokens str))\<rparr>)"
    unfolding retbleed_parse_cmdline_def retbleed_parse_loop_tokens [of "Some str"] option.case
    by (subst fold_retbleed_tokens) (rule refl)
  have d: "t \<notin> {''off'', ''full'', ''full,nosmt''}
      \<longrightarrow> mds_cmdline f (Some t) s = (0, s)
          \<and> tsx_async_abort_parse_cmdline f (Some t) s = (0, s)
          \<and> mmio_stale_data_parse_cmdline f (Some t) s = (0, s)"
    by (simp add: cmdline_defs)
  have e: "t \<notin> {''off'', ''force''} \<longrightarrow> gds_parse_cmdline f (Some t) s = (0, s)"
    by (simp add: cmdline_defs)
  have g: "t \<notin> {''off'', ''flush,nowarn'', ''flush'', ''flush,nosmt'', ''full'', ''full,force''}
      \<longrightarrow> l1tf_cmdline f (Some t) s = (0, s)"
    by (simp add: l1tf_cmdline_def)
  have i: "t \<noteq> ''off''
      \<longrightarrow> srbds_parse_cmdline f (Some t) s =
            (0, if boot_cpu_has_bug f X86_BUG_SRBDS then s\<lparr>srbds_off := False\<rparr> else s)"
    by (simp add: cmdline_defs)
  show ?thesis
    by (rule conjI [OF a conjI [OF b conjI [OF c conjI [OF d conjI [OF e conjI [OF g i]]]]]])
qed

text \<open>
  The witness: \<open>bogus\<close> for each parser, and \<open>retbleed=bogus,junk,off\<close>, which logs two
  lines and sets the command to off.
\<close>

theorem unknown_override_token_witness:
  "''bogus'' \<notin> set (map fst mitigation_options)
   \<and> ''bogus'' \<notin> set (map fst ssb_mitigation_options)
   \<and> \<not> cpu_mitigations_off (with_caps {X86_BUG_MDS, X86_BUG_SRBDS})
   \<and> spectre_v2_parse_cmdline (with_caps {X86_BUG_MDS, X86_BUG_SRBDS}) False 5 ''bogus''
        (boot_state (with_caps {X86_BUG_MDS, X86_BUG_SRBDS}) 0 0) =
       (SPECTRE_V2_CMD_AUTO,
        (boot_state (with_caps {X86_BUG_MDS, X86_BUG_SRBDS}) 0 0)
          \<lparr>dmesg := [(KERN_ERR, ''Spectre V2 : unknown option (bogus). Switching to AUTO select'')]\<rparr>)
   \<and> uu_ssb_parse_cmdline (with_caps {X86_BUG_MDS, X86_BUG_SRBDS}) False 5 ''bogus''
        (boot_state (with_caps {X86_BUG_MDS, X86_BUG_SRBDS}) 0 0) =
       (SPEC_STORE_BYPASS_CMD_AUTO,
        (boot_state (with_caps {X86_BUG_MDS, X86_BUG_SRBDS}) 0 0)
          \<lparr>dmesg := [(KERN_ERR,
             ''Speculative Store Bypass: unknown option (bogus). Switching to AUTO select'')]\<rparr>)
   \<and> comma_tokens ''bogus,junk,off'' = [''bogus'', ''junk'', ''off'']
   \<and> retbleed_parse_cmdline (Some ''bogus,junk,off'')
        (boot_state (with_caps {X86_BUG_MDS, X86_BUG_SRBDS}) 0 0) =
       (0, (boot_state (with_caps {X86_BUG_MDS, X86_BUG_SRBDS}) 0 0)
             \<lparr>retbleed_cmd := RETBLEED_CMD_OFF,
              dmesg := [(KERN_ERR, ''RETBleed: Ignoring unknown retbleed option (bogus).''),
                        (KERN_ERR, ''RETBleed: Ignoring unknown retbleed option (junk).'')]\<rparr>)
   \<and> mds_cmdline (with_caps {X86_BUG_MDS, X86_BUG_SRBDS}) (Some ''bogus'')
        (boot_state (with_caps {X86_BUG_MDS, X86_BUG_SRBDS}) 0 0)
       = (0, boot_state (with_caps {X86_BUG_MDS, X86_BUG_SRBDS}) 0 0)
   \<and> gds_parse_cmdline (with_caps {X86_BUG_MDS, X86_BUG_SRBDS}) (Some ''bogus'')
        (boot_state (with_caps {X86_BUG_MDS, X86_BUG_SRBDS}) 0 0)
       = (0, boot_state (with_caps {X86_BUG_MDS, X86_BUG_SRBDS}) 0 0)
   \<and> l1tf_cmdline (with_caps {X86_BUG_MDS, X86_BUG_SRBDS}) (Some ''bogus'')
        (boot_state (with_caps {X86_BUG_MDS, X86_BUG_SRBDS}) 0 0)
       = (0, boot_state (with_caps {X86_BUG_MDS, X86_BUG_SRBDS}) 0 0)
   \<and> srbds_parse_cmdline (with_caps {X86_BUG_MDS, X86_BUG_SRBDS}) (Some ''bogus'')
        (boot_state (with_caps {X86_BUG_MDS, X86_BUG_SRBDS}) 0 0)
       = (0, boot_state (with_caps {X86_BUG_MDS, X86_BUG_SRBDS}) 0 0)"
proof -
  let ?f = "with_caps {X86_BUG_MDS, X86_BUG_SRBDS}"
  have h1: "''bogus'' \<notin> set (map fst mitigation_options)
            \<and> ''bogus'' \<notin> set (map fst ssb_mitigation_options)"
    by (simp add: mitigation_options_def ssb_mitigation_options_def)
  have h3: "\<not> cpu_mitigations_off ?f" by (simp add: eval_defs)
  have h4: "''bogus'' \<notin> {''off'', ''full'', ''full,nosmt''}
            \<and> ''bogus'' \<notin> {''off'', ''force''}
            \<and> ''bogus'' \<notin> {''off'', ''flush,nowarn'', ''flush'', ''flush,nosmt'', ''full'',
                               ''full,force''}
            \<and> ''bogus'' \<noteq> ''off''"
    by simp
  have h5: "boot_cpu_has_bug ?f X86_BUG_SRBDS" by (simp add: eval_defs)
  have tk: "comma_tokens ''bogus,junk,off'' = [''bogus'', ''junk'', ''off'']"
    by simp
  have e: "printk l m (boot_state ?f 0 0) = (boot_state ?f 0 0)\<lparr>dmesg := [(l, m)]\<rparr>" for l m
    by (simp add: printk_def boot_state_def)
  have b: "dmesg (boot_state ?f 0 0) = [] \<and> \<not> srbds_off (boot_state ?f 0 0)"
    by (simp add: boot_state_def)
  have so: "(boot_state ?f 0 0)\<lparr>srbds_off := False\<rparr> = boot_state ?f 0 0"
    by (simp add: boot_state_def)
  show ?thesis
    using h1 h3 h4 h5 b
      unknown_override_token [where f = ?f and ?nospectre_v2.0 = False and nossbd = False
        and v = "''bogus''" and n = 19 and t = "''bogus''" and str = "''bogus,junk,off''"
        and s = "boot_state ?f 0 0"]
    by (simp add: e tk so retbleed_option_def retbleed_names_def)
qed

section \<open>What each selector leaves alone, and what it does to its own choice\<close>

lemmas effect_defs = printk_def cpu_smt_disable_def setup_force_cpu_cap_def
  setup_clear_cpu_cap_def wrmsrl_def Let_def

lemma spectre_v1_select_mitigation_frame [simp]:
  "retbleed_mitigation (spectre_v1_select_mitigation f s) = retbleed_mitigation s"
  "ssb_mode (spectre_v1_select_mitigation f s) = ssb_mode s"
  "l1tf_mitigation (spectre_v1_select_mitigation f s) = l1tf_mitigation s"
  "mds_mitigation (spectre_v1_select_mitigation f s) = mds_mitigation s"
  "taa_mitigation (spectre_v1_select_mitigation f s) = taa_mitigation s"
  "mmio_mitigation (spectre_v1_select_mitigation f s) = mmio_mitigation s"
  "srbds_mitigation (spectre_v1_select_mitigation f s) = srbds_mitigation s"
  "gds_mitigation (spectre_v1_select_mitigation f s) = gds_mitigation s"
  "mds_user_clear (spectre_v1_select_mitigation f s) = mds_user_clear s"
  "mds_idle_clear (spectre_v1_select_mitigation f s) = mds_idle_clear s"
  "mmio_stale_data_clear (spectre_v1_select_mitigation f s) = mmio_stale_data_clear s"
  "retbleed_cmd (spectre_v1_select_mitigation f s) = retbleed_cmd s"
  "spectre_v2_enabled (spectre_v1_select_mitigation f s) = spectre_v2_enabled s"
  "ssb_cmd (spectre_v1_select_mitigation f s) = ssb_cmd s"
  "srbds_off (spectre_v1_select_mitigation f s) = srbds_off s"
  "ssbd_userset_key (spectre_v1_select_mitigation f s) = ssbd_userset_key s"
  by (simp_all add: spectre_v1_select_mitigation_def smap_works_speculatively_def effect_defs)

lemma retbleed_apply_frame [simp]:
  "spectre_v1_mitigation (retbleed_apply f s) = spectre_v1_mitigation s"
  "ssb_mode (retbleed_apply f s) = ssb_mode s"
  "l1tf_mitigation (retbleed_apply f s) = l1tf_mitigation s"
  "mds_mitigation (retbleed_apply f s) = mds_mitigation s"
  "taa_mitigation (retbleed_apply f s) = taa_mitigation s"
  "mmio_mitigation (retbleed_apply f s) = mmio_mitigation s"
  "srbds_mitigation (retbleed_apply f s) = srbds_mitigation s"
  "gds_mitigation (retbleed_apply f s) = gds_mitigation s"
  "mds_user_clear (retbleed_apply f s) = mds_user_clear s"
  "mds_idle_clear (retbleed_apply f s) = mds_idle_clear s"
  "mmio_stale_data_clear (retbleed_apply f s) = mmio_stale_data_clear s"
  "retbleed_cmd (retbleed_apply f s) = retbleed_cmd s"
  "spectre_v2_enabled (retbleed_apply f s) = spectre_v2_enabled s"
  "ssbd_userset_key (retbleed_apply f s) = ssbd_userset_key s"
  by (simp_all add: retbleed_apply_def effect_defs split: retbleed_mitigation.split spectre_v2_mitigation.split)

lemma retbleed_cmd_auto_frame [simp]:
  "spectre_v1_mitigation (retbleed_cmd_auto f s) = spectre_v1_mitigation s"
  "ssb_mode (retbleed_cmd_auto f s) = ssb_mode s"
  "l1tf_mitigation (retbleed_cmd_auto f s) = l1tf_mitigation s"
  "mds_mitigation (retbleed_cmd_auto f s) = mds_mitigation s"
  "taa_mitigation (retbleed_cmd_auto f s) = taa_mitigation s"
  "mmio_mitigation (retbleed_cmd_auto f s) = mmio_mitigation s"
  "srbds_mitigation (retbleed_cmd_auto f s) = srbds_mitigation s"
  "gds_mitigation (retbleed_cmd_auto f s) = gds_mitigation s"
  "mds_user_clear (retbleed_cmd_auto f s) = mds_user_clear s"
  "mds_idle_clear (retbleed_cmd_auto f s) = mds_idle_clear s"
  "mmio_stale_data_clear (retbleed_cmd_auto f s) = mmio_stale_data_clear s"
  "retbleed_cmd (retbleed_cmd_auto f s) = retbleed_cmd s"
  "spectre_v2_enabled (retbleed_cmd_auto f s) = spectre_v2_enabled s"
  "ssbd_userset_key (retbleed_cmd_auto f s) = ssbd_userset_key s"
  by (simp_all add: retbleed_cmd_auto_def effect_defs)

lemma ssb_select_mitigation_frame [simp]:
  "spectre_v1_mitigation (ssb_select_mitigation f s) = spectre_v1_mitigation s"
  "retbleed_mitigation (ssb_select_mitigation f s) = retbleed_mitigation s"
  "l1tf_mitigation (ssb_select_mitigation f s) = l1tf_mitigation s"
  "mds_mitigation (ssb_select_mitigation f s) = mds_mitigation s"
  "taa_mitigation (ssb_select_mitigation f s) = taa_mitigation s"
  "mmio_mitigation (ssb_select_mitigation f s) = mmio_mitigation s"
  "srbds_mitigation (ssb_select_mitigation f s) = srbds_mitigation s"
  "gds_mitigation (ssb_select_mitigation f s) = gds_mitigation s"
  "mds_user_clear (ssb_select_mitigation f s) = mds_user_clear s"
  "mds_idle_clear (ssb_select_mitigation f s) = mds_idle_clear s"
  "mmio_stale_data_clear (ssb_select_mitigation f s) = mmio_stale_data_clear s"
  "ssb_cmd (ssb_select_mitigation f s) = ssb_cmd s"
  "spectre_v2_enabled (ssb_select_mitigation f s) = spectre_v2_enabled s"
  by (simp_all add: ssb_select_mitigation_def uu_ssb_select_mitigation_def x86_amd_ssbd_enable_def ssb_print_mitigation_def effect_defs split: ssb_mitigation_cmd.split)

lemma l1tf_select_mitigation_frame [simp]:
  "spectre_v1_mitigation (l1tf_select_mitigation f s) = spectre_v1_mitigation s"
  "retbleed_mitigation (l1tf_select_mitigation f s) = retbleed_mitigation s"
  "ssb_mode (l1tf_select_mitigation f s) = ssb_mode s"
  "mds_mitigation (l1tf_select_mitigation f s) = mds_mitigation s"
  "taa_mitigation (l1tf_select_mitigation f s) = taa_mitigation s"
  "mmio_mitigation (l1tf_select_mitigation f s) = mmio_mitigation s"
  "srbds_mitigation (l1tf_select_mitigation f s) = srbds_mitigation s"
  "gds_mitigation (l1tf_select_mitigation f s) = gds_mitigation s"
  "mds_user_clear (l1tf_select_mitigation f s) = mds_user_clear s"
  "mds_idle_clear (l1tf_select_mitigation f s) = mds_idle_clear s"
  "mmio_stale_data_clear (l1tf_select_mitigation f s) = mmio_stale_data_clear s"
  "ssbd_userset_key (l1tf_select_mitigation f s) = ssbd_userset_key s"
  "spectre_v2_enabled (l1tf_select_mitigation f s) = spectre_v2_enabled s"
  by (simp_all add: l1tf_select_mitigation_def effect_defs split: l1tf_mitigations.split)

lemma srbds_select_mitigation_frame [simp]:
  "spectre_v1_mitigation (srbds_select_mitigation f s) = spectre_v1_mitigation s"
  "retbleed_mitigation (srbds_select_mitigation f s) = retbleed_mitigation s"
  "ssb_mode (srbds_select_mitigation f s) = ssb_mode s"
  "l1tf_mitigation (srbds_select_mitigation f s) = l1tf_mitigation s"
  "mds_mitigation (srbds_select_mitigation f s) = mds_mitigation s"
  "taa_mitigation (srbds_select_mitigation f s) = taa_mitigation s"
  "mmio_mitigation (srbds_select_mitigation f s) = mmio_mitigation s"
  "gds_mitigation (srbds_select_mitigation f s) = gds_mitigation s"
  "mds_user_clear (srbds_select_mitigation f s) = mds_user_clear s"
  "mds_idle_clear (srbds_select_mitigation f s) = mds_idle_clear s"
  "mmio_stale_data_clear (srbds_select_mitigation f s) = mmio_stale_data_clear s"
  "srbds_off (srbds_select_mitigation f s) = srbds_off s"
  "ssbd_userset_key (srbds_select_mitigation f s) = ssbd_userset_key s"
  "spectre_v2_enabled (srbds_select_mitigation f s) = spectre_v2_enabled s"
  by (simp_all add: srbds_select_mitigation_def update_srbds_msr_def effect_defs split: srbds_mitigations.split)

lemma gds_select_mitigation_frame [simp]:
  "spectre_v1_mitigation (gds_select_mitigation f s) = spectre_v1_mitigation s"
  "retbleed_mitigation (gds_select_mitigation f s) = retbleed_mitigation s"
  "ssb_mode (gds_select_mitigation f s) = ssb_mode s"
  "l1tf_mitigation (gds_select_mitigation f s) = l1tf_mitigation s"
  "mds_mitigation (gds_select_mitigation f s) = mds_mitigation s"
  "taa_mitigation (gds_select_mitigation f s) = taa_mitigation s"
  "mmio_mitigation (gds_select_mitigation f s) = mmio_mitigation s"
  "srbds_mitigation (gds_select_mitigation f s) = srbds_mitigation s"
  "mds_user_clear (gds_select_mitigation f s) = mds_user_clear s"
  "mds_idle_clear (gds_select_mitigation f s) = mds_idle_clear s"
  "mmio_stale_data_clear (gds_select_mitigation f s) = mmio_stale_data_clear s"
  "ssbd_userset_key (gds_select_mitigation f s) = ssbd_userset_key s"
  "spectre_v2_enabled (gds_select_mitigation f s) = spectre_v2_enabled s"
  by (simp_all add: gds_defs effect_defs split: gds_mitigations.split)

lemma mds_select_mitigation_frame_others [simp]:
  "spectre_v1_mitigation (mds_select_mitigation f s) = spectre_v1_mitigation s"
  "retbleed_mitigation (mds_select_mitigation f s) = retbleed_mitigation s"
  "ssb_mode (mds_select_mitigation f s) = ssb_mode s"
  "l1tf_mitigation (mds_select_mitigation f s) = l1tf_mitigation s"
  "srbds_mitigation (mds_select_mitigation f s) = srbds_mitigation s"
  "gds_mitigation (mds_select_mitigation f s) = gds_mitigation s"
  "ssbd_userset_key (mds_select_mitigation f s) = ssbd_userset_key s"
  "spectre_v2_enabled (mds_select_mitigation f s) = spectre_v2_enabled s"
  by (simp_all add: mds_select_mitigation_def effect_defs)

lemma taa_select_mitigation_frame_others [simp]:
  "spectre_v1_mitigation (taa_select_mitigation f s) = spectre_v1_mitigation s"
  "retbleed_mitigation (taa_select_mitigation f s) = retbleed_mitigation s"
  "ssb_mode (taa_select_mitigation f s) = ssb_mode s"
  "l1tf_mitigation (taa_select_mitigation f s) = l1tf_mitigation s"
  "srbds_mitigation (taa_select_mitigation f s) = srbds_mitigation s"
  "gds_mitigation (taa_select_mitigation f s) = gds_mitigation s"
  "ssbd_userset_key (taa_select_mitigation f s) = ssbd_userset_key s"
  "spectre_v2_enabled (taa_select_mitigation f s) = spectre_v2_enabled s"
  by (simp_all add: taa_select_mitigation_def effect_defs)

lemma mmio_select_mitigation_frame_others [simp]:
  "spectre_v1_mitigation (mmio_select_mitigation f s) = spectre_v1_mitigation s"
  "retbleed_mitigation (mmio_select_mitigation f s) = retbleed_mitigation s"
  "ssb_mode (mmio_select_mitigation f s) = ssb_mode s"
  "l1tf_mitigation (mmio_select_mitigation f s) = l1tf_mitigation s"
  "srbds_mitigation (mmio_select_mitigation f s) = srbds_mitigation s"
  "gds_mitigation (mmio_select_mitigation f s) = gds_mitigation s"
  "ssbd_userset_key (mmio_select_mitigation f s) = ssbd_userset_key s"
  "spectre_v2_enabled (mmio_select_mitigation f s) = spectre_v2_enabled s"
  by (simp_all add: mmio_select_mitigation_def effect_defs)

lemma retbleed_select_mitigation_frame [simp]:
  "spectre_v1_mitigation (retbleed_select_mitigation f s) = spectre_v1_mitigation s"
  "ssb_mode (retbleed_select_mitigation f s) = ssb_mode s"
  "l1tf_mitigation (retbleed_select_mitigation f s) = l1tf_mitigation s"
  "mds_mitigation (retbleed_select_mitigation f s) = mds_mitigation s"
  "taa_mitigation (retbleed_select_mitigation f s) = taa_mitigation s"
  "mmio_mitigation (retbleed_select_mitigation f s) = mmio_mitigation s"
  "srbds_mitigation (retbleed_select_mitigation f s) = srbds_mitigation s"
  "gds_mitigation (retbleed_select_mitigation f s) = gds_mitigation s"
  "mds_user_clear (retbleed_select_mitigation f s) = mds_user_clear s"
  "mds_idle_clear (retbleed_select_mitigation f s) = mds_idle_clear s"
  "mmio_stale_data_clear (retbleed_select_mitigation f s) = mmio_stale_data_clear s"
  "retbleed_cmd (retbleed_select_mitigation f s) = retbleed_cmd s"
  "spectre_v2_enabled (retbleed_select_mitigation f s) = spectre_v2_enabled s"
  "ssbd_userset_key (retbleed_select_mitigation f s) = ssbd_userset_key s"
  by (simp_all add: retbleed_select_mitigation_def printk_def split: retbleed_mitigation_cmd.split)


lemma retbleed_apply_own:
  "retbleed_mitigation (retbleed_apply f s) =
     (if x86_vendor f = X86_VENDOR_INTEL
      then (case spectre_v2_enabled s of
              SPECTRE_V2_IBRS_ALWAYS \<Rightarrow> RETBLEED_MITIGATION_IBRS
            | SPECTRE_V2_IBRS \<Rightarrow> RETBLEED_MITIGATION_IBRS
            | SPECTRE_V2_IBRS_ENHANCED \<Rightarrow> RETBLEED_MITIGATION_EIBRS
            | _ \<Rightarrow> retbleed_mitigation s)
      else retbleed_mitigation s)"
  by (simp add: retbleed_apply_def effect_defs
        split: retbleed_mitigation.split spectre_v2_mitigation.split)

lemma retbleed_cmd_auto_own:
  "retbleed_mitigation (retbleed_cmd_auto f s) =
     (if x86_vendor f = X86_VENDOR_AMD
      then (if \<not> CONFIG_RETPOLINE f \<and> boot_cpu_has f X86_FEATURE_IBPB
            then RETBLEED_MITIGATION_IBPB else RETBLEED_MITIGATION_UNRET)
      else retbleed_mitigation s)"
  by (simp add: retbleed_cmd_auto_def effect_defs)

lemma retbleed_select_own:
  "retbleed_mitigation (retbleed_select_mitigation f s) =
     (if \<not> boot_cpu_has_bug f X86_BUG_RETBLEED \<or> cpu_mitigations_off f
         \<or> retbleed_cmd s = RETBLEED_CMD_OFF
      then retbleed_mitigation s
      else
        (let m1 =
               (if retbleed_cmd s = RETBLEED_CMD_UNRET then RETBLEED_MITIGATION_UNRET
                else if retbleed_cmd s = RETBLEED_CMD_IBPB \<and> boot_cpu_has f X86_FEATURE_IBPB
                then RETBLEED_MITIGATION_IBPB
                else if x86_vendor f = X86_VENDOR_AMD
                then (if \<not> CONFIG_RETPOLINE f \<and> boot_cpu_has f X86_FEATURE_IBPB
                      then RETBLEED_MITIGATION_IBPB else RETBLEED_MITIGATION_UNRET)
                else retbleed_mitigation s)
         in if x86_vendor f = X86_VENDOR_INTEL
            then (case spectre_v2_enabled s of
                    SPECTRE_V2_IBRS_ALWAYS \<Rightarrow> RETBLEED_MITIGATION_IBRS
                  | SPECTRE_V2_IBRS \<Rightarrow> RETBLEED_MITIGATION_IBRS
                  | SPECTRE_V2_IBRS_ENHANCED \<Rightarrow> RETBLEED_MITIGATION_EIBRS
                  | _ \<Rightarrow> m1)
            else m1))"
  by (simp add: retbleed_select_mitigation_def retbleed_apply_own retbleed_cmd_auto_own
        printk_def Let_def split: retbleed_mitigation_cmd.split spectre_v2_mitigation.split)

lemma retbleed_select_twice:
  "retbleed_mitigation (retbleed_select_mitigation f (retbleed_select_mitigation f s)) =
   retbleed_mitigation (retbleed_select_mitigation f s)"
  by (simp add: retbleed_select_own Let_def split: spectre_v2_mitigation.split)

lemma spectre_v1_select_own:
  "spectre_v1_mitigation (spectre_v1_select_mitigation f s) =
     (if \<not> boot_cpu_has_bug f X86_BUG_SPECTRE_V1 \<or> cpu_mitigations_off f
      then SPECTRE_V1_MITIGATION_NONE else spectre_v1_mitigation s)"
  by (simp add: spectre_v1_select_mitigation_def effect_defs)

lemma l1tf_select_own:
  "l1tf_mitigation (l1tf_select_mitigation f s) =
     (if \<not> boot_cpu_has_bug f X86_BUG_L1TF then l1tf_mitigation s
      else if cpu_mitigations_off f then L1TF_MITIGATION_OFF
      else if cpu_mitigations_auto_nosmt f then L1TF_MITIGATION_FLUSH_NOSMT
      else l1tf_mitigation s)"
  by (simp add: l1tf_select_mitigation_def effect_defs split: l1tf_mitigations.split)

lemma ssb_select_own:
  "ssb_mode (ssb_select_mitigation f s) =
     (if \<not> boot_cpu_has f X86_FEATURE_SSBD then SPEC_STORE_BYPASS_NONE
      else if \<not> boot_cpu_has_bug f X86_BUG_SPEC_STORE_BYPASS
              \<and> (ssb_cmd s = SPEC_STORE_BYPASS_CMD_NONE \<or> ssb_cmd s = SPEC_STORE_BYPASS_CMD_AUTO)
      then SPEC_STORE_BYPASS_NONE
      else (case ssb_cmd s of
              SPEC_STORE_BYPASS_CMD_AUTO \<Rightarrow>
                if CONFIG_SECCOMP f then SPEC_STORE_BYPASS_SECCOMP else SPEC_STORE_BYPASS_PRCTL
            | SPEC_STORE_BYPASS_CMD_SECCOMP \<Rightarrow>
                if CONFIG_SECCOMP f then SPEC_STORE_BYPASS_SECCOMP else SPEC_STORE_BYPASS_PRCTL
            | SPEC_STORE_BYPASS_CMD_ON \<Rightarrow> SPEC_STORE_BYPASS_DISABLE
            | SPEC_STORE_BYPASS_CMD_PRCTL \<Rightarrow> SPEC_STORE_BYPASS_PRCTL
            | SPEC_STORE_BYPASS_CMD_NONE \<Rightarrow> SPEC_STORE_BYPASS_NONE))"
  by (simp add: ssb_select_mitigation_def uu_ssb_select_mitigation_def x86_amd_ssbd_enable_def
        ssb_print_mitigation_def effect_defs split: ssb_mitigation_cmd.split)

lemma srbds_select_own:
  "srbds_mitigation (srbds_select_mitigation f s) =
     (if \<not> boot_cpu_has_bug f X86_BUG_SRBDS then srbds_mitigation s
      else if test_mask (ia32_cap f) ARCH_CAP_MDS_NO \<and> \<not> boot_cpu_has f X86_FEATURE_RTM
              \<and> \<not> boot_cpu_has_bug f X86_BUG_MMIO_STALE_DATA
      then SRBDS_MITIGATION_TSX_OFF
      else if boot_cpu_has f X86_FEATURE_HYPERVISOR then SRBDS_MITIGATION_HYPERVISOR
      else if \<not> boot_cpu_has f X86_FEATURE_SRBDS_CTRL then SRBDS_MITIGATION_UCODE_NEEDED
      else if cpu_mitigations_off f \<or> srbds_off s then SRBDS_MITIGATION_OFF
      else srbds_mitigation s)"
  by (simp add: srbds_select_mitigation_def update_srbds_msr_def effect_defs)

lemma gds_select_own:
  "gds_mitigation (gds_select_mitigation f s) =
     (if \<not> boot_cpu_has_bug f X86_BUG_GDS then gds_mitigation s
      else if boot_cpu_has f X86_FEATURE_HYPERVISOR then GDS_MITIGATION_HYPERVISOR
      else if \<not> test_mask (ia32_cap f) ARCH_CAP_GDS_CTRL
      then (if \<not> cpu_mitigations_off f \<and> gds_mitigation s = GDS_MITIGATION_FORCE
            then GDS_MITIGATION_FORCE else GDS_MITIGATION_UCODE_NEEDED)
      else if test_mask (mcu_opt_ctrl s) GDS_MITG_LOCKED then GDS_MITIGATION_FULL_LOCKED
      else if cpu_mitigations_off f then GDS_MITIGATION_OFF
      else if gds_mitigation s = GDS_MITIGATION_FORCE then GDS_MITIGATION_FULL
      else gds_mitigation s)"
  by (simp add: gds_defs effect_defs split: gds_mitigations.split)

lemma gds_select_locked:
  "test_mask (mcu_opt_ctrl (gds_select_mitigation f s)) GDS_MITG_LOCKED =
   test_mask (mcu_opt_ctrl s) GDS_MITG_LOCKED"
  by (simp add: gds_defs effect_defs locked_and_not_dis locked_or_dis
        split: gds_mitigations.split)


lemma ssb_select_userset_key:
  "ssbd_userset_key (ssb_select_mitigation f s) =
     (if \<not> static_key_enabled (ssbd_userset_key s)
         \<and> (ssb_mode (ssb_select_mitigation f s) = SPEC_STORE_BYPASS_PRCTL
             \<or> ssb_mode (ssb_select_mitigation f s) = SPEC_STORE_BYPASS_SECCOMP)
      then atomic_inc (ssbd_userset_key s) else ssbd_userset_key s)"
  by (simp add: ssb_select_mitigation_def uu_ssb_select_mitigation_def x86_amd_ssbd_enable_def
        ssb_print_mitigation_def static_key_slow_inc_def effect_defs
        split: ssb_mitigation_cmd.split)

lemma ssb_parse_cmdline_frame [simp]:
  "mds_user_clear (ssb_parse_cmdline f nossbd ret arg s) = mds_user_clear s"
  "mds_idle_clear (ssb_parse_cmdline f nossbd ret arg s) = mds_idle_clear s"
  "mmio_stale_data_clear (ssb_parse_cmdline f nossbd ret arg s) = mmio_stale_data_clear s"
  "ssbd_userset_key (ssb_parse_cmdline f nossbd ret arg s) = ssbd_userset_key s"
  by (simp_all add: ssb_parse_cmdline_def uu_ssb_parse_cmdline_def printk_def Let_def)

lemma spectre_v2_parse_cmdline_frame [simp]:
  "spectre_v1_mitigation (snd (spectre_v2_parse_cmdline f n r a s)) = spectre_v1_mitigation s"
  "retbleed_mitigation (snd (spectre_v2_parse_cmdline f n r a s)) = retbleed_mitigation s"
  "ssb_mode (snd (spectre_v2_parse_cmdline f n r a s)) = ssb_mode s"
  "l1tf_mitigation (snd (spectre_v2_parse_cmdline f n r a s)) = l1tf_mitigation s"
  "mds_mitigation (snd (spectre_v2_parse_cmdline f n r a s)) = mds_mitigation s"
  "taa_mitigation (snd (spectre_v2_parse_cmdline f n r a s)) = taa_mitigation s"
  "mmio_mitigation (snd (spectre_v2_parse_cmdline f n r a s)) = mmio_mitigation s"
  "srbds_mitigation (snd (spectre_v2_parse_cmdline f n r a s)) = srbds_mitigation s"
  "gds_mitigation (snd (spectre_v2_parse_cmdline f n r a s)) = gds_mitigation s"
  "mds_user_clear (snd (spectre_v2_parse_cmdline f n r a s)) = mds_user_clear s"
  "mds_idle_clear (snd (spectre_v2_parse_cmdline f n r a s)) = mds_idle_clear s"
  "mmio_stale_data_clear (snd (spectre_v2_parse_cmdline f n r a s)) = mmio_stale_data_clear s"
  "ssbd_userset_key (snd (spectre_v2_parse_cmdline f n r a s)) = ssbd_userset_key s"
  "spectre_v2_enabled (snd (spectre_v2_parse_cmdline f n r a s)) = spectre_v2_enabled s"
  "spectre_v2_cmd (snd (spectre_v2_parse_cmdline f n r a s)) = spectre_v2_cmd s"
  by (simp_all add: spectre_v2_parse_cmdline_def spec2_print_if_secure_def
        spec2_print_if_insecure_def printk_def Let_def split: prod.split)

lemma spectre_v2_parse_cmdline_cmd:
  "fst (spectre_v2_parse_cmdline f n r a s) = fst (spectre_v2_parse_cmdline f n r a s')"
proof -
  obtain option cmd secure where
    m: "mitigation_options ! scan_options a r (map fst mitigation_options) = (option, cmd, secure)"
    by (cases "mitigation_options ! scan_options a r (map fst mitigation_options)")
  show ?thesis by (simp add: spectre_v2_parse_cmdline_def Let_def m)
qed

lemma spectre_v2_parse_cmdline_off:
  "cpu_mitigations_off f \<Longrightarrow>
   fst (spectre_v2_parse_cmdline f n r a s) = SPECTRE_V2_CMD_NONE"
  by (simp add: spectre_v2_parse_cmdline_def)

lemma spectre_v2_after_switch_enabled:
  "spectre_v2_enabled
     (spectre_v2_after_switch f (CONFIG_RETPOLINE f \<and> retp_compiler (spec_ctrl f)) s)
   = spectre_v2_after_switch_choice f"
  by (simp add: spectre_v2_after_switch_def spectre_v2_after_switch_choice_def
        spec_ctrl_call_def spec_ctrl_set_def split: option.split)

lemma spectre_v2_after_switch_frame [simp]:
  "spectre_v1_mitigation (spectre_v2_after_switch f b s) = spectre_v1_mitigation s"
  "retbleed_mitigation (spectre_v2_after_switch f b s) = retbleed_mitigation s"
  "ssb_mode (spectre_v2_after_switch f b s) = ssb_mode s"
  "l1tf_mitigation (spectre_v2_after_switch f b s) = l1tf_mitigation s"
  "mds_mitigation (spectre_v2_after_switch f b s) = mds_mitigation s"
  "taa_mitigation (spectre_v2_after_switch f b s) = taa_mitigation s"
  "mmio_mitigation (spectre_v2_after_switch f b s) = mmio_mitigation s"
  "srbds_mitigation (spectre_v2_after_switch f b s) = srbds_mitigation s"
  "gds_mitigation (spectre_v2_after_switch f b s) = gds_mitigation s"
  "mds_user_clear (spectre_v2_after_switch f b s) = mds_user_clear s"
  "mds_idle_clear (spectre_v2_after_switch f b s) = mds_idle_clear s"
  "mmio_stale_data_clear (spectre_v2_after_switch f b s) = mmio_stale_data_clear s"
  "ssbd_userset_key (spectre_v2_after_switch f b s) = ssbd_userset_key s"
  by (simp_all add: spectre_v2_after_switch_def spec_ctrl_call_def spec_ctrl_set_def
        split: option.split)

lemma uu_spectre_v2_select_enabled:
  "spectre_v2_enabled (uu_spectre_v2_select_mitigation f s) =
     (case spectre_v2_decision f (spectre_v2_cmd s) of
        None \<Rightarrow> spectre_v2_enabled s
      | Some m \<Rightarrow> m)"
  by (simp add: uu_spectre_v2_select_mitigation_def spectre_v2_decision_def
        spectre_v2_after_switch_enabled spec_ctrl_call_def spec_ctrl_set_def effect_defs
        split: spectre_v2_mitigation_cmd.split option.split)

lemma uu_spectre_v2_select_frame [simp]:
  "spectre_v1_mitigation (uu_spectre_v2_select_mitigation f s) = spectre_v1_mitigation s"
  "retbleed_mitigation (uu_spectre_v2_select_mitigation f s) = retbleed_mitigation s"
  "ssb_mode (uu_spectre_v2_select_mitigation f s) = ssb_mode s"
  "l1tf_mitigation (uu_spectre_v2_select_mitigation f s) = l1tf_mitigation s"
  "mds_mitigation (uu_spectre_v2_select_mitigation f s) = mds_mitigation s"
  "taa_mitigation (uu_spectre_v2_select_mitigation f s) = taa_mitigation s"
  "mmio_mitigation (uu_spectre_v2_select_mitigation f s) = mmio_mitigation s"
  "srbds_mitigation (uu_spectre_v2_select_mitigation f s) = srbds_mitigation s"
  "gds_mitigation (uu_spectre_v2_select_mitigation f s) = gds_mitigation s"
  "mds_user_clear (uu_spectre_v2_select_mitigation f s) = mds_user_clear s"
  "mds_idle_clear (uu_spectre_v2_select_mitigation f s) = mds_idle_clear s"
  "mmio_stale_data_clear (uu_spectre_v2_select_mitigation f s) = mmio_stale_data_clear s"
  "ssbd_userset_key (uu_spectre_v2_select_mitigation f s) = ssbd_userset_key s"
  by (simp_all add: uu_spectre_v2_select_mitigation_def spec_ctrl_call_def spec_ctrl_set_def
        effect_defs split: spectre_v2_mitigation_cmd.split option.split)

lemma spec_ctrl_disable_kernel_rrsba_frame [simp]:
  "spectre_v1_mitigation (spec_ctrl_disable_kernel_rrsba f s) = spectre_v1_mitigation s"
  "retbleed_mitigation (spec_ctrl_disable_kernel_rrsba f s) = retbleed_mitigation s"
  "ssb_mode (spec_ctrl_disable_kernel_rrsba f s) = ssb_mode s"
  "l1tf_mitigation (spec_ctrl_disable_kernel_rrsba f s) = l1tf_mitigation s"
  "mds_mitigation (spec_ctrl_disable_kernel_rrsba f s) = mds_mitigation s"
  "taa_mitigation (spec_ctrl_disable_kernel_rrsba f s) = taa_mitigation s"
  "mmio_mitigation (spec_ctrl_disable_kernel_rrsba f s) = mmio_mitigation s"
  "srbds_mitigation (spec_ctrl_disable_kernel_rrsba f s) = srbds_mitigation s"
  "gds_mitigation (spec_ctrl_disable_kernel_rrsba f s) = gds_mitigation s"
  "mds_user_clear (spec_ctrl_disable_kernel_rrsba f s) = mds_user_clear s"
  "mds_idle_clear (spec_ctrl_disable_kernel_rrsba f s) = mds_idle_clear s"
  "mmio_stale_data_clear (spec_ctrl_disable_kernel_rrsba f s) = mmio_stale_data_clear s"
  "ssbd_userset_key (spec_ctrl_disable_kernel_rrsba f s) = ssbd_userset_key s"
  "spectre_v2_enabled (spec_ctrl_disable_kernel_rrsba f s) = spectre_v2_enabled s"
  by (simp_all add: spec_ctrl_disable_kernel_rrsba_def effect_defs)

lemma spectre_v2_print_mitigation_frame [simp]:
  "spectre_v1_mitigation (spectre_v2_print_mitigation s) = spectre_v1_mitigation s"
  "retbleed_mitigation (spectre_v2_print_mitigation s) = retbleed_mitigation s"
  "ssb_mode (spectre_v2_print_mitigation s) = ssb_mode s"
  "l1tf_mitigation (spectre_v2_print_mitigation s) = l1tf_mitigation s"
  "mds_mitigation (spectre_v2_print_mitigation s) = mds_mitigation s"
  "taa_mitigation (spectre_v2_print_mitigation s) = taa_mitigation s"
  "mmio_mitigation (spectre_v2_print_mitigation s) = mmio_mitigation s"
  "srbds_mitigation (spectre_v2_print_mitigation s) = srbds_mitigation s"
  "gds_mitigation (spectre_v2_print_mitigation s) = gds_mitigation s"
  "mds_user_clear (spectre_v2_print_mitigation s) = mds_user_clear s"
  "mds_idle_clear (spectre_v2_print_mitigation s) = mds_idle_clear s"
  "mmio_stale_data_clear (spectre_v2_print_mitigation s) = mmio_stale_data_clear s"
  "ssbd_userset_key (spectre_v2_print_mitigation s) = ssbd_userset_key s"
  "spectre_v2_enabled (spectre_v2_print_mitigation s) = spectre_v2_enabled s"
  by (simp_all add: spectre_v2_print_mitigation_def effect_defs)

lemma spectre_v2_select_mitigation_frame [simp]:
  "spectre_v1_mitigation (spectre_v2_select_mitigation f s) = spectre_v1_mitigation s"
  "retbleed_mitigation (spectre_v2_select_mitigation f s) = retbleed_mitigation s"
  "ssb_mode (spectre_v2_select_mitigation f s) = ssb_mode s"
  "l1tf_mitigation (spectre_v2_select_mitigation f s) = l1tf_mitigation s"
  "mds_mitigation (spectre_v2_select_mitigation f s) = mds_mitigation s"
  "taa_mitigation (spectre_v2_select_mitigation f s) = taa_mitigation s"
  "mmio_mitigation (spectre_v2_select_mitigation f s) = mmio_mitigation s"
  "srbds_mitigation (spectre_v2_select_mitigation f s) = srbds_mitigation s"
  "gds_mitigation (spectre_v2_select_mitigation f s) = gds_mitigation s"
  "mds_user_clear (spectre_v2_select_mitigation f s) = mds_user_clear s"
  "mds_idle_clear (spectre_v2_select_mitigation f s) = mds_idle_clear s"
  "mmio_stale_data_clear (spectre_v2_select_mitigation f s) = mmio_stale_data_clear s"
  "ssbd_userset_key (spectre_v2_select_mitigation f s) = ssbd_userset_key s"
  by (simp_all add: spectre_v2_select_mitigation_def split_beta effect_defs)

lemma spectre_v2_select_own:
  "spectre_v2_enabled (spectre_v2_select_mitigation f s) =
     (case spectre_v2_decision f
             (fst (spectre_v2_parse_cmdline f (cmdline_nospectre_v2 f)
                     (cmdline_spectre_v2_ret f) (cmdline_spectre_v2_arg f) s)) of
        None \<Rightarrow> spectre_v2_enabled s
      | Some m \<Rightarrow> m)"
  by (simp add: spectre_v2_select_mitigation_def split_beta uu_spectre_v2_select_enabled
        spec_ctrl_get_mitigation_def effect_defs split: option.split)

lemma spectre_v2_select_twice:
  "spectre_v2_enabled (spectre_v2_select_mitigation f (spectre_v2_select_mitigation f s)) =
   spectre_v2_enabled (spectre_v2_select_mitigation f s)"
  by (simp add: spectre_v2_select_own
        spectre_v2_parse_cmdline_cmd [of f _ _ _ "spectre_v2_select_mitigation f s" s]
        split: option.split)



lemma select_twice_choices:
  "mitigation_choices (select_mitigation k f (select_mitigation k f s)) =
   mitigation_choices (select_mitigation k f s)"
proof (cases k)
  case SpectreV1
  then show ?thesis by (simp add: mitigation_choices_def spectre_v1_select_own)
next
  case SpectreV2
  then show ?thesis by (simp add: mitigation_choices_def spectre_v2_select_twice)
next
  case RETBleed
  then show ?thesis by (simp add: mitigation_choices_def retbleed_select_twice)
next
  case SpeculativeStoreBypass
  then show ?thesis by (simp add: mitigation_choices_def ssb_select_own)
next
  case L1TF
  then show ?thesis by (simp add: mitigation_choices_def l1tf_select_own)
next
  case MDS
  then show ?thesis by (simp add: mitigation_choices_def)
next
  case TAA
  then show ?thesis by (simp add: mitigation_choices_def)
next
  case MMIOStaleData
  then show ?thesis by (simp add: mitigation_choices_def)
next
  case SRBDS
  then show ?thesis by (simp add: mitigation_choices_def srbds_select_own)
next
  case GDS
  then show ?thesis by (simp add: mitigation_choices_def gds_select_own gds_select_locked)
qed

lemma select_twice_user_clear:
  assumes "0 \<le> mds_user_clear s" and "mds_user_clear s \<le> INT_MAX - 2"
  shows "static_key_enabled (mds_user_clear (select_mitigation k f (select_mitigation k f s)))
           = static_key_enabled (mds_user_clear (select_mitigation k f s))"
  using assms by (cases k) (auto simp add: static_key_enabled_def atomic_inc_def INT_MAX_def)

lemma select_twice_idle_clear:
  assumes "0 \<le> mds_idle_clear s" and "mds_idle_clear s \<le> INT_MAX - 2"
  shows "static_key_enabled (mds_idle_clear (select_mitigation k f (select_mitigation k f s)))
           = static_key_enabled (mds_idle_clear (select_mitigation k f s))"
  using assms by (cases k) (auto simp add: static_key_enabled_def atomic_inc_def INT_MAX_def)

lemma select_twice_stale_clear:
  assumes "0 \<le> mmio_stale_data_clear s" and "mmio_stale_data_clear s \<le> INT_MAX - 2"
  shows "static_key_enabled (mmio_stale_data_clear (select_mitigation k f (select_mitigation k f s)))
           = static_key_enabled (mmio_stale_data_clear (select_mitigation k f s))"
  using assms by (cases k) (auto simp add: static_key_enabled_def atomic_inc_def INT_MAX_def)

lemma ssb_select_twice_userset_key:
  assumes "0 \<le> ssbd_userset_key s"
  shows "ssbd_userset_key (ssb_select_mitigation f (ssb_select_mitigation f s))
           = ssbd_userset_key (ssb_select_mitigation f s)"
proof -
  let ?s1 = "ssb_select_mitigation f s"
  have m: "ssb_mode (ssb_select_mitigation f ?s1) = ssb_mode ?s1"
    by (simp add: ssb_select_own)
  have a: "ssbd_userset_key (ssb_select_mitigation f ?s1) =
             (if \<not> static_key_enabled (ssbd_userset_key ?s1)
                 \<and> (ssb_mode ?s1 = SPEC_STORE_BYPASS_PRCTL
                     \<or> ssb_mode ?s1 = SPEC_STORE_BYPASS_SECCOMP)
              then atomic_inc (ssbd_userset_key ?s1) else ssbd_userset_key ?s1)"
    by (subst ssb_select_userset_key) (simp only: m)
  have b: "static_key_enabled (ssbd_userset_key ?s1)"
    if "ssb_mode ?s1 = SPEC_STORE_BYPASS_PRCTL \<or> ssb_mode ?s1 = SPEC_STORE_BYPASS_SECCOMP"
    using that assms
    by (subst ssb_select_userset_key)
       (auto simp add: static_key_enabled_def atomic_inc_def INT_MAX_def)
  show ?thesis using a b by auto
qed

lemma select_twice_counts:
  assumes "k \<notin> {MDS, TAA, MMIOStaleData}" and "0 \<le> ssbd_userset_key s"
  shows "effect_counts (select_mitigation k f (select_mitigation k f s))
           = effect_counts (select_mitigation k f s)"
  using assms by (cases k) (simp_all add: effect_counts_def ssb_select_twice_userset_key)

lemma second_run_mds:
  assumes "0 \<le> mds_user_clear s" and "mds_user_clear s \<le> INT_MAX - 2"
  shows "effect_counts (select_mitigation MDS f (select_mitigation MDS f s)) =
           (mds_user_clear (select_mitigation MDS f s)
              + (if mds_mitigation (select_mitigation MDS f s) = MDS_MITIGATION_FULL
                 then 1 else 0),
            mds_idle_clear (select_mitigation MDS f s),
            mmio_stale_data_clear (select_mitigation MDS f s),
            ssbd_userset_key (select_mitigation MDS f s))"
  using assms by (auto simp add: effect_counts_def atomic_inc_def INT_MAX_def)

lemma second_run_taa:
  assumes "0 \<le> mds_user_clear s" and "mds_user_clear s \<le> INT_MAX - 2"
  shows "effect_counts (select_mitigation TAA f (select_mitigation TAA f s)) =
           (mds_user_clear (select_mitigation TAA f s)
              + (if taa_mitigation (select_mitigation TAA f s) = TAA_MITIGATION_VERW
                    \<or> taa_mitigation (select_mitigation TAA f s) = TAA_MITIGATION_UCODE_NEEDED
                 then 1 else 0),
            mds_idle_clear (select_mitigation TAA f s),
            mmio_stale_data_clear (select_mitigation TAA f s),
            ssbd_userset_key (select_mitigation TAA f s))"
  using assms by (auto simp add: effect_counts_def atomic_inc_def INT_MAX_def)

lemma second_run_mmio:
  assumes "0 \<le> mds_user_clear s" and "mds_user_clear s \<le> INT_MAX - 2"
      and "0 \<le> mds_idle_clear s" and "mds_idle_clear s \<le> INT_MAX - 2"
      and "0 \<le> mmio_stale_data_clear s" and "mmio_stale_data_clear s \<le> INT_MAX - 2"
  shows "effect_counts (select_mitigation MMIOStaleData f (select_mitigation MMIOStaleData f s)) =
           (mds_user_clear (select_mitigation MMIOStaleData f s)
              + (if mmio_mitigation (select_mitigation MMIOStaleData f s) \<noteq> MMIO_MITIGATION_OFF
                    \<and> (boot_cpu_has_bug f X86_BUG_MDS
                        \<or> (boot_cpu_has_bug f X86_BUG_TAA \<and> boot_cpu_has f X86_FEATURE_RTM))
                 then 1 else 0),
            mds_idle_clear (select_mitigation MMIOStaleData f s)
              + (if mmio_mitigation (select_mitigation MMIOStaleData f s) \<noteq> MMIO_MITIGATION_OFF
                    \<and> \<not> test_mask (ia32_cap f) ARCH_CAP_FBSDP_NO
                 then 1 else 0),
            mmio_stale_data_clear (select_mitigation MMIOStaleData f s)
              + (if mmio_mitigation (select_mitigation MMIOStaleData f s) \<noteq> MMIO_MITIGATION_OFF
                    \<and> \<not> (boot_cpu_has_bug f X86_BUG_MDS
                        \<or> (boot_cpu_has_bug f X86_BUG_TAA \<and> boot_cpu_has f X86_FEATURE_RTM))
                 then 1 else 0),
            ssbd_userset_key (select_mitigation MMIOStaleData f s))"
  using assms by (auto simp add: effect_counts_def atomic_inc_def INT_MAX_def)


lemma select_twice_userset_key:
  assumes "0 \<le> ssbd_userset_key s"
  shows "ssbd_userset_key (select_mitigation k f (select_mitigation k f s))
           = ssbd_userset_key (select_mitigation k f s)"
  using assms by (cases k) (simp_all add: ssb_select_twice_userset_key)

section \<open>Running a selector twice\<close>

text \<open>
  C2 as stated: a second run of a kind's selector leaves every reference count as the
  first run left it. The MDS selector on affected hardware with MD_CLEAR increments
  \<open>mds_user_clear\<close> on every run: 1 after one run, 2 after two.
\<close>

theorem selector_idempotent_choice_counterexample:
  "mds_user_clear
     (select_mitigation MDS (with_caps {X86_BUG_MDS, X86_FEATURE_MD_CLEAR})
        (boot_state (with_caps {X86_BUG_MDS, X86_FEATURE_MD_CLEAR}) 0 0)) = 1
   \<and> mds_user_clear
        (select_mitigation MDS (with_caps {X86_BUG_MDS, X86_FEATURE_MD_CLEAR})
           (select_mitigation MDS (with_caps {X86_BUG_MDS, X86_FEATURE_MD_CLEAR})
              (boot_state (with_caps {X86_BUG_MDS, X86_FEATURE_MD_CLEAR}) 0 0))) = 2"
  by (simp add: eval_defs)

text \<open>
  C2, amended. The counts on entry are in the range in which two increments do not wrap
  the 32-bit count: from 0 to \<open>INT_MAX - 2\<close> for the three buffer-clear keys, and not
  negative for \<open>ssbd_userset_key\<close>. Then a second run of a kind's selector with the same
  facts and override leaves every kind's choice (Spectre V2 included) as the first run
  left it, each of the three buffer-clear keys enabled exactly if it was enabled after
  the first run, and \<open>ssbd_userset_key\<close> at the same count. Every selector outside the
  MDS/TAA/MMIO triad leaves all four counts as the first run left them. In the triad the
  second run takes exactly these further references: the MDS selector one on
  \<open>mds_user_clear\<close> if and only if the first run ended with Full (none when it ended
  with VMWERV or Off); the TAA selector one on \<open>mds_user_clear\<close> if and only if the
  first run ended with VERW or Ucode-needed; the MMIO selector, if and only if the first
  run ended with a choice other than Off, one on \<open>mds_user_clear\<close> (host also
  MDS-affected or TAA-affected with RTM) or else on \<open>mmio_stale_data_clear\<close>, and one on
  \<open>mds_idle_clear\<close> when FBSDP_NO is absent.
\<close>

theorem selector_idempotent_choice:
  assumes "0 \<le> mds_user_clear s" and "mds_user_clear s \<le> INT_MAX - 2"
      and "0 \<le> mds_idle_clear s" and "mds_idle_clear s \<le> INT_MAX - 2"
      and "0 \<le> mmio_stale_data_clear s" and "mmio_stale_data_clear s \<le> INT_MAX - 2"
      and "0 \<le> ssbd_userset_key s"
  shows "mitigation_choices (select_mitigation k f (select_mitigation k f s))
           = mitigation_choices (select_mitigation k f s)
       \<and> static_key_enabled (mds_user_clear (select_mitigation k f (select_mitigation k f s)))
           = static_key_enabled (mds_user_clear (select_mitigation k f s))
       \<and> static_key_enabled (mds_idle_clear (select_mitigation k f (select_mitigation k f s)))
           = static_key_enabled (mds_idle_clear (select_mitigation k f s))
       \<and> static_key_enabled (mmio_stale_data_clear (select_mitigation k f (select_mitigation k f s)))
           = static_key_enabled (mmio_stale_data_clear (select_mitigation k f s))
       \<and> ssbd_userset_key (select_mitigation k f (select_mitigation k f s))
           = ssbd_userset_key (select_mitigation k f s)
       \<and> (k \<notin> {MDS, TAA, MMIOStaleData} \<longrightarrow>
            effect_counts (select_mitigation k f (select_mitigation k f s))
              = effect_counts (select_mitigation k f s))
       \<and> effect_counts (select_mitigation MDS f (select_mitigation MDS f s)) =
           (mds_user_clear (select_mitigation MDS f s)
              + (if mds_mitigation (select_mitigation MDS f s) = MDS_MITIGATION_FULL
                 then 1 else 0),
            mds_idle_clear (select_mitigation MDS f s),
            mmio_stale_data_clear (select_mitigation MDS f s),
            ssbd_userset_key (select_mitigation MDS f s))
       \<and> effect_counts (select_mitigation TAA f (select_mitigation TAA f s)) =
           (mds_user_clear (select_mitigation TAA f s)
              + (if taa_mitigation (select_mitigation TAA f s) = TAA_MITIGATION_VERW
                    \<or> taa_mitigation (select_mitigation TAA f s) = TAA_MITIGATION_UCODE_NEEDED
                 then 1 else 0),
            mds_idle_clear (select_mitigation TAA f s),
            mmio_stale_data_clear (select_mitigation TAA f s),
            ssbd_userset_key (select_mitigation TAA f s))
       \<and> effect_counts (select_mitigation MMIOStaleData f (select_mitigation MMIOStaleData f s)) =
           (mds_user_clear (select_mitigation MMIOStaleData f s)
              + (if mmio_mitigation (select_mitigation MMIOStaleData f s) \<noteq> MMIO_MITIGATION_OFF
                    \<and> (boot_cpu_has_bug f X86_BUG_MDS
                        \<or> (boot_cpu_has_bug f X86_BUG_TAA \<and> boot_cpu_has f X86_FEATURE_RTM))
                 then 1 else 0),
            mds_idle_clear (select_mitigation MMIOStaleData f s)
              + (if mmio_mitigation (select_mitigation MMIOStaleData f s) \<noteq> MMIO_MITIGATION_OFF
                    \<and> \<not> test_mask (ia32_cap f) ARCH_CAP_FBSDP_NO
                 then 1 else 0),
            mmio_stale_data_clear (select_mitigation MMIOStaleData f s)
              + (if mmio_mitigation (select_mitigation MMIOStaleData f s) \<noteq> MMIO_MITIGATION_OFF
                    \<and> \<not> (boot_cpu_has_bug f X86_BUG_MDS
                        \<or> (boot_cpu_has_bug f X86_BUG_TAA \<and> boot_cpu_has f X86_FEATURE_RTM))
                 then 1 else 0),
            ssbd_userset_key (select_mitigation MMIOStaleData f s))"
proof -
  have c6: "k \<notin> {MDS, TAA, MMIOStaleData} \<longrightarrow>
            effect_counts (select_mitigation k f (select_mitigation k f s))
              = effect_counts (select_mitigation k f s)"
    using select_twice_counts [OF _ assms(7), of k f] by (rule impI)
  show ?thesis
    by (rule conjI [OF select_twice_choices
          conjI [OF select_twice_user_clear [OF assms(1,2)]
          conjI [OF select_twice_idle_clear [OF assms(3,4)]
          conjI [OF select_twice_stale_clear [OF assms(5,6)]
          conjI [OF select_twice_userset_key [OF assms(7)]
          conjI [OF c6
          conjI [OF second_run_mds [OF assms(1,2)]
          conjI [OF second_run_taa [OF assms(1,2)] second_run_mmio [OF assms(1-6)]]]]]]]]])
qed

text \<open>
  The witness runs, from boot, the MDS selector with and without MD_CLEAR (counts 2 and
  1 after two runs), the TAA and MMIO selectors, the SSB selector after its parser found
  no option (\<open>ssbd_userset_key\<close> taken once), and the Spectre V2 selector on a machine
  with Enhanced IBRS.
\<close>

theorem selector_idempotent_choice_witness:
  "0 \<le> mds_user_clear (boot_state (with_caps {X86_BUG_MDS, X86_FEATURE_MD_CLEAR}) 0 0)
   \<and> mds_user_clear (boot_state (with_caps {X86_BUG_MDS, X86_FEATURE_MD_CLEAR}) 0 0)
       \<le> INT_MAX - 2
   \<and> 0 \<le> mds_idle_clear (boot_state (with_caps {X86_BUG_MDS, X86_FEATURE_MD_CLEAR}) 0 0)
   \<and> mds_idle_clear (boot_state (with_caps {X86_BUG_MDS, X86_FEATURE_MD_CLEAR}) 0 0)
       \<le> INT_MAX - 2
   \<and> 0 \<le> mmio_stale_data_clear (boot_state (with_caps {X86_BUG_MDS, X86_FEATURE_MD_CLEAR}) 0 0)
   \<and> mmio_stale_data_clear (boot_state (with_caps {X86_BUG_MDS, X86_FEATURE_MD_CLEAR}) 0 0)
       \<le> INT_MAX - 2
   \<and> 0 \<le> ssbd_userset_key (boot_state (with_caps {X86_BUG_MDS, X86_FEATURE_MD_CLEAR}) 0 0)
   \<and> mds_mitigation
        (select_mitigation MDS (with_caps {X86_BUG_MDS, X86_FEATURE_MD_CLEAR})
           (select_mitigation MDS (with_caps {X86_BUG_MDS, X86_FEATURE_MD_CLEAR})
              (boot_state (with_caps {X86_BUG_MDS, X86_FEATURE_MD_CLEAR}) 0 0)))
       = MDS_MITIGATION_FULL
   \<and> effect_counts
        (select_mitigation MDS (with_caps {X86_BUG_MDS, X86_FEATURE_MD_CLEAR})
           (select_mitigation MDS (with_caps {X86_BUG_MDS, X86_FEATURE_MD_CLEAR})
              (boot_state (with_caps {X86_BUG_MDS, X86_FEATURE_MD_CLEAR}) 0 0)))
       = (2, 0, 0, 0)
   \<and> effect_counts
        (select_mitigation MDS (with_caps {X86_BUG_MDS})
           (boot_state (with_caps {X86_BUG_MDS}) 0 0))
       = (1, 0, 0, 0)
   \<and> effect_counts
        (select_mitigation MDS (with_caps {X86_BUG_MDS})
           (select_mitigation MDS (with_caps {X86_BUG_MDS})
              (boot_state (with_caps {X86_BUG_MDS}) 0 0)))
       = (1, 0, 0, 0)
   \<and> effect_counts
        (select_mitigation TAA (with_caps {X86_BUG_TAA, X86_FEATURE_RTM, X86_FEATURE_MD_CLEAR})
           (select_mitigation TAA (with_caps {X86_BUG_TAA, X86_FEATURE_RTM, X86_FEATURE_MD_CLEAR})
              (boot_state (with_caps {X86_BUG_TAA, X86_FEATURE_RTM, X86_FEATURE_MD_CLEAR}) 0 0)))
       = (2, 0, 0, 0)
   \<and> effect_counts
        (select_mitigation MMIOStaleData (with_caps {X86_BUG_MMIO_STALE_DATA})
           (select_mitigation MMIOStaleData (with_caps {X86_BUG_MMIO_STALE_DATA})
              (boot_state (with_caps {X86_BUG_MMIO_STALE_DATA}) 0 0)))
       = (0, 2, 2, 0)
   \<and> SpeculativeStoreBypass \<notin> {MDS, TAA, MMIOStaleData}
   \<and> effect_counts
        (select_mitigation SpeculativeStoreBypass
           (with_caps {X86_FEATURE_SSBD, X86_BUG_SPEC_STORE_BYPASS})
           (select_mitigation SpeculativeStoreBypass
              (with_caps {X86_FEATURE_SSBD, X86_BUG_SPEC_STORE_BYPASS})
              (ssb_parse_cmdline (with_caps {X86_FEATURE_SSBD, X86_BUG_SPEC_STORE_BYPASS})
                 False (- 1) []
                 (boot_state (with_caps {X86_FEATURE_SSBD, X86_BUG_SPEC_STORE_BYPASS}) 0 0))))
       = (0, 0, 0, 1)
   \<and> spectre_v2_enabled
        (select_mitigation SpectreV2 (with_caps {X86_BUG_SPECTRE_V2, X86_FEATURE_IBRS_ENHANCED})
           (select_mitigation SpectreV2
              (with_caps {X86_BUG_SPECTRE_V2, X86_FEATURE_IBRS_ENHANCED})
              (boot_state (with_caps {X86_BUG_SPECTRE_V2, X86_FEATURE_IBRS_ENHANCED}) 0 0)))
       = SPECTRE_V2_IBRS_ENHANCED"
proof -
  let ?f1 = "with_caps {X86_BUG_MDS, X86_FEATURE_MD_CLEAR}"
  let ?f2 = "with_caps {X86_BUG_MDS}"
  let ?f3 = "with_caps {X86_BUG_TAA, X86_FEATURE_RTM, X86_FEATURE_MD_CLEAR}"
  let ?f4 = "with_caps {X86_BUG_MMIO_STALE_DATA}"
  let ?f5 = "with_caps {X86_FEATURE_SSBD, X86_BUG_SPEC_STORE_BYPASS}"
  let ?f6 = "with_caps {X86_BUG_SPECTRE_V2, X86_FEATURE_IBRS_ENHANCED}"
  let ?s5 = "ssb_parse_cmdline ?f5 False (- 1) [] (boot_state ?f5 0 0)"
  have b: "0 \<le> mds_user_clear (boot_state f 0 0)"
          "mds_user_clear (boot_state f 0 0) \<le> INT_MAX - 2"
          "0 \<le> mds_idle_clear (boot_state f 0 0)"
          "mds_idle_clear (boot_state f 0 0) \<le> INT_MAX - 2"
          "0 \<le> mmio_stale_data_clear (boot_state f 0 0)"
          "mmio_stale_data_clear (boot_state f 0 0) \<le> INT_MAX - 2"
          "0 \<le> ssbd_userset_key (boot_state f 0 0)" for f
    by (simp_all add: boot_state_def INT_MAX_def)
  have b5: "0 \<le> mds_user_clear ?s5" "mds_user_clear ?s5 \<le> INT_MAX - 2"
           "0 \<le> mds_idle_clear ?s5" "mds_idle_clear ?s5 \<le> INT_MAX - 2"
           "0 \<le> mmio_stale_data_clear ?s5" "mmio_stale_data_clear ?s5 \<le> INT_MAX - 2"
           "0 \<le> ssbd_userset_key ?s5"
    by (simp_all add: boot_state_def INT_MAX_def)
  have one1: "mds_mitigation (select_mitigation MDS ?f1 (boot_state ?f1 0 0)) = MDS_MITIGATION_FULL
              \<and> effect_counts (select_mitigation MDS ?f1 (boot_state ?f1 0 0)) = (1, 0, 0, 0)"
    by (simp add: effect_counts_def eval_defs)
  have one2: "mds_mitigation (select_mitigation MDS ?f2 (boot_state ?f2 0 0))
                = MDS_MITIGATION_VMWERV
              \<and> effect_counts (select_mitigation MDS ?f2 (boot_state ?f2 0 0)) = (1, 0, 0, 0)"
    by (simp add: effect_counts_def eval_defs)
  have one3: "taa_mitigation (select_mitigation TAA ?f3 (boot_state ?f3 0 0)) = TAA_MITIGATION_VERW
              \<and> effect_counts (select_mitigation TAA ?f3 (boot_state ?f3 0 0)) = (1, 0, 0, 0)"
    by (simp add: effect_counts_def eval_defs bit_defs)
  have one4:
    "mmio_mitigation (select_mitigation MMIOStaleData ?f4 (boot_state ?f4 0 0))
       = MMIO_MITIGATION_UCODE_NEEDED"
    "mds_user_clear (select_mitigation MMIOStaleData ?f4 (boot_state ?f4 0 0)) = 0"
    "mds_idle_clear (select_mitigation MMIOStaleData ?f4 (boot_state ?f4 0 0)) = 1"
    "mmio_stale_data_clear (select_mitigation MMIOStaleData ?f4 (boot_state ?f4 0 0)) = 1"
    "ssbd_userset_key (select_mitigation MMIOStaleData ?f4 (boot_state ?f4 0 0)) = 0"
    by (simp_all add: eval_defs bit_defs)
  have m4: "\<not> boot_cpu_has_bug ?f4 X86_BUG_MDS" "\<not> boot_cpu_has_bug ?f4 X86_BUG_TAA"
           "\<not> test_mask (ia32_cap ?f4) ARCH_CAP_FBSDP_NO"
    by (simp_all add: eval_defs bit_defs)
  have one5: "effect_counts (select_mitigation SpeculativeStoreBypass ?f5 ?s5) = (0, 0, 0, 1)"
    by (simp add: effect_counts_def ssb_select_userset_key ssb_select_own ssb_parse_cmdline_def
          uu_ssb_parse_cmdline_def eval_defs)
  have one6: "spectre_v2_enabled (select_mitigation SpectreV2 ?f6 (boot_state ?f6 0 0))
                = SPECTRE_V2_IBRS_ENHANCED"
    by (simp add: spectre_v2_select_own spectre_v2_decision_def spectre_v2_parse_cmdline_def
          eval_defs)
  have n: "SpeculativeStoreBypass \<notin> {MDS, TAA, MMIOStaleData}" by simp
  note t1 = selector_idempotent_choice [OF b [of ?f1], of MDS ?f1]
  note t2 = selector_idempotent_choice [OF b [of ?f2], of MDS ?f2]
  note t3 = selector_idempotent_choice [OF b [of ?f3], of TAA ?f3]
  note t4 = selector_idempotent_choice [OF b [of ?f4], of MMIOStaleData ?f4]
  note t5 = selector_idempotent_choice [OF b5, of SpeculativeStoreBypass ?f5]
  note t6 = selector_idempotent_choice [OF b [of ?f6], of SpectreV2 ?f6]
  have r1: "mds_mitigation (select_mitigation MDS ?f1 (select_mitigation MDS ?f1 (boot_state ?f1 0 0)))
              = MDS_MITIGATION_FULL
            \<and> effect_counts
                (select_mitigation MDS ?f1 (select_mitigation MDS ?f1 (boot_state ?f1 0 0)))
              = (2, 0, 0, 0)"
    using t1 one1 by (simp add: mitigation_choices_def effect_counts_def)
  have r2: "effect_counts
              (select_mitigation MDS ?f2 (select_mitigation MDS ?f2 (boot_state ?f2 0 0)))
              = (1, 0, 0, 0)"
    using t2 one2 by (simp add: mitigation_choices_def effect_counts_def)
  have r3: "effect_counts
              (select_mitigation TAA ?f3 (select_mitigation TAA ?f3 (boot_state ?f3 0 0)))
              = (2, 0, 0, 0)"
    using t3 one3 by (simp add: mitigation_choices_def effect_counts_def)
  have r4: "effect_counts
              (select_mitigation MMIOStaleData ?f4
                 (select_mitigation MMIOStaleData ?f4 (boot_state ?f4 0 0)))
              = (0, 2, 2, 0)"
    using t4 [THEN conjunct2, THEN conjunct2, THEN conjunct2, THEN conjunct2, THEN conjunct2,
              THEN conjunct2, THEN conjunct2, THEN conjunct2]
    unfolding one4 by (simp add: m4)
  have r5: "effect_counts
              (select_mitigation SpeculativeStoreBypass ?f5
                 (select_mitigation SpeculativeStoreBypass ?f5 ?s5))
              = (0, 0, 0, 1)"
    using t5 [THEN conjunct2, THEN conjunct2, THEN conjunct2, THEN conjunct2, THEN conjunct2,
              THEN conjunct1] n one5
    by (simp only: simp_thms)
  have r6: "spectre_v2_enabled
              (select_mitigation SpectreV2 ?f6
                 (select_mitigation SpectreV2 ?f6 (boot_state ?f6 0 0)))
              = SPECTRE_V2_IBRS_ENHANCED"
    using t6 [THEN conjunct1] one6 by (simp add: mitigation_choices_def)
  show ?thesis
    using b [of ?f1] one2 r1 r2 r3 r4 r5 r6 n by (simp only: simp_thms)
qed


section \<open>Not affected, or mitigations globally off\<close>

lemma not_affected_or_off_counts:
  "\<not> boot_cpu_has_bug f (bug_of k) \<or> cpu_mitigations_off f \<Longrightarrow>
   k \<noteq> SpeculativeStoreBypass \<Longrightarrow>
   effect_counts (select_mitigation k f s) = effect_counts s"
  by (cases k) (auto simp add: effect_counts_def)

lemma not_affected_sets_off:
  "\<not> boot_cpu_has_bug f (bug_of k) \<Longrightarrow> k \<in> {MDS, TAA, MMIOStaleData, SpectreV1} \<Longrightarrow>
   choice_is_off k (select_mitigation k f s)"
  by (cases k) (auto simp add: spectre_v1_select_own)

lemma not_affected_returns:
  "\<not> boot_cpu_has_bug f (bug_of k) \<Longrightarrow> k \<in> {SRBDS, GDS, RETBleed, L1TF} \<Longrightarrow>
   select_mitigation k f s = s"
  by (cases k)
    (auto simp add: srbds_select_mitigation_def gds_select_mitigation_def
       retbleed_select_mitigation_def l1tf_select_mitigation_def)

lemma mitigations_off_sets_off:
  "cpu_mitigations_off f \<Longrightarrow> k \<in> {MDS, MMIOStaleData, SpectreV1} \<Longrightarrow>
   choice_is_off k (select_mitigation k f s)"
  by (cases k) (auto simp add: spectre_v1_select_own)

lemma ssb_cmd_after_parse:
  "cpu_mitigations_off f \<Longrightarrow>
   ssb_cmd (ssb_parse_cmdline f nossbd ret arg s) = SPEC_STORE_BYPASS_CMD_NONE"
  by (simp add: ssb_parse_cmdline_def uu_ssb_parse_cmdline_def)

lemma ssb_select_none:
  assumes "(\<not> boot_cpu_has_bug f X86_BUG_SPEC_STORE_BYPASS
              \<and> ssb_cmd s = SPEC_STORE_BYPASS_CMD_AUTO)
           \<or> ssb_cmd s = SPEC_STORE_BYPASS_CMD_NONE"
  shows "ssb_mode (ssb_select_mitigation f s) = SPEC_STORE_BYPASS_NONE"
    and "effect_counts (ssb_select_mitigation f s) = effect_counts s"
proof -
  from assms show m: "ssb_mode (ssb_select_mitigation f s) = SPEC_STORE_BYPASS_NONE"
    by (auto simp add: ssb_select_own)
  show "effect_counts (ssb_select_mitigation f s) = effect_counts s"
    by (simp add: effect_counts_def ssb_select_userset_key m)
qed

lemma ssb_select_forced:
  assumes "boot_cpu_has f X86_FEATURE_SSBD"
      and "ssb_cmd s = SPEC_STORE_BYPASS_CMD_PRCTL \<or> ssb_cmd s = SPEC_STORE_BYPASS_CMD_SECCOMP"
      and "\<not> static_key_enabled (ssbd_userset_key s)"
  shows "ssb_mode (ssb_select_mitigation f s) \<noteq> SPEC_STORE_BYPASS_NONE"
    and "ssbd_userset_key (ssb_select_mitigation f s) = atomic_inc (ssbd_userset_key s)"
proof -
  from assms(1,2)
  have m: "ssb_mode (ssb_select_mitigation f s) = SPEC_STORE_BYPASS_PRCTL
           \<or> ssb_mode (ssb_select_mitigation f s) = SPEC_STORE_BYPASS_SECCOMP"
    by (auto simp add: ssb_select_own)
  then show "ssb_mode (ssb_select_mitigation f s) \<noteq> SPEC_STORE_BYPASS_NONE" by auto
  from m assms(3)
  show "ssbd_userset_key (ssb_select_mitigation f s) = atomic_inc (ssbd_userset_key s)"
    by (subst ssb_select_userset_key) auto
qed

lemma spectre_v2_select_keeps:
  assumes "(\<not> boot_cpu_has_bug f X86_BUG_SPECTRE_V2
              \<and> fst (spectre_v2_parse_cmdline f (cmdline_nospectre_v2 f)
                       (cmdline_spectre_v2_ret f) (cmdline_spectre_v2_arg f) s)
                  = SPECTRE_V2_CMD_AUTO)
           \<or> fst (spectre_v2_parse_cmdline f (cmdline_nospectre_v2 f)
                    (cmdline_spectre_v2_ret f) (cmdline_spectre_v2_arg f) s)
               = SPECTRE_V2_CMD_NONE"
  shows "spectre_v2_enabled (spectre_v2_select_mitigation f s) = spectre_v2_enabled s"
  using assms by (auto simp add: spectre_v2_select_own spectre_v2_decision_def)

text \<open>
  C3 as stated: when the kind is not affected the selector leaves the kind's choice at its
  Off variant and takes no reference, the same holds with mitigations globally off, and
  that check comes first in every selector. The SRBDS selector on unaffected hardware
  returns at once and the choice keeps its boot default Full; the TAA selector tests
  RTM before mitigations-off, so that TAA-affected hardware without RTM ends
  TSX-disabled under \<open>mitigations=off\<close>; and the SSB selector on hardware that has SSBD
  but not the bug, with \<open>spec_store_bypass_disable=prctl\<close>, chooses prctl and takes
  \<open>ssbd_userset_key\<close>.
\<close>

theorem selector_not_affected_or_off_counterexample:
  "\<not> boot_cpu_has_bug (with_caps {}) (bug_of SRBDS)
   \<and> \<not> choice_is_off SRBDS (select_mitigation SRBDS (with_caps {}) (boot_state (with_caps {}) 0 0))
   \<and> cpu_mitigations_off (mitigations_off_machine {X86_BUG_TAA})
   \<and> \<not> choice_is_off TAA
          (select_mitigation TAA (mitigations_off_machine {X86_BUG_TAA})
             (boot_state (mitigations_off_machine {X86_BUG_TAA}) 0 0))
   \<and> \<not> boot_cpu_has_bug (with_caps {X86_FEATURE_SSBD}) (bug_of SpeculativeStoreBypass)
   \<and> ssbd_userset_key
        (ssb_parse_cmdline (with_caps {X86_FEATURE_SSBD}) False 5 ''prctl''
           (boot_state (with_caps {X86_FEATURE_SSBD}) 0 0)) = 0
   \<and> ssbd_userset_key
        (select_mitigation SpeculativeStoreBypass (with_caps {X86_FEATURE_SSBD})
           (ssb_parse_cmdline (with_caps {X86_FEATURE_SSBD}) False 5 ''prctl''
              (boot_state (with_caps {X86_FEATURE_SSBD}) 0 0))) = 1
   \<and> \<not> choice_is_off SpeculativeStoreBypass
          (select_mitigation SpeculativeStoreBypass (with_caps {X86_FEATURE_SSBD})
             (ssb_parse_cmdline (with_caps {X86_FEATURE_SSBD}) False 5 ''prctl''
                (boot_state (with_caps {X86_FEATURE_SSBD}) 0 0)))"
  by (simp add: srbds_select_mitigation_def mitigations_off_machine_def
        ssb_select_userset_key ssb_select_own ssb_parse_cmdline_def uu_ssb_parse_cmdline_def
        ssb_mitigation_options_def match_option_def eval_defs)

text \<open>
  C3, amended. When the kind is not affected, or mitigations are globally off, no selector
  other than the SSB one changes any of the four reference counts. On unaffected hardware
  the MDS, TAA, MMIO and Spectre V1 selectors set the choice to Off; the SRBDS, GDS,
  RETBleed and L1TF selectors return at once and leave the state as it was; the SSB
  selector answers None and takes no reference when the command is none or auto, but
  with SSBD present and the command prctl or seccomp it chooses that mode, affected or
  not, and takes \<open>ssbd_userset_key\<close> if the key is not yet enabled; the Spectre V2
  selector leaves the choice as it was when the parsed command is none or auto. With
  mitigations globally off the Spectre V2 selector leaves the choice as it was; the
  choice is Off for MDS, MMIO, Spectre V1, affected L1TF and SSB (whose parser then
  yields the none command, and no reference is taken); RETBleed returns at once; TAA is
  Off unless RTM is disabled on affected hardware (TSX-disabled); SRBDS and GDS reach Off
  only after their TSX, hypervisor, microcode and lock checks.
\<close>

theorem selector_not_affected_or_off:
  "((\<not> boot_cpu_has_bug f (bug_of k) \<or> cpu_mitigations_off f) \<and> k \<noteq> SpeculativeStoreBypass
      \<longrightarrow> effect_counts (select_mitigation k f s) = effect_counts s)
   \<and> (\<not> boot_cpu_has_bug f (bug_of k) \<and> k \<in> {MDS, TAA, MMIOStaleData, SpectreV1} \<longrightarrow>
        choice_is_off k (select_mitigation k f s))
   \<and> (\<not> boot_cpu_has_bug f (bug_of k) \<and> k \<in> {SRBDS, GDS, RETBleed, L1TF} \<longrightarrow>
        select_mitigation k f s = s)
   \<and> (\<not> boot_cpu_has_bug f X86_BUG_SPEC_STORE_BYPASS
        \<and> ssb_cmd s \<in> {SPEC_STORE_BYPASS_CMD_NONE, SPEC_STORE_BYPASS_CMD_AUTO} \<longrightarrow>
        choice_is_off SpeculativeStoreBypass (ssb_select_mitigation f s)
        \<and> effect_counts (ssb_select_mitigation f s) = effect_counts s)
   \<and> (boot_cpu_has f X86_FEATURE_SSBD
        \<and> ssb_cmd s \<in> {SPEC_STORE_BYPASS_CMD_PRCTL, SPEC_STORE_BYPASS_CMD_SECCOMP}
        \<and> \<not> static_key_enabled (ssbd_userset_key s) \<longrightarrow>
        \<not> choice_is_off SpeculativeStoreBypass (ssb_select_mitigation f s)
        \<and> ssbd_userset_key (ssb_select_mitigation f s) = atomic_inc (ssbd_userset_key s))
   \<and> (\<not> boot_cpu_has_bug f X86_BUG_SPECTRE_V2
        \<and> fst (spectre_v2_parse_cmdline f (cmdline_nospectre_v2 f) (cmdline_spectre_v2_ret f)
                 (cmdline_spectre_v2_arg f) s)
            \<in> {SPECTRE_V2_CMD_NONE, SPECTRE_V2_CMD_AUTO} \<longrightarrow>
        spectre_v2_enabled (spectre_v2_select_mitigation f s) = spectre_v2_enabled s)
   \<and> (cpu_mitigations_off f \<longrightarrow>
        spectre_v2_enabled (spectre_v2_select_mitigation f s) = spectre_v2_enabled s)
   \<and> (cpu_mitigations_off f \<and> k \<in> {MDS, MMIOStaleData, SpectreV1} \<longrightarrow>
        choice_is_off k (select_mitigation k f s))
   \<and> (cpu_mitigations_off f \<longrightarrow>
        taa_mitigation (taa_select_mitigation f s) =
          (if boot_cpu_has_bug f X86_BUG_TAA \<and> \<not> boot_cpu_has f X86_FEATURE_RTM
           then TAA_MITIGATION_TSX_DISABLED else TAA_MITIGATION_OFF))
   \<and> (cpu_mitigations_off f \<longrightarrow> retbleed_select_mitigation f s = s)
   \<and> (cpu_mitigations_off f \<and> boot_cpu_has_bug f X86_BUG_L1TF \<longrightarrow>
        choice_is_off L1TF (l1tf_select_mitigation f s))
   \<and> (cpu_mitigations_off f \<longrightarrow>
        choice_is_off SpeculativeStoreBypass
          (ssb_select_mitigation f (ssb_parse_cmdline f nossbd ret arg s))
        \<and> effect_counts (ssb_select_mitigation f (ssb_parse_cmdline f nossbd ret arg s))
            = effect_counts s)
   \<and> (cpu_mitigations_off f \<and> boot_cpu_has_bug f X86_BUG_SRBDS \<longrightarrow>
        srbds_mitigation (srbds_select_mitigation f s) =
          (if test_mask (ia32_cap f) ARCH_CAP_MDS_NO \<and> \<not> boot_cpu_has f X86_FEATURE_RTM
              \<and> \<not> boot_cpu_has_bug f X86_BUG_MMIO_STALE_DATA
           then SRBDS_MITIGATION_TSX_OFF
           else if boot_cpu_has f X86_FEATURE_HYPERVISOR then SRBDS_MITIGATION_HYPERVISOR
           else if \<not> boot_cpu_has f X86_FEATURE_SRBDS_CTRL then SRBDS_MITIGATION_UCODE_NEEDED
           else SRBDS_MITIGATION_OFF))
   \<and> (cpu_mitigations_off f \<and> boot_cpu_has_bug f X86_BUG_GDS \<longrightarrow>
        gds_mitigation (gds_select_mitigation f s) =
          (if boot_cpu_has f X86_FEATURE_HYPERVISOR then GDS_MITIGATION_HYPERVISOR
           else if \<not> test_mask (ia32_cap f) ARCH_CAP_GDS_CTRL then GDS_MITIGATION_UCODE_NEEDED
           else if test_mask (mcu_opt_ctrl s) GDS_MITG_LOCKED then GDS_MITIGATION_FULL_LOCKED
           else GDS_MITIGATION_OFF))"
proof -
  have c1: "(\<not> boot_cpu_has_bug f (bug_of k) \<or> cpu_mitigations_off f)
              \<and> k \<noteq> SpeculativeStoreBypass
      \<longrightarrow> effect_counts (select_mitigation k f s) = effect_counts s"
    using not_affected_or_off_counts [of f k s] by blast
  have c2: "\<not> boot_cpu_has_bug f (bug_of k) \<and> k \<in> {MDS, TAA, MMIOStaleData, SpectreV1} \<longrightarrow>
        choice_is_off k (select_mitigation k f s)"
    using not_affected_sets_off [of f k s] by blast
  have c3: "\<not> boot_cpu_has_bug f (bug_of k) \<and> k \<in> {SRBDS, GDS, RETBleed, L1TF} \<longrightarrow>
        select_mitigation k f s = s"
    using not_affected_returns [of f k s] by blast
  have c4: "\<not> boot_cpu_has_bug f X86_BUG_SPEC_STORE_BYPASS
        \<and> ssb_cmd s \<in> {SPEC_STORE_BYPASS_CMD_NONE, SPEC_STORE_BYPASS_CMD_AUTO} \<longrightarrow>
        choice_is_off SpeculativeStoreBypass (ssb_select_mitigation f s)
        \<and> effect_counts (ssb_select_mitigation f s) = effect_counts s"
    using ssb_select_none [of f s] by auto
  have c5: "boot_cpu_has f X86_FEATURE_SSBD
        \<and> ssb_cmd s \<in> {SPEC_STORE_BYPASS_CMD_PRCTL, SPEC_STORE_BYPASS_CMD_SECCOMP}
        \<and> \<not> static_key_enabled (ssbd_userset_key s) \<longrightarrow>
        \<not> choice_is_off SpeculativeStoreBypass (ssb_select_mitigation f s)
        \<and> ssbd_userset_key (ssb_select_mitigation f s) = atomic_inc (ssbd_userset_key s)"
    using ssb_select_forced [of f s] by auto
  have c6: "\<not> boot_cpu_has_bug f X86_BUG_SPECTRE_V2
        \<and> fst (spectre_v2_parse_cmdline f (cmdline_nospectre_v2 f) (cmdline_spectre_v2_ret f)
                 (cmdline_spectre_v2_arg f) s)
            \<in> {SPECTRE_V2_CMD_NONE, SPECTRE_V2_CMD_AUTO} \<longrightarrow>
        spectre_v2_enabled (spectre_v2_select_mitigation f s) = spectre_v2_enabled s"
    using spectre_v2_select_keeps [of f s] by auto
  have c7: "cpu_mitigations_off f \<longrightarrow>
        spectre_v2_enabled (spectre_v2_select_mitigation f s) = spectre_v2_enabled s"
    using spectre_v2_select_keeps [of f s] spectre_v2_parse_cmdline_off [of f] by auto
  have c8: "cpu_mitigations_off f \<and> k \<in> {MDS, MMIOStaleData, SpectreV1} \<longrightarrow>
        choice_is_off k (select_mitigation k f s)"
    using mitigations_off_sets_off [of f k s] by blast
  have c9: "cpu_mitigations_off f \<longrightarrow>
        taa_mitigation (taa_select_mitigation f s) =
          (if boot_cpu_has_bug f X86_BUG_TAA \<and> \<not> boot_cpu_has f X86_FEATURE_RTM
           then TAA_MITIGATION_TSX_DISABLED else TAA_MITIGATION_OFF)"
    by simp
  have c10: "cpu_mitigations_off f \<longrightarrow> retbleed_select_mitigation f s = s"
    by (simp add: retbleed_select_mitigation_def)
  have c11: "cpu_mitigations_off f \<and> boot_cpu_has_bug f X86_BUG_L1TF \<longrightarrow>
        choice_is_off L1TF (l1tf_select_mitigation f s)"
    by (simp add: l1tf_select_own)
  have c12: "cpu_mitigations_off f \<longrightarrow>
        choice_is_off SpeculativeStoreBypass
          (ssb_select_mitigation f (ssb_parse_cmdline f nossbd ret arg s))
        \<and> effect_counts (ssb_select_mitigation f (ssb_parse_cmdline f nossbd ret arg s))
            = effect_counts s"
  proof
    assume off: "cpu_mitigations_off f"
    note n = ssb_cmd_after_parse [OF off, of nossbd ret arg s]
    have e: "effect_counts (ssb_parse_cmdline f nossbd ret arg s) = effect_counts s"
      by (simp add: effect_counts_def)
    from ssb_select_none [of f "ssb_parse_cmdline f nossbd ret arg s"] n e
    show "choice_is_off SpeculativeStoreBypass
            (ssb_select_mitigation f (ssb_parse_cmdline f nossbd ret arg s))
          \<and> effect_counts (ssb_select_mitigation f (ssb_parse_cmdline f nossbd ret arg s))
              = effect_counts s"
      by simp
  qed
  have c13: "cpu_mitigations_off f \<and> boot_cpu_has_bug f X86_BUG_SRBDS \<longrightarrow>
        srbds_mitigation (srbds_select_mitigation f s) =
          (if test_mask (ia32_cap f) ARCH_CAP_MDS_NO \<and> \<not> boot_cpu_has f X86_FEATURE_RTM
              \<and> \<not> boot_cpu_has_bug f X86_BUG_MMIO_STALE_DATA
           then SRBDS_MITIGATION_TSX_OFF
           else if boot_cpu_has f X86_FEATURE_HYPERVISOR then SRBDS_MITIGATION_HYPERVISOR
           else if \<not> boot_cpu_has f X86_FEATURE_SRBDS_CTRL then SRBDS_MITIGATION_UCODE_NEEDED
           else SRBDS_MITIGATION_OFF)"
    by (simp add: srbds_select_own)
  have c14: "cpu_mitigations_off f \<and> boot_cpu_has_bug f X86_BUG_GDS \<longrightarrow>
        gds_mitigation (gds_select_mitigation f s) =
          (if boot_cpu_has f X86_FEATURE_HYPERVISOR then GDS_MITIGATION_HYPERVISOR
           else if \<not> test_mask (ia32_cap f) ARCH_CAP_GDS_CTRL then GDS_MITIGATION_UCODE_NEEDED
           else if test_mask (mcu_opt_ctrl s) GDS_MITG_LOCKED then GDS_MITIGATION_FULL_LOCKED
           else GDS_MITIGATION_OFF)"
    by (simp add: gds_select_own)
  show ?thesis
    by (rule conjI [OF c1 conjI [OF c2 conjI [OF c3 conjI [OF c4 conjI [OF c5 conjI [OF c6
          conjI [OF c7 conjI [OF c8 conjI [OF c9 conjI [OF c10 conjI [OF c11 conjI [OF c12
          conjI [OF c13 c14]]]]]]]]]]]]])
qed

text \<open>
  The witness: a machine with SSBD and no bug at all (at boot, and after
  \<open>spec_store_bypass_disable=prctl\<close>), and a machine with most bugs under
  \<open>mitigations=off\<close>.
\<close>

theorem selector_not_affected_or_off_witness:
  "\<not> boot_cpu_has_bug (with_caps {X86_FEATURE_SSBD}) (bug_of MDS)
   \<and> MDS \<in> {MDS, TAA, MMIOStaleData, SpectreV1}
   \<and> MDS \<noteq> SpeculativeStoreBypass
   \<and> choice_is_off MDS
        (select_mitigation MDS (with_caps {X86_FEATURE_SSBD})
           (boot_state (with_caps {X86_FEATURE_SSBD}) 0 0))
   \<and> effect_counts
        (select_mitigation MDS (with_caps {X86_FEATURE_SSBD})
           (boot_state (with_caps {X86_FEATURE_SSBD}) 0 0)) = (0, 0, 0, 0)
   \<and> \<not> boot_cpu_has_bug (with_caps {X86_FEATURE_SSBD}) (bug_of GDS)
   \<and> GDS \<in> {SRBDS, GDS, RETBleed, L1TF}
   \<and> gds_mitigation
        (select_mitigation GDS (with_caps {X86_FEATURE_SSBD})
           (boot_state (with_caps {X86_FEATURE_SSBD}) 0 0))
       = GDS_MITIGATION_FULL
   \<and> \<not> boot_cpu_has_bug (with_caps {X86_FEATURE_SSBD}) X86_BUG_SPEC_STORE_BYPASS
   \<and> ssb_cmd (boot_state (with_caps {X86_FEATURE_SSBD}) 0 0) = SPEC_STORE_BYPASS_CMD_NONE
   \<and> choice_is_off SpeculativeStoreBypass
        (ssb_select_mitigation (with_caps {X86_FEATURE_SSBD})
           (boot_state (with_caps {X86_FEATURE_SSBD}) 0 0))
   \<and> effect_counts
        (ssb_select_mitigation (with_caps {X86_FEATURE_SSBD})
           (boot_state (with_caps {X86_FEATURE_SSBD}) 0 0)) = (0, 0, 0, 0)
   \<and> boot_cpu_has (with_caps {X86_FEATURE_SSBD}) X86_FEATURE_SSBD
   \<and> ssb_cmd
        (ssb_parse_cmdline (with_caps {X86_FEATURE_SSBD}) False 5 ''prctl''
           (boot_state (with_caps {X86_FEATURE_SSBD}) 0 0)) = SPEC_STORE_BYPASS_CMD_PRCTL
   \<and> \<not> static_key_enabled
          (ssbd_userset_key
             (ssb_parse_cmdline (with_caps {X86_FEATURE_SSBD}) False 5 ''prctl''
                (boot_state (with_caps {X86_FEATURE_SSBD}) 0 0)))
   \<and> ssbd_userset_key
        (ssb_select_mitigation (with_caps {X86_FEATURE_SSBD})
           (ssb_parse_cmdline (with_caps {X86_FEATURE_SSBD}) False 5 ''prctl''
              (boot_state (with_caps {X86_FEATURE_SSBD}) 0 0))) = 1
   \<and> \<not> boot_cpu_has_bug (with_caps {X86_FEATURE_SSBD}) X86_BUG_SPECTRE_V2
   \<and> fst (spectre_v2_parse_cmdline (with_caps {X86_FEATURE_SSBD})
             (cmdline_nospectre_v2 (with_caps {X86_FEATURE_SSBD}))
             (cmdline_spectre_v2_ret (with_caps {X86_FEATURE_SSBD}))
             (cmdline_spectre_v2_arg (with_caps {X86_FEATURE_SSBD}))
             (boot_state (with_caps {X86_FEATURE_SSBD}) 0 0)) = SPECTRE_V2_CMD_AUTO
   \<and> spectre_v2_enabled
        (spectre_v2_select_mitigation (with_caps {X86_FEATURE_SSBD})
           (boot_state (with_caps {X86_FEATURE_SSBD}) 0 0)) = SPECTRE_V2_NONE
   \<and> cpu_mitigations_off all_bugs_mitigations_off
   \<and> boot_cpu_has_bug all_bugs_mitigations_off X86_BUG_L1TF
   \<and> boot_cpu_has_bug all_bugs_mitigations_off X86_BUG_SRBDS
   \<and> boot_cpu_has_bug all_bugs_mitigations_off X86_BUG_GDS
   \<and> spectre_v2_enabled
        (spectre_v2_select_mitigation all_bugs_mitigations_off
           (boot_state all_bugs_mitigations_off 0 0)) = SPECTRE_V2_NONE
   \<and> choice_is_off MDS
        (select_mitigation MDS all_bugs_mitigations_off (boot_state all_bugs_mitigations_off 0 0))
   \<and> effect_counts
        (select_mitigation MDS all_bugs_mitigations_off (boot_state all_bugs_mitigations_off 0 0))
       = (0, 0, 0, 0)
   \<and> taa_mitigation
        (taa_select_mitigation all_bugs_mitigations_off (boot_state all_bugs_mitigations_off 0 0))
       = TAA_MITIGATION_TSX_DISABLED
   \<and> retbleed_select_mitigation all_bugs_mitigations_off (boot_state all_bugs_mitigations_off 0 0)
       = boot_state all_bugs_mitigations_off 0 0
   \<and> choice_is_off L1TF
        (l1tf_select_mitigation all_bugs_mitigations_off (boot_state all_bugs_mitigations_off 0 0))
   \<and> choice_is_off SpeculativeStoreBypass
        (ssb_select_mitigation all_bugs_mitigations_off
           (ssb_parse_cmdline all_bugs_mitigations_off False 2 ''on''
              (boot_state all_bugs_mitigations_off 0 0)))
   \<and> effect_counts
        (ssb_select_mitigation all_bugs_mitigations_off
           (ssb_parse_cmdline all_bugs_mitigations_off False 2 ''on''
              (boot_state all_bugs_mitigations_off 0 0))) = (0, 0, 0, 0)
   \<and> srbds_mitigation
        (srbds_select_mitigation all_bugs_mitigations_off (boot_state all_bugs_mitigations_off 0 0))
       = SRBDS_MITIGATION_UCODE_NEEDED
   \<and> gds_mitigation
        (gds_select_mitigation all_bugs_mitigations_off (boot_state all_bugs_mitigations_off 0 0))
       = GDS_MITIGATION_UCODE_NEEDED"
proof -
  let ?f = "with_caps {X86_FEATURE_SSBD}"
  let ?g = all_bugs_mitigations_off
  let ?p = "ssb_parse_cmdline ?f False 5 ''prctl'' (boot_state ?f 0 0)"
  note g_defs = all_bugs_mitigations_off_def mitigations_off_machine_def eval_defs bit_defs
  have h1: "\<not> boot_cpu_has_bug ?f (bug_of MDS)" by (simp add: eval_defs)
  have h2: "\<not> boot_cpu_has_bug ?f (bug_of GDS)" by (simp add: eval_defs)
  have h3: "\<not> boot_cpu_has_bug ?f X86_BUG_SPEC_STORE_BYPASS
            \<and> ssb_cmd (boot_state ?f 0 0) = SPEC_STORE_BYPASS_CMD_NONE
            \<and> boot_cpu_has ?f X86_FEATURE_SSBD
            \<and> \<not> boot_cpu_has_bug ?f X86_BUG_SPECTRE_V2"
    by (simp add: eval_defs)
  have h4: "cpu_mitigations_off ?g" by (simp add: g_defs)
  have h5: "boot_cpu_has_bug ?g X86_BUG_L1TF \<and> boot_cpu_has_bug ?g X86_BUG_SRBDS
            \<and> boot_cpu_has_bug ?g X86_BUG_GDS \<and> boot_cpu_has_bug ?g X86_BUG_TAA
            \<and> \<not> boot_cpu_has ?g X86_FEATURE_RTM \<and> \<not> boot_cpu_has ?g X86_FEATURE_HYPERVISOR
            \<and> \<not> boot_cpu_has ?g X86_FEATURE_SRBDS_CTRL
            \<and> \<not> boot_cpu_has_bug ?g X86_BUG_RETBLEED
            \<and> \<not> test_mask (ia32_cap ?g) ARCH_CAP_MDS_NO
            \<and> \<not> test_mask (ia32_cap ?g) ARCH_CAP_GDS_CTRL"
    by (simp add: g_defs)
  have h6: "ssb_cmd ?p = SPEC_STORE_BYPASS_CMD_PRCTL
            \<and> \<not> static_key_enabled (ssbd_userset_key ?p)"
    by (simp add: ssb_parse_cmdline_def uu_ssb_parse_cmdline_def ssb_mitigation_options_def
          match_option_def eval_defs)
  have z: "ssbd_userset_key ?p = 0"
    by (simp add: eval_defs)
  have h7: "fst (spectre_v2_parse_cmdline ?f (cmdline_nospectre_v2 ?f) (cmdline_spectre_v2_ret ?f)
                  (cmdline_spectre_v2_arg ?f) (boot_state ?f 0 0)) = SPECTRE_V2_CMD_AUTO"
    by (simp add: spectre_v2_parse_cmdline_def eval_defs)
  have b: "effect_counts (boot_state f 0 0) = (0, 0, 0, 0)
           \<and> gds_mitigation (boot_state ?f 0 0) = GDS_MITIGATION_FULL
           \<and> spectre_v2_enabled (boot_state f 0 0) = SPECTRE_V2_NONE" for f
    by (simp add: effect_counts_def eval_defs)
  note t1 = selector_not_affected_or_off [of ?f MDS "boot_state ?f 0 0"]
  note t2 = selector_not_affected_or_off [of ?f GDS "boot_state ?f 0 0"]
  note t3 = selector_not_affected_or_off [of ?f MDS ?p]
  note t4 = selector_not_affected_or_off [of ?g MDS "boot_state ?g 0 0" False 2 "''on''"]
  have r1: "choice_is_off MDS (select_mitigation MDS ?f (boot_state ?f 0 0))
            \<and> effect_counts (select_mitigation MDS ?f (boot_state ?f 0 0)) = (0, 0, 0, 0)
            \<and> choice_is_off SpeculativeStoreBypass (ssb_select_mitigation ?f (boot_state ?f 0 0))
            \<and> effect_counts (ssb_select_mitigation ?f (boot_state ?f 0 0)) = (0, 0, 0, 0)
            \<and> spectre_v2_enabled (spectre_v2_select_mitigation ?f (boot_state ?f 0 0))
                = SPECTRE_V2_NONE"
    using t1 h1 h3 h7 b [of ?f] by simp
  have r2: "gds_mitigation (select_mitigation GDS ?f (boot_state ?f 0 0)) = GDS_MITIGATION_FULL"
    using t2 h2 b [of ?f] by simp
  have pre: "boot_cpu_has ?f X86_FEATURE_SSBD
             \<and> ssb_cmd ?p \<in> {SPEC_STORE_BYPASS_CMD_PRCTL, SPEC_STORE_BYPASS_CMD_SECCOMP}
             \<and> \<not> static_key_enabled (ssbd_userset_key ?p)"
    using h3 h6 by simp
  have r3: "ssbd_userset_key (ssb_select_mitigation ?f ?p) = 1"
    using t3 [THEN conjunct2, THEN conjunct2, THEN conjunct2, THEN conjunct2, THEN conjunct1,
              THEN mp, OF pre]
    unfolding z by simp
  have r4: "spectre_v2_enabled (spectre_v2_select_mitigation ?g (boot_state ?g 0 0))
              = SPECTRE_V2_NONE
            \<and> choice_is_off MDS (select_mitigation MDS ?g (boot_state ?g 0 0))
            \<and> effect_counts (select_mitigation MDS ?g (boot_state ?g 0 0)) = (0, 0, 0, 0)
            \<and> taa_mitigation (taa_select_mitigation ?g (boot_state ?g 0 0))
                = TAA_MITIGATION_TSX_DISABLED
            \<and> retbleed_select_mitigation ?g (boot_state ?g 0 0) = boot_state ?g 0 0
            \<and> choice_is_off L1TF (l1tf_select_mitigation ?g (boot_state ?g 0 0))
            \<and> choice_is_off SpeculativeStoreBypass
                 (ssb_select_mitigation ?g
                    (ssb_parse_cmdline ?g False 2 ''on'' (boot_state ?g 0 0)))
            \<and> effect_counts
                 (ssb_select_mitigation ?g
                    (ssb_parse_cmdline ?g False 2 ''on'' (boot_state ?g 0 0))) = (0, 0, 0, 0)
            \<and> srbds_mitigation (srbds_select_mitigation ?g (boot_state ?g 0 0))
                = SRBDS_MITIGATION_UCODE_NEEDED
            \<and> gds_mitigation (gds_select_mitigation ?g (boot_state ?g 0 0))
                = GDS_MITIGATION_UCODE_NEEDED"
    using t4 h4 h5 b [of ?g] by simp
  have n: "MDS \<in> {MDS, TAA, MMIOStaleData, SpectreV1}" "MDS \<noteq> SpeculativeStoreBypass"
          "GDS \<in> {SRBDS, GDS, RETBleed, L1TF}"
    by simp_all
  show ?thesis
    using h1 h2 h3 h4 h5 h6 h7 r1 r2 r3 r4 n by (simp only: simp_thms)
qed

end
